theory Spec2Isabelle
  imports Complex_Main
begin

section \<open>Cosmic Strikes: the simulation core\<close>

text \<open>
  A shallow embedding of the game reducer (\<^verbatim>\<open>frontend/src/features/game.ts\<close>) and of
  the difficulty tables it imports (\<^verbatim>\<open>difficultyV2\<close>).

  JavaScript numbers are modelled in two ways. Counters, scores, levels and millisecond
  time stamps only ever hold integers and are \<open>int\<close>. Coordinates, velocities and the
  difficulty factors are \<open>real\<close>: the arithmetic of the model is exact where the code's is
  IEEE double arithmetic, so a comparison that falls exactly on a boundary in the model
  (a bullet at \<^verbatim>\<open>y = 4.5\<close>, an alien at exactly the hit radius, a product that is an
  integer before \<^verbatim>\<open>Math.floor\<close>) can fall on the other side in the code, and an integer
  above \<open>2^53\<close> is rounded there. The runs evaluated below stay away from these. The reducer reads \<^verbatim>\<open>Date.now()\<close> and \<^verbatim>\<open>Math.random()\<close>;
  the model takes what they return as arguments.
\<close>

subsection \<open>Types of game.ts\<close>

datatype AlienType = Red | Green | Blue | Yellow | Purple | Cyan

datatype PowerUp = FireRate | DoubleBullets | SpreadShot | ScoreMultiplier | Shield | SlowMotion

datatype GamePhase = Idle | Playing | Paused | GameOver | Boss | WaveTransition | Victory

datatype Victory = Minor | Major | Ultimate

datatype DifficultyMode = ModeNormal | ModeElite | ModeMastery

datatype DifficultyBracket = Training | Cadet | Pilot | Veteran | Ace | Elite

text \<open>
  Entity ids are strings built from the module counter: \<^verbatim>\<open>e7\<close>, \<^verbatim>\<open>e7-left\<close>,
  \<^verbatim>\<open>e7-center\<close>, \<^verbatim>\<open>e7-right\<close> and \<^verbatim>\<open>boss-e7\<close>. The code only compares them for
  equality, and two such strings are equal exactly when counter and decoration are, so
  an id is modelled by its counter value and its decoration.
\<close>

datatype EntityId = Plain nat | DashLeft nat | DashCenter nat | DashRight nat | BossDash nat

record Bullet =
  bulletId :: EntityId
  bulletX :: real
  bulletY :: real
  bulletVx :: real
  bulletVy :: real

text \<open>
  The optional field \<^verbatim>\<open>behavior\<close> of an alien is never written or read by the reducer
  and is left out. \<^verbatim>\<open>vx\<close> is optional in the type, but every alien the reducer creates
  has it, so it is a plain number here.
\<close>

record Alien =
  alienId :: EntityId
  alienX :: real
  alienY :: real
  alienType :: AlienType
  hp :: int
  maxHp :: int
  isBoss :: bool
  alienVx :: real

record ActivePowerUp =
  powerType :: PowerUp
  expiresAt :: int

record WaveNotification =
  noteWave :: int
  noteLevel :: int
  bossName :: "string option"

subsection \<open>difficultyV2: level progression\<close>

definition BASE_SCORE_PER_LEVEL :: int where
  "BASE_SCORE_PER_LEVEL = 500"

definition getRequiredScoreForLevel :: "int \<Rightarrow> int" where
  "getRequiredScoreForLevel level =
     (if level \<le> 1 then 0
      else \<lfloor>real_of_int BASE_SCORE_PER_LEVEL * real_of_int level * (real_of_int level powr 0.85)\<rfloor>)"

text \<open>The loop \<^verbatim>\<open>for (let level = 1; level <= 100; level++)\<close> of calculateLevelFromScore.\<close>

function levelScan :: "int \<Rightarrow> int \<Rightarrow> int" where
  "levelScan score level =
     (if level \<le> 100
      then (if score < getRequiredScoreForLevel level then max 1 (level - 1)
            else levelScan score (level + 1))
      else 100)"
  by pat_completeness auto
termination
  by (relation "measure (\<lambda>(s, l). nat (101 - l))") auto

declare levelScan.simps [simp del]

definition calculateLevelFromScore :: "int \<Rightarrow> int" where
  "calculateLevelFromScore score = levelScan score 1"

definition getDifficultyBracket :: "int \<Rightarrow> DifficultyBracket" where
  "getDifficultyBracket level =
     (if level \<le> 10 then Training
      else if level \<le> 25 then Cadet
      else if level \<le> 40 then Pilot
      else if level \<le> 60 then Veteran
      else if level \<le> 80 then Ace
      else Elite)"

subsection \<open>difficultyV2: wave configuration\<close>

datatype WaveSpecial = Basic | Zigzag | Scouts | Shielded | Formations | EliteWave

record WaveConfig =
  configWave :: int
  enemiesPerSecond :: real
  configAlienSpeed :: real
  configAlienHP :: int
  special :: WaveSpecial
  duration :: int
  enemiesRequired :: int

definition getLevelWithinBracket :: "int \<Rightarrow> int" where
  "getLevelWithinBracket level =
     (if level \<le> 10 then level - 1
      else if level \<le> 25 then level - 11
      else if level \<le> 40 then level - 26
      else if level \<le> 60 then level - 41
      else if level \<le> 80 then level - 61
      else level - 81)"

text \<open>The four locals \<^verbatim>\<open>baseEPS\<close>, \<^verbatim>\<open>baseSpeed\<close>, \<^verbatim>\<open>baseHP\<close>, \<^verbatim>\<open>special\<close> of getWaveConfig.\<close>

definition waveBase :: "int \<Rightarrow> int \<Rightarrow> real \<times> real \<times> int \<times> WaveSpecial" where
  "waveBase level wave =
     (if level \<le> 10 then
        (0.5 + real_of_int (wave - 1) * 0.25, 0.03 + real_of_int (wave - 1) * 0.0075, 1, Basic)
      else if level \<le> 25 then
        (1.2 + real_of_int (wave - 1) * 0.2, 0.06 + real_of_int (wave - 1) * 0.0075,
         (if wave \<ge> 3 then 2 else 1), (if wave \<ge> 3 then Zigzag else Basic))
      else if level \<le> 40 then
        (2.0 + real_of_int (wave - 1) * 0.25, 0.09 + real_of_int (wave - 1) * 0.005,
         2, (if wave \<ge> 4 then Scouts else Zigzag))
      else if level \<le> 60 then
        (3.0 + real_of_int (wave - 1) * 0.375, 0.11 + real_of_int (wave - 1) * 0.005,
         (if wave \<ge> 3 then 3 else 2), (if wave \<ge> 4 then Shielded else Scouts))
      else if level \<le> 80 then
        (4.5 + real_of_int (wave - 1) * 0.375, 0.13 + real_of_int (wave - 1) * 0.005,
         (if wave \<ge> 4 then 4 else 3), (if wave \<ge> 3 then Formations else Shielded))
      else
        (6.0 + real_of_int (wave - 1) * 0.5, 0.15 + real_of_int (wave - 1) * 0.0075,
         (if wave \<ge> 2 then 4 else 3), (if wave \<ge> 4 then EliteWave else Formations)))"

definition getWaveConfig :: "int \<Rightarrow> int \<Rightarrow> WaveConfig" where
  "getWaveConfig level wave =
     (case waveBase level wave of (baseEPS, baseSpeed, baseHP, sp) \<Rightarrow>
        let levelWithinBracket = getLevelWithinBracket level;
            scaleFactor = 1 + real_of_int levelWithinBracket * 0.02
        in \<lparr> configWave = wave,
             enemiesPerSecond = baseEPS * scaleFactor,
             configAlienSpeed = baseSpeed * scaleFactor,
             configAlienHP = baseHP,
             special = sp,
             duration = 15000 + wave * 3000,
             enemiesRequired = \<lfloor>(5 + real_of_int level * 0.3) * real_of_int wave\<rfloor> \<rparr>)"

definition getAlienSpeed :: "int \<Rightarrow> int \<Rightarrow> bool \<Rightarrow> real" where
  "getAlienSpeed level wave hasSlowMotion =
     (let config = getWaveConfig level wave
      in if hasSlowMotion then configAlienSpeed config * 0.5 else configAlienSpeed config)"

subsection \<open>difficultyV2: bosses, combo, score, power-ups, pressure\<close>

definition isBossLevel :: "int \<Rightarrow> bool" where
  "isBossLevel level = (level > 0 \<and> level mod 10 = 0 \<and> level \<le> 100)"

record ComboInfo =
  multiplier :: int
  tier :: string
  isPerfect :: bool

definition getComboMultiplier :: "int \<Rightarrow> ComboInfo" where
  "getComboMultiplier c =
     (if c \<ge> 50 then \<lparr> multiplier = 5, tier = ''PERFECT'', isPerfect = True \<rparr>
      else if c \<ge> 31 then \<lparr> multiplier = 4, tier = ''INCREDIBLE'', isPerfect = False \<rparr>
      else if c \<ge> 16 then \<lparr> multiplier = 3, tier = ''AWESOME'', isPerfect = False \<rparr>
      else if c \<ge> 6 then \<lparr> multiplier = 2, tier = ''GREAT'', isPerfect = False \<rparr>
      else \<lparr> multiplier = 1, tier = [], isPerfect = False \<rparr>)"

definition calculateKillScore :: "int \<Rightarrow> int \<Rightarrow> int \<Rightarrow> bool \<Rightarrow> DifficultyMode \<Rightarrow> int" where
  "calculateKillScore alienHP wave c boss difficultyMode =
     (let basePoints = 500 * alienHP * wave;
          m = multiplier (getComboMultiplier c);
          modeMultiplier = (if difficultyMode = ModeMastery then 2
                            else if difficultyMode = ModeElite then 1.5 else (1::real));
          bossMultiplier = (if boss then 5 else (1::int))
      in \<lfloor>real_of_int basePoints * real_of_int m * modeMultiplier * real_of_int bossMultiplier\<rfloor>)"

definition getWaveClearBonus :: "int \<Rightarrow> int \<Rightarrow> int" where
  "getWaveClearBonus wave level = 5000 * wave + level * 100"

definition PERFECT_COMBO_BONUS :: int where
  "PERFECT_COMBO_BONUS = 10000"

definition getPowerUpDuration :: "int \<Rightarrow> int" where
  "getPowerUpDuration level =
     (if level \<le> 25 then 8000 else if level \<le> 50 then 6000
      else if level \<le> 75 then 4000 else 3000)"

definition getPowerUpDropChance :: "int \<Rightarrow> real" where
  "getPowerUpDropChance level =
     (if level < 50 then 1.0 else if level < 70 then 0.85
      else if level < 90 then 0.7 else 0.6)"

record ScorePressure =
  comboDecay :: real
  missedPenalty :: int
  idlePenalty :: bool

definition getScorePressure :: "int \<Rightarrow> ScorePressure" where
  "getScorePressure level =
     (if level < 50 then \<lparr> comboDecay = 0, missedPenalty = 0, idlePenalty = False \<rparr>
      else if level < 70 then \<lparr> comboDecay = 0.1, missedPenalty = 100, idlePenalty = False \<rparr>
      else if level < 90 then \<lparr> comboDecay = 0.2, missedPenalty = 250, idlePenalty = True \<rparr>
      else \<lparr> comboDecay = 0.3, missedPenalty = 500, idlePenalty = True \<rparr>)"

record VictoryCondition =
  conditionLevel :: int
  conditionTitle :: string
  conditionType :: Victory
  reward :: string

definition VICTORY_CONDITIONS :: "VictoryCondition list" where
  "VICTORY_CONDITIONS =
     [\<lparr> conditionLevel = 10, conditionTitle = ''Sector Cleared'', conditionType = Minor,
        reward = ''Cadet Badge'' \<rparr>,
      \<lparr> conditionLevel = 25, conditionTitle = ''Pilot Status'', conditionType = Minor,
        reward = ''Pilot Wings'' \<rparr>,
      \<lparr> conditionLevel = 50, conditionTitle = ''Elite Sector'', conditionType = Major,
        reward = ''Elite Title + 100K Bonus'' \<rparr>,
      \<lparr> conditionLevel = 75, conditionTitle = ''Ace Status'', conditionType = Major,
        reward = ''Ace Medal + 500K Bonus'' \<rparr>,
      \<lparr> conditionLevel = 100, conditionTitle = ''COSMIC SAVIOR'', conditionType = Ultimate,
        reward = ''Credits Roll + 1M Bonus'' \<rparr>]"

definition checkVictoryCondition :: "int \<Rightarrow> VictoryCondition option" where
  "checkVictoryCondition level = find (\<lambda>v. conditionLevel v = level) VICTORY_CONDITIONS"

subsection \<open>The game state\<close>

text \<open>
  The fields of \<^verbatim>\<open>GameState\<close> in the order of the interface. The last field,
  \<open>idCounter\<close>, is the module variable \<^verbatim>\<open>idCounter\<close> of game.ts, which lives beside the
  Redux state and is never reset.
\<close>

record GameState =
  playerX :: real
  playerY :: real
  bullets :: "Bullet list"
  aliens :: "Alien list"
  running :: bool
  score :: int
  lives :: int
  level :: int
  previousLevel :: int
  wave :: int
  waveKills :: int
  waveEnemiesSpawned :: int
  waveStartTime :: int
  status :: GamePhase
  difficultyMode :: DifficultyMode
  activePowerUps :: "ActivePowerUp list"
  scoreMultiplier :: int
  combo :: int
  maxCombo :: int
  comboTimer :: int
  comboTier :: string
  difficultyBracket :: DifficultyBracket
  bossActive :: bool
  bossHP :: int
  bossMaxHP :: int
  totalKills :: int
  missedAliens :: int
  escapeStreak :: int
  victoryType :: "Victory option"
  victoryTitle :: string
  lastShotTime :: int
  missesInWindow :: int
  missWindowStart :: int
  showWaveNotification :: bool
  waveNotificationData :: "WaveNotification option"
  shotsFired :: int
  shotsHit :: int
  gameStartTime :: int
  powerUpsCollected :: int
  wavesCompleted :: int
  idCounter :: nat

text \<open>
  \<^verbatim>\<open>initialState\<close> reads \<^verbatim>\<open>Date.now()\<close> three times when the module is loaded; the
  three readings are the arguments.
\<close>

definition initialState :: "int \<Rightarrow> int \<Rightarrow> int \<Rightarrow> GameState" where
  "initialState shotClock missClock startClock =
     \<lparr> playerX = 0, playerY = -2.5, bullets = [], aliens = [], running = True,
       score = 0, lives = 3, level = 1, previousLevel = 1,
       wave = 1, waveKills = 0, waveEnemiesSpawned = 0, waveStartTime = 0,
       status = Idle, difficultyMode = ModeNormal,
       activePowerUps = [], scoreMultiplier = 1,
       combo = 0, maxCombo = 0, comboTimer = 0, comboTier = [],
       difficultyBracket = Training, bossActive = False, bossHP = 0, bossMaxHP = 0,
       totalKills = 0, missedAliens = 0, escapeStreak = 0,
       victoryType = None, victoryTitle = [],
       lastShotTime = shotClock, missesInWindow = 0, missWindowStart = missClock,
       showWaveNotification = False, waveNotificationData = None,
       shotsFired = 0, shotsHit = 0, gameStartTime = startClock,
       powerUpsCollected = 0, wavesCompleted = 0,
       idCounter = 0 \<rparr>"

record Reward =
  points :: int
  powerUp :: PowerUp

fun alienRewards :: "AlienType \<Rightarrow> Reward" where
  "alienRewards Red = \<lparr> points = 100, powerUp = FireRate \<rparr>"
| "alienRewards Green = \<lparr> points = 150, powerUp = Shield \<rparr>"
| "alienRewards Blue = \<lparr> points = 200, powerUp = SlowMotion \<rparr>"
| "alienRewards Yellow = \<lparr> points = 250, powerUp = ScoreMultiplier \<rparr>"
| "alienRewards Purple = \<lparr> points = 300, powerUp = DoubleBullets \<rparr>"
| "alienRewards Cyan = \<lparr> points = 350, powerUp = SpreadShot \<rparr>"

definition clamp :: "real \<Rightarrow> real \<Rightarrow> real \<Rightarrow> real" where
  "clamp v lo hi = (if v < lo then lo else if v > hi then hi else v)"

definition HIT_RADIUS_NORMAL :: real where
  "HIT_RADIUS_NORMAL = 0.0625"

definition HIT_RADIUS_BOSS :: real where
  "HIT_RADIUS_BOSS = 0.16"

definition BULLET_LIMIT :: nat where
  "BULLET_LIMIT = 100"

definition ALIEN_LIMIT :: nat where
  "ALIEN_LIMIT = 80"

text \<open>\<^verbatim>\<open>activePowerUps.some(p => p.type === t)\<close>\<close>

definition hasPowerUp :: "PowerUp \<Rightarrow> ActivePowerUp list \<Rightarrow> bool" where
  "hasPowerUp t ps = list_ex (\<lambda>p. powerType p = t) ps"

subsection \<open>Reducers: move, fire, spawnAlien\<close>

text \<open>The payload fields of move are optional, with defaults 0, 0 and 1.\<close>

definition move :: "real option \<Rightarrow> real option \<Rightarrow> real option \<Rightarrow> GameState \<Rightarrow> GameState" where
  "move dxOpt dyOpt sensitivityOpt state =
     (let dx = (case dxOpt of None \<Rightarrow> 0 | Some v \<Rightarrow> v);
          dy = (case dyOpt of None \<Rightarrow> 0 | Some v \<Rightarrow> v);
          sensitivity = (case sensitivityOpt of None \<Rightarrow> 1 | Some v \<Rightarrow> v)
      in state\<lparr> playerX := clamp (playerX state + dx * sensitivity) (-3) 3,
                playerY := clamp (playerY state + dy * sensitivity) (-3) 3 \<rparr>)"

text \<open>
  fire: \<open>now\<close> is the reading of \<^verbatim>\<open>Date.now()\<close>. \<^verbatim>\<open>slice(-BULLET_LIMIT + 3)\<close> keeps
  the last 97 bullets. \<^verbatim>\<open>generateId\<close> increments the counter and returns the new value.
\<close>

definition fire :: "int \<Rightarrow> GameState \<Rightarrow> GameState" where
  "fire now state =
     (let s1 = state\<lparr> lastShotTime := now \<rparr>;
          s2 = (if length (bullets s1) \<ge> BULLET_LIMIT
                then s1\<lparr> bullets := drop (length (bullets s1) - (BULLET_LIMIT - 3)) (bullets s1) \<rparr>
                else s1);
          n = idCounter s2 + 1;
          s3 = s2\<lparr> idCounter := n \<rparr>;
          hasSpreadShot = hasPowerUp SpreadShot (activePowerUps s3);
          hasDoubleBullets = hasPowerUp DoubleBullets (activePowerUps s3)
      in if hasSpreadShot then
           s3\<lparr> bullets := bullets s3 @
                  [\<lparr> bulletId = DashLeft n, bulletX = playerX s3 - 0.2, bulletY = playerY s3 + 0.5,
                     bulletVx = -0.05, bulletVy = 0.15 \<rparr>,
                   \<lparr> bulletId = DashCenter n, bulletX = playerX s3, bulletY = playerY s3 + 0.5,
                     bulletVx = 0, bulletVy = 0.15 \<rparr>,
                   \<lparr> bulletId = DashRight n, bulletX = playerX s3 + 0.2, bulletY = playerY s3 + 0.5,
                     bulletVx = 0.05, bulletVy = 0.15 \<rparr>],
               shotsFired := shotsFired s3 + 3 \<rparr>
         else if hasDoubleBullets then
           s3\<lparr> bullets := bullets s3 @
                  [\<lparr> bulletId = DashLeft n, bulletX = playerX s3 - 0.1, bulletY = playerY s3 + 0.5,
                     bulletVx = 0, bulletVy = 0.15 \<rparr>,
                   \<lparr> bulletId = DashRight n, bulletX = playerX s3 + 0.1, bulletY = playerY s3 + 0.5,
                     bulletVx = 0, bulletVy = 0.15 \<rparr>],
               shotsFired := shotsFired s3 + 2 \<rparr>
         else
           s3\<lparr> bullets := bullets s3 @
                  [\<lparr> bulletId = Plain n, bulletX = playerX s3, bulletY = playerY s3 + 0.5,
                     bulletVx = 0, bulletVy = 0.15 \<rparr>],
               shotsFired := shotsFired s3 + 1 \<rparr>)"

text \<open>
  spawnAlien: \<^verbatim>\<open>isBoss\<close> and \<^verbatim>\<open>vx\<close> are optional in the payload (defaults false and 0);
  \<^verbatim>\<open>!action.payload.isBoss\<close> is true for a missing field.
\<close>

definition spawnAlien ::
  "real \<Rightarrow> real \<Rightarrow> AlienType \<Rightarrow> int \<Rightarrow> bool option \<Rightarrow> real option \<Rightarrow> GameState \<Rightarrow> GameState" where
  "spawnAlien x y t h isBossOpt vxOpt state =
     (if length (aliens state) \<ge> ALIEN_LIMIT \<and> \<not> (isBossOpt = Some True) then state
      else
        let boss = (case isBossOpt of None \<Rightarrow> False | Some b \<Rightarrow> b);
            vx = (case vxOpt of None \<Rightarrow> 0 | Some v \<Rightarrow> v);
            n = idCounter state + 1;
            s1 = state\<lparr> idCounter := n,
                        aliens := aliens state @
                          [\<lparr> alienId = Plain n, alienX = x, alienY = y, alienType = t, hp = h,
                             maxHp = h, isBoss = boss, alienVx = vx \<rparr>] \<rparr>
        in if boss then s1\<lparr> bossActive := True \<rparr> else s1)"

subsection \<open>Reducers: the blocks of tick\<close>

text \<open>Soft loss, idle detection: 15 seconds without a shot.\<close>

definition idleDetection :: "int \<Rightarrow> GameState \<Rightarrow> GameState" where
  "idleDetection currentTime state =
     (if combo state > 0 \<and> currentTime - lastShotTime state \<ge> 15000
      then state\<lparr> combo := 0, comboTimer := 0 \<rparr>
      else state)"

text \<open>Soft loss, miss window: the window is restarted once it is 10 seconds old.\<close>

definition missWindowReset :: "int \<Rightarrow> GameState \<Rightarrow> GameState" where
  "missWindowReset currentTime state =
     (if currentTime - missWindowStart state \<ge> 10000
      then state\<lparr> missesInWindow := 0, missWindowStart := currentTime \<rparr>
      else state)"

text \<open>Combo decay, level 50 and above.\<close>

definition comboDecayStep :: "ScorePressure \<Rightarrow> GameState \<Rightarrow> GameState" where
  "comboDecayStep pressure state =
     (if combo state > 0 \<and> comboDecay pressure > 0 then
        let s1 = state\<lparr> comboTimer := comboTimer state - 16 \<rparr>
        in if comboTimer s1 \<le> 0
           then s1\<lparr> combo := max 0 (combo s1 - 1), comboTimer := 2000 \<rparr>
           else s1
      else state)"

text \<open>
  The backwards loop that splices expired power-ups out keeps the others in order:
  it is a filter.
\<close>

definition removeExpired :: "int \<Rightarrow> ActivePowerUp list \<Rightarrow> ActivePowerUp list" where
  "removeExpired currentTime ps = filter (\<lambda>p. \<not> expiresAt p \<le> currentTime) ps"

text \<open>
  The bullet loop moves every bullet and compacts the array in place, keeping the
  bullets with \<^verbatim>\<open>y < 4.5\<close>.
\<close>

definition updateBullet :: "Bullet \<Rightarrow> Bullet" where
  "updateBullet b = b\<lparr> bulletX := bulletX b + bulletVx b, bulletY := bulletY b + bulletVy b \<rparr>"

definition updateBullets :: "Bullet list \<Rightarrow> Bullet list" where
  "updateBullets bs = filter (\<lambda>b. bulletY b < 4.5) (map updateBullet bs)"

text \<open>Alien movement; \<^verbatim>\<open>if (a.vx)\<close> is false for 0.\<close>

definition moveAlien :: "real \<Rightarrow> Alien \<Rightarrow> Alien" where
  "moveAlien alienSpeed a =
     (let a1 = (if alienVx a \<noteq> 0 then
                  let a2 = a\<lparr> alienX := alienX a + alienVx a \<rparr>
                  in if \<bar>alienX a2\<bar> > 3.5
                     then (let a3 = a2\<lparr> alienVx := - alienVx a2 \<rparr>
                           in a3\<lparr> alienX := alienX a3 + alienVx a3 \<rparr>)
                     else a2
                else a)
      in a1\<lparr> alienY := alienY a1 - alienSpeed \<rparr>)"

text \<open>
  Collision detection. The loop over the bullets carries the state (the aliens lose hit
  points in place, \<^verbatim>\<open>shotsHit\<close> grows) and the two locals \<^verbatim>\<open>destroyedAliens\<close> and
  \<^verbatim>\<open>bulletsToRemove\<close>. An alien whose hit points are already 0 or less stays in the
  array until the loop is over, so a later bullet can hit it again, and it is then
  pushed on \<^verbatim>\<open>destroyedAliens\<close> again.
\<close>

definition bulletHitsAlien :: "Bullet \<Rightarrow> Alien \<Rightarrow> bool" where
  "bulletHitsAlien b a =
     (let dy = alienY a - bulletY b
      in if dy > 0.5 \<or> dy < -0.5 then False
         else
           let dx = alienX a - bulletX b;
               distSq = dx * dx + dy * dy;
               hitRadiusSq = (if isBoss a then HIT_RADIUS_BOSS else HIT_RADIUS_NORMAL)
           in distSq < hitRadiusSq)"

fun findIndexById :: "EntityId \<Rightarrow> Alien list \<Rightarrow> nat option" where
  "findIndexById i [] = None"
| "findIndexById i (a # as) =
     (if alienId a = i then Some 0 else map_option Suc (findIndexById i as))"

record CollisionAcc =
  accState :: GameState
  destroyedAliens :: "Alien list"
  bulletsToRemove :: "EntityId set"

definition registerHit :: "Bullet \<Rightarrow> Alien \<Rightarrow> CollisionAcc \<Rightarrow> CollisionAcc" where
  "registerHit b a acc =
     (let rm = insert (bulletId b) (bulletsToRemove acc);
          s1 = (accState acc)\<lparr> shotsHit := shotsHit (accState acc) + 1 \<rparr>
      in case findIndexById (alienId a) (aliens s1) of
           None \<Rightarrow> acc\<lparr> accState := s1, bulletsToRemove := rm \<rparr>
         | Some alienIndex \<Rightarrow>
             let target = (aliens s1 ! alienIndex)\<lparr> hp := hp (aliens s1 ! alienIndex) - 1 \<rparr>;
                 s2 = s1\<lparr> aliens := (aliens s1)[alienIndex := target] \<rparr>
             in acc\<lparr> accState := s2,
                     destroyedAliens :=
                       (if hp target \<le> 0 then destroyedAliens acc @ [target]
                        else destroyedAliens acc),
                     bulletsToRemove := rm \<rparr>)"

definition collideBullet :: "Bullet \<Rightarrow> CollisionAcc \<Rightarrow> CollisionAcc" where
  "collideBullet b acc =
     (if bulletId b \<in> bulletsToRemove acc then acc
      else if bulletY b < -4 \<or> bulletY b > 5 then acc
      else case find (bulletHitsAlien b) (aliens (accState acc)) of
             None \<Rightarrow> acc
           | Some a \<Rightarrow> registerHit b a acc)"

definition detectCollisions :: "GameState \<Rightarrow> CollisionAcc" where
  "detectCollisions state =
     foldl (\<lambda>acc b. collideBullet b acc)
       \<lparr> accState = state, destroyedAliens = [], bulletsToRemove = {} \<rparr>
       (bullets state)"

text \<open>
  Kills and rewards: the body of the loop over \<^verbatim>\<open>destroyedAliens\<close>. \<open>draw\<close> is what
  \<^verbatim>\<open>Math.random()\<close> returns when it is called (it is not called for a boss).
  \<^verbatim>\<open>Math.floor\<close> is applied to a product of integers.
\<close>

fun findPowerUpIndex :: "PowerUp \<Rightarrow> ActivePowerUp list \<Rightarrow> nat option" where
  "findPowerUpIndex t [] = None"
| "findPowerUpIndex t (p # ps) =
     (if powerType p = t then Some 0 else map_option Suc (findPowerUpIndex t ps))"

definition collectPowerUp :: "int \<Rightarrow> Reward \<Rightarrow> GameState \<Rightarrow> GameState" where
  "collectPowerUp currentTime rw state =
     (let powerUpDuration = getPowerUpDuration (level state);
          expiry = currentTime + powerUpDuration
      in if powerUp rw = Shield then
           state\<lparr> lives := min 3 (lives state + 1),
                   powerUpsCollected := powerUpsCollected state + 1 \<rparr>
         else
           let s1 = (case findPowerUpIndex (powerUp rw) (activePowerUps state) of
                       Some existingIndex \<Rightarrow>
                         state\<lparr> activePowerUps := (activePowerUps state)
                           [existingIndex :=
                              (activePowerUps state ! existingIndex)\<lparr> expiresAt := expiry \<rparr>] \<rparr>
                     | None \<Rightarrow>
                         state\<lparr> activePowerUps := activePowerUps state @
                           [\<lparr> powerType = powerUp rw, expiresAt = expiry \<rparr>] \<rparr>)
           in s1\<lparr> powerUpsCollected := powerUpsCollected s1 + 1 \<rparr>)"

definition bossDefeated :: "GameState \<Rightarrow> GameState" where
  "bossDefeated state =
     (let s1 = state\<lparr> bossActive := False \<rparr>
      in if level s1 \<ge> 100 then
           s1\<lparr> status := Victory, victoryType := Some Ultimate, victoryTitle := ''COSMIC SAVIOR'' \<rparr>
         else if level s1 \<ge> 50 then
           s1\<lparr> status := Victory, victoryType := Some Major, victoryTitle := ''ELITE SECTOR'' \<rparr>
         else if level s1 \<ge> 10 then
           s1\<lparr> status := Victory, victoryType := Some Minor, victoryTitle := ''SECTOR CLEARED'' \<rparr>
         else s1)"

text \<open>The steps of the loop body, in the order of the source.\<close>

definition comboIncrease :: "GameState \<Rightarrow> GameState" where
  "comboIncrease state =
     (let s1 = state\<lparr> combo := combo state + 1 \<rparr>
      in s1\<lparr> maxCombo := max (maxCombo s1) (combo s1),
             comboTimer := 2000,
             totalKills := totalKills s1 + 1,
             waveKills := waveKills s1 + 1,
             escapeStreak := 0 \<rparr>)"

definition perfectComboBonus :: "GameState \<Rightarrow> GameState" where
  "perfectComboBonus state =
     (if combo state = 50 then state\<lparr> score := score state + PERFECT_COMBO_BONUS \<rparr>
      else state)"

definition creditKill :: "Reward \<Rightarrow> Alien \<Rightarrow> GameState \<Rightarrow> GameState" where
  "creditKill rw alien state =
     (let bossMultiplier = (if isBoss alien then 5 else (1::int))
      in state\<lparr> score := score state +
           \<lfloor>real_of_int (points rw * scoreMultiplier state * bossMultiplier)\<rfloor> \<rparr>)"

definition powerUpDrop :: "int \<Rightarrow> real \<Rightarrow> Reward \<Rightarrow> Alien \<Rightarrow> GameState \<Rightarrow> GameState" where
  "powerUpDrop currentTime draw rw alien state =
     (let dropChance = getPowerUpDropChance (level state);
          shouldDrop = (isBoss alien \<or> draw < dropChance)
      in if shouldDrop then collectPowerUp currentTime rw state else state)"

definition processKill :: "int \<Rightarrow> real \<Rightarrow> Alien \<Rightarrow> GameState \<Rightarrow> GameState" where
  "processKill currentTime draw alien state =
     (let rw = alienRewards (alienType alien);
          s1 = comboIncrease state;
          s2 = perfectComboBonus s1;
          s3 = creditKill rw alien s2;
          s4 = powerUpDrop currentTime draw rw alien s3
      in if isBoss alien then bossDefeated s4 else s4)"

text \<open>The \<open>k\<close>-th entry of \<^verbatim>\<open>destroyedAliens\<close> is processed with the draw \<open>random k\<close>.\<close>

fun processKills :: "int \<Rightarrow> (nat \<Rightarrow> real) \<Rightarrow> nat \<Rightarrow> Alien list \<Rightarrow> GameState \<Rightarrow> GameState" where
  "processKills currentTime random k [] state = state"
| "processKills currentTime random k (alien # rest) state =
     processKills currentTime random (Suc k) rest
       (processKill currentTime (random k) alien state)"

text \<open>Cannon against aliens: the first alien within radius 0.5, then \<^verbatim>\<open>break\<close>.\<close>

definition CANNON_HIT_RADIUS :: real where
  "CANNON_HIT_RADIUS = 0.5"

definition alienHitsCannon :: "GameState \<Rightarrow> Alien \<Rightarrow> bool" where
  "alienHitsCannon state a =
     (let dx = alienX a - playerX state;
          dy = alienY a - playerY state;
          distSq = dx * dx + dy * dy
      in distSq < CANNON_HIT_RADIUS * CANNON_HIT_RADIUS)"

definition cannonCollision :: "GameState \<Rightarrow> GameState" where
  "cannonCollision state =
     (case find (alienHitsCannon state) (aliens state) of
        None \<Rightarrow> state
      | Some a \<Rightarrow>
          let s1 = state\<lparr> lives := lives state - 1, combo := 0 \<rparr>;
              s2 = s1\<lparr> aliens := filter (\<lambda>alien. alienId alien \<noteq> alienId a) (aliens s1) \<rparr>
          in if lives s2 \<le> 0 then s2\<lparr> lives := 0, status := GameOver \<rparr> else s2)"

text \<open>
  Aliens reaching the bottom: the body of the loop, for one alien. The loop runs over
  the array \<^verbatim>\<open>state.aliens\<close> as it is when the loop starts; the body replaces
  \<^verbatim>\<open>state.aliens\<close> by a filtered copy.
\<close>

definition MISS_THRESHOLD :: int where
  "MISS_THRESHOLD = 3"

definition softMissReset :: "int \<Rightarrow> GameState \<Rightarrow> GameState" where
  "softMissReset currentTime state =
     (if missesInWindow state \<ge> MISS_THRESHOLD
      then state\<lparr> combo := 0, comboTimer := 0, missesInWindow := 0,
                   missWindowStart := currentTime \<rparr>
      else state)"

definition recordEscape :: "GameState \<Rightarrow> GameState" where
  "recordEscape state =
     state\<lparr> lives := max 0 (lives state - 1),
            missedAliens := missedAliens state + 1,
            escapeStreak := escapeStreak state + 1,
            missesInWindow := missesInWindow state + 1 \<rparr>"

definition bossReachedBottom :: "Alien \<Rightarrow> GameState \<Rightarrow> GameState" where
  "bossReachedBottom a state =
     (if isBoss a then state\<lparr> status := GameOver, lives := 0 \<rparr> else state)"

definition screenOverflow :: "GameState \<Rightarrow> GameState" where
  "screenOverflow state =
     (if escapeStreak state \<ge> 5 then state\<lparr> status := GameOver, lives := 0 \<rparr> else state)"

definition missedScorePenalty :: "ScorePressure \<Rightarrow> GameState \<Rightarrow> GameState" where
  "missedScorePenalty pressure state =
     (if missedPenalty pressure > 0
      then state\<lparr> score := max 0 (score state - missedPenalty pressure) \<rparr>
      else state)"

definition removeAlienById :: "EntityId \<Rightarrow> GameState \<Rightarrow> GameState" where
  "removeAlienById i state =
     state\<lparr> aliens := filter (\<lambda>alien. alienId alien \<noteq> i) (aliens state) \<rparr>"

definition outOfLives :: "GameState \<Rightarrow> GameState" where
  "outOfLives state = (if lives state = 0 then state\<lparr> status := GameOver \<rparr> else state)"

definition alienEscapes :: "int \<Rightarrow> ScorePressure \<Rightarrow> Alien \<Rightarrow> GameState \<Rightarrow> GameState" where
  "alienEscapes currentTime pressure a state =
     (if alienY a < -3 then
        let s1 = recordEscape state;
            s2 = softMissReset currentTime s1;
            s3 = bossReachedBottom a s2;
            s4 = screenOverflow s3;
            s5 = missedScorePenalty pressure s4;
            s6 = removeAlienById (alienId a) s5
        in outOfLives s6
      else state)"

definition aliensReachingBottom :: "int \<Rightarrow> ScorePressure \<Rightarrow> GameState \<Rightarrow> GameState" where
  "aliensReachingBottom currentTime pressure state =
     foldl (\<lambda>s a. alienEscapes currentTime pressure a s) state (aliens state)"

subsection \<open>Reducers: tick\<close>

text \<open>
  The first part of tick: level from score, combo tier, the two soft-loss timers, combo
  decay, expiry of power-ups, score multiplier. \<^verbatim>\<open>comboInfo\<close> is computed before the
  idle reset and the decay and is used after them.
\<close>

definition tickTimers :: "int \<Rightarrow> GameState \<Rightarrow> GameState" where
  "tickTimers currentTime state =
     (let s1 = state\<lparr> previousLevel := level state \<rparr>;
          s2 = s1\<lparr> level := calculateLevelFromScore (score s1) \<rparr>;
          s3 = s2\<lparr> difficultyBracket := getDifficultyBracket (level s2) \<rparr>;
          comboInfo = getComboMultiplier (combo s3);
          s4 = s3\<lparr> comboTier := tier comboInfo \<rparr>;
          s5 = idleDetection currentTime s4;
          s6 = missWindowReset currentTime s5;
          pressure = getScorePressure (level s6);
          s7 = comboDecayStep pressure s6;
          s8 = s7\<lparr> activePowerUps := removeExpired currentTime (activePowerUps s7) \<rparr>;
          hasScoreMultiplier = hasPowerUp ScoreMultiplier (activePowerUps s8);
          powerUpMultiplier = (if hasScoreMultiplier then 2 else 1)
      in s8\<lparr> scoreMultiplier := multiplier comboInfo * powerUpMultiplier \<rparr>)"

text \<open>The second part: alien speed, bullets and aliens move.\<close>

definition tickMovement :: "GameState \<Rightarrow> GameState" where
  "tickMovement state =
     (let hasSlowMotion = hasPowerUp SlowMotion (activePowerUps state);
          alienSpeed = getAlienSpeed (level state) (wave state) hasSlowMotion;
          s1 = state\<lparr> bullets := updateBullets (bullets state) \<rparr>
      in s1\<lparr> aliens := map (moveAlien alienSpeed) (aliens s1) \<rparr>)"

text \<open>The state and the two locals when the collision loop of a tick is over.\<close>

definition tickCollisions :: "int \<Rightarrow> GameState \<Rightarrow> CollisionAcc" where
  "tickCollisions currentTime state =
     detectCollisions (tickMovement (tickTimers currentTime state))"

text \<open>
  tick up to the removal of destroyed aliens and spent bullets: \<open>currentTime\<close> is the
  reading of \<^verbatim>\<open>Date.now()\<close> at the start of tick, \<open>random\<close> the draws of
  \<^verbatim>\<open>Math.random()\<close>.
\<close>

definition tickResolved :: "int \<Rightarrow> (nat \<Rightarrow> real) \<Rightarrow> GameState \<Rightarrow> GameState" where
  "tickResolved currentTime random state =
     (let acc = tickCollisions currentTime state;
          s3 = processKills currentTime random 0 (destroyedAliens acc) (accState acc);
          s4 = s3\<lparr> aliens := filter (\<lambda>a. hp a > 0) (aliens s3) \<rparr>
      in s4\<lparr> bullets := filter (\<lambda>b. bulletId b \<notin> bulletsToRemove acc) (bullets s4) \<rparr>)"

text \<open>
  tick. The local \<^verbatim>\<open>pressure\<close> is computed from the level in the first part; the level
  is not assigned again in tick, so it is read from the state here.
\<close>

definition tick :: "int \<Rightarrow> (nat \<Rightarrow> real) \<Rightarrow> GameState \<Rightarrow> GameState" where
  "tick currentTime random state =
     (let s5 = tickResolved currentTime random state;
          pressure = getScorePressure (level s5);
          s6 = cannonCollision s5
      in aliensReachingBottom currentTime pressure s6)"

subsection \<open>Reducers: the rest\<close>

text \<open>
  reset copies \<^verbatim>\<open>initialState\<close> over the state and then assigns four fresh readings of
  \<^verbatim>\<open>Date.now()\<close>; three of them overwrite the three readings \<^verbatim>\<open>initialState\<close> holds.
\<close>

definition reset :: "int \<Rightarrow> int \<Rightarrow> int \<Rightarrow> int \<Rightarrow> GameState \<Rightarrow> GameState" where
  "reset waveClock shotClock missClock startClock state =
     (initialState shotClock missClock startClock)
       \<lparr> waveStartTime := waveClock, idCounter := idCounter state \<rparr>"

definition setGameStatus :: "GamePhase \<Rightarrow> GameState \<Rightarrow> GameState" where
  "setGameStatus p state = state\<lparr> status := p \<rparr>"

definition setDifficultyMode :: "DifficultyMode \<Rightarrow> GameState \<Rightarrow> GameState" where
  "setDifficultyMode m state = state\<lparr> difficultyMode := m \<rparr>"

definition showWaveNotificationAction :: "WaveNotification \<Rightarrow> GameState \<Rightarrow> GameState" where
  "showWaveNotificationAction payload state =
     state\<lparr> showWaveNotification := True, waveNotificationData := Some payload \<rparr>"

definition hideWaveNotification :: "GameState \<Rightarrow> GameState" where
  "hideWaveNotification state =
     state\<lparr> showWaveNotification := False, waveNotificationData := None \<rparr>"

definition continueAfterVictory :: "GameState \<Rightarrow> GameState" where
  "continueAfterVictory state =
     state\<lparr> status := Playing, victoryType := None, victoryTitle := [] \<rparr>"

definition nextWave :: "int \<Rightarrow> GameState \<Rightarrow> GameState" where
  "nextWave now state =
     (let currentWave = wave state;
          s1 = state\<lparr> score := score state + getWaveClearBonus currentWave (level state),
                        wavesCompleted := wavesCompleted state + 1 \<rparr>;
          s2 = (if currentWave \<ge> 5 then
                  (if isBossLevel (level s1) then
                     s1\<lparr> status := Boss, showWaveNotification := True,
                         waveNotificationData :=
                           Some \<lparr> noteWave = 5, noteLevel = level s1,
                                  bossName = Some ''BOSS INCOMING'' \<rparr> \<rparr>
                   else
                     s1\<lparr> wave := 1, showWaveNotification := True,
                         waveNotificationData :=
                           Some \<lparr> noteWave = 1, noteLevel = level s1 + 1, bossName = None \<rparr> \<rparr>)
                else
                  s1\<lparr> wave := currentWave + 1, showWaveNotification := True,
                      waveNotificationData :=
                        Some \<lparr> noteWave = currentWave + 1, noteLevel = level s1,
                               bossName = None \<rparr> \<rparr>)
      in s2\<lparr> waveKills := 0, waveEnemiesSpawned := 0, waveStartTime := now \<rparr>)"

definition startWave :: "int \<Rightarrow> GameState \<Rightarrow> GameState" where
  "startWave now state = state\<lparr> status := Playing, waveStartTime := now \<rparr>"

definition startBoss :: "GameState \<Rightarrow> GameState" where
  "startBoss state = state\<lparr> status := Boss, aliens := [] \<rparr>"

definition incrementWaveSpawns :: "GameState \<Rightarrow> GameState" where
  "incrementWaveSpawns state = state\<lparr> waveEnemiesSpawned := waveEnemiesSpawned state + 1 \<rparr>"

definition incrementScore :: "int \<Rightarrow> GameState \<Rightarrow> GameState" where
  "incrementScore n state = state\<lparr> score := score state + n \<rparr>"

definition spawnBoss :: "int \<Rightarrow> AlienType \<Rightarrow> GameState \<Rightarrow> GameState" where
  "spawnBoss h t state =
     (let n = idCounter state + 1
      in state\<lparr> idCounter := n,
                aliens := aliens state @
                  [\<lparr> alienId = BossDash n, alienX = 0, alienY = 4.5, alienType = t, hp = h,
                     maxHp = h, isBoss = True, alienVx = 0.02 \<rparr>],
                bossActive := True, bossHP := h, bossMaxHP := h, status := Boss \<rparr>)"

definition updateBossHP :: "int \<Rightarrow> GameState \<Rightarrow> GameState" where
  "updateBossHP h state =
     (let s1 = state\<lparr> bossHP := h \<rparr>
      in if bossHP s1 \<le> 0 then s1\<lparr> bossActive := False \<rparr> else s1)"

definition setVictory :: "GameState \<Rightarrow> GameState" where
  "setVictory state = state\<lparr> status := Victory \<rparr>"

subsection \<open>Actions, runs and reachable states\<close>

text \<open>
  One constructor per reducer of the slice, with its payload and with the readings of
  the clock and of the random source that the reducer takes.
\<close>

datatype Action =
    Move "real option" "real option" "real option"
  | Fire int
  | SpawnAlien real real AlienType int "bool option" "real option"
  | Tick int "nat \<Rightarrow> real"
  | Reset int int int int
  | SetGameStatus GamePhase
  | SetDifficultyMode DifficultyMode
  | ShowWaveNotification WaveNotification
  | HideWaveNotification
  | ContinueAfterVictory
  | NextWave int
  | StartWave int
  | StartBoss
  | IncrementWaveSpawns
  | IncrementScore int
  | SpawnBoss int AlienType
  | UpdateBossHP int
  | SetVictory

fun reducer :: "GameState \<Rightarrow> Action \<Rightarrow> GameState" where
  "reducer state (Move dx dy sensitivity) = move dx dy sensitivity state"
| "reducer state (Fire now) = fire now state"
| "reducer state (SpawnAlien x y t h boss vx) = spawnAlien x y t h boss vx state"
| "reducer state (Tick now random) = tick now random state"
| "reducer state (Reset t1 t2 t3 t4) = reset t1 t2 t3 t4 state"
| "reducer state (SetGameStatus p) = setGameStatus p state"
| "reducer state (SetDifficultyMode m) = setDifficultyMode m state"
| "reducer state (ShowWaveNotification payload) = showWaveNotificationAction payload state"
| "reducer state HideWaveNotification = hideWaveNotification state"
| "reducer state ContinueAfterVictory = continueAfterVictory state"
| "reducer state (NextWave now) = nextWave now state"
| "reducer state (StartWave now) = startWave now state"
| "reducer state StartBoss = startBoss state"
| "reducer state IncrementWaveSpawns = incrementWaveSpawns state"
| "reducer state (IncrementScore n) = incrementScore n state"
| "reducer state (SpawnBoss h t) = spawnBoss h t state"
| "reducer state (UpdateBossHP h) = updateBossHP h state"
| "reducer state SetVictory = setVictory state"

definition run :: "GameState \<Rightarrow> Action list \<Rightarrow> GameState" where
  "run state actions = foldl reducer state actions"

inductive reachable :: "GameState \<Rightarrow> bool" where
  reachable_initial: "reachable (initialState shotClock missClock startClock)"
| reachable_step: "reachable state \<Longrightarrow> reachable (reducer state action)"

subsection \<open>Notions used in the statements\<close>


fun isReset :: "Action \<Rightarrow> bool" where
  "isReset (Reset t1 t2 t3 t4) = True"
| "isReset other = False"

text \<open>What the kill of one alien is worth in a tick, before the PERFECT bonus.\<close>

definition killCredit :: "GameState \<Rightarrow> Alien \<Rightarrow> int" where
  "killCredit state alien =
     points (alienRewards (alienType alien)) * scoreMultiplier state * (if isBoss alien then 5 else 1)"

text \<open>The aliens of a list that are below the lower boundary.\<close>

definition escaped :: "Alien list \<Rightarrow> Alien list" where
  "escaped as = filter (\<lambda>a. alienY a < -3) as"


text \<open>
  The state outside the combo bookkeeping: two states with the same image agree on
  every field except \<^verbatim>\<open>combo\<close>, \<^verbatim>\<open>comboTimer\<close>, \<^verbatim>\<open>maxCombo\<close>, \<^verbatim>\<open>score\<close>, \<^verbatim>\<open>lastShotTime\<close>,
  \<^verbatim>\<open>missesInWindow\<close> and \<^verbatim>\<open>missWindowStart\<close>.
\<close>

definition besidesCombo :: "GameState \<Rightarrow> GameState" where
  "besidesCombo state =
     state\<lparr> combo := 0, comboTimer := 0, maxCombo := 0, score := 0, lastShotTime := 0,
            missesInWindow := 0, missWindowStart := 0 \<rparr>"

text \<open>The kills of the tick take the combo from below 50 to 50: the PERFECT bonus is added.\<close>

definition perfectInTick :: "int \<Rightarrow> GameState \<Rightarrow> bool" where
  "perfectInTick currentTime state =
     (combo (tickTimers currentTime state) < 50 \<and>
      50 \<le> combo (tickTimers currentTime state) +
        int (length (destroyedAliens (tickCollisions currentTime state))))"

section \<open>Level progression\<close>

lemma levelScan_hit:
  "lv \<le> 100 \<Longrightarrow> sc < getRequiredScoreForLevel lv
    \<Longrightarrow> levelScan sc lv = max 1 (lv - 1)"
  by (simp add: levelScan.simps [of sc lv])

lemma levelScan_skip:
  "lv \<le> 100 \<Longrightarrow> \<not> sc < getRequiredScoreForLevel lv
    \<Longrightarrow> levelScan sc lv = levelScan sc (lv + 1)"
  by (simp add: levelScan.simps [of sc lv])

lemma levelScan_end: "100 < lv \<Longrightarrow> levelScan sc lv = 100"
  by (simp add: levelScan.simps [of sc lv])

lemma levelScan_lower: "lv \<le> 101 \<Longrightarrow> max 1 (lv - 1) \<le> levelScan sc lv"
proof (induction sc lv rule: levelScan.induct)
  case (1 sc lv)
  show ?case
  proof (cases "lv \<le> 100")
    case True
    show ?thesis
    proof (cases "sc < getRequiredScoreForLevel lv")
      case True
      with \<open>lv \<le> 100\<close> show ?thesis by (simp add: levelScan.simps [of sc lv])
    next
      case False
      with True 1 have "max 1 (lv + 1 - 1) \<le> levelScan sc (lv + 1)" by simp
      with True False show ?thesis by (simp add: levelScan.simps [of sc lv])
    qed
  next
    case False
    with 1 show ?thesis by (simp add: levelScan.simps [of sc lv])
  qed
qed

lemma levelScan_mono: "s1 \<le> s2 \<Longrightarrow> levelScan s1 lv \<le> levelScan s2 lv"
proof (induction s2 lv rule: levelScan.induct)
  case (1 s2 lv)
  show ?case
  proof (cases "lv \<le> 100")
    case le: True
    show ?thesis
    proof (cases "s2 < getRequiredScoreForLevel lv")
      case True
      with 1 le show ?thesis
        by (simp add: levelScan.simps [of s1 lv] levelScan.simps [of s2 lv])
    next
      case ge: False
      show ?thesis
      proof (cases "s1 < getRequiredScoreForLevel lv")
        case True
        have "max 1 (lv + 1 - 1) \<le> levelScan s2 (lv + 1)"
          using le by (intro levelScan_lower) simp
        with True ge le show ?thesis
          by (simp add: levelScan.simps [of s1 lv] levelScan.simps [of s2 lv])
      next
        case False
        with 1 ge le show ?thesis
          by (simp add: levelScan.simps [of s1 lv] levelScan.simps [of s2 lv])
      qed
    qed
  next
    case False
    then show ?thesis
      by (simp add: levelScan.simps [of s1 lv] levelScan.simps [of s2 lv])
  qed
qed

lemma powr_085_ge_one: "1 \<le> x \<Longrightarrow> 1 \<le> x powr 0.85" for x :: real
  using ge_one_powr_ge_zero [of x "0.85"] by simp

lemma required_real_step:
  fixes x :: real
  assumes "1 \<le> x"
  shows "500 * x * (x powr 0.85) + 500 \<le> 500 * (x + 1) * ((x + 1) powr 0.85)"
proof -
  have m: "x powr 0.85 \<le> (x + 1) powr 0.85"
    using assms by (intro powr_mono2) auto
  have o: "1 \<le> (x + 1) powr 0.85"
    using assms by (intro powr_085_ge_one) auto
  have "500 * x * (x powr 0.85) \<le> 500 * x * ((x + 1) powr 0.85)"
    using m assms by (intro mult_left_mono) auto
  moreover have "500 * (x + 1) * ((x + 1) powr 0.85)
      = 500 * x * ((x + 1) powr 0.85) + 500 * ((x + 1) powr 0.85)"
    by (simp add: algebra_simps)
  ultimately show ?thesis using o by linarith
qed

lemma required_strict_step:
  assumes "1 \<le> lv"
  shows "getRequiredScoreForLevel lv < getRequiredScoreForLevel (lv + 1)"
proof (cases "lv = 1")
  case True
  have "1 \<le> (2::real) powr 0.85" by (intro powr_085_ge_one) simp
  then have "(1::real) \<le> 500 * 2 * (2 powr 0.85)" by linarith
  then have "1 \<le> \<lfloor>(500::real) * 2 * (2 powr 0.85)\<rfloor>" by (simp add: le_floor_iff)
  with True show ?thesis
    by (simp add: getRequiredScoreForLevel_def BASE_SCORE_PER_LEVEL_def)
next
  case False
  with assms have l: "2 \<le> lv" by simp
  define x where "x = real_of_int lv"
  have x: "1 \<le> x" using l by (simp add: x_def)
  have "\<lfloor>500 * x * (x powr 0.85)\<rfloor> + 1 = \<lfloor>500 * x * (x powr 0.85) + 1\<rfloor>" by simp
  also have "\<dots> \<le> \<lfloor>500 * (x + 1) * ((x + 1) powr 0.85)\<rfloor>"
    using required_real_step [OF x] by (intro floor_mono) linarith
  finally show ?thesis using l
    by (simp add: getRequiredScoreForLevel_def BASE_SCORE_PER_LEVEL_def x_def add.commute)
qed

lemma required_mono_aux:
  "1 \<le> lv \<Longrightarrow> getRequiredScoreForLevel lv \<le> getRequiredScoreForLevel (lv + int n)"
proof (induction n)
  case 0
  then show ?case by simp
next
  case (Suc n)
  have "getRequiredScoreForLevel (lv + int n) < getRequiredScoreForLevel (lv + int n + 1)"
    using Suc.prems by (intro required_strict_step) simp
  with Suc show ?case by (simp add: algebra_simps)
qed

lemma required_mono:
  assumes "1 \<le> a" "a \<le> b"
  shows "getRequiredScoreForLevel a \<le> getRequiredScoreForLevel b"
proof -
  have "b = a + int (nat (b - a))" using assms by simp
  then show ?thesis using required_mono_aux [OF assms(1), of "nat (b - a)"] by simp
qed

lemma levelScan_at_threshold:
  assumes "1 \<le> L" "L \<le> 100"
  shows "1 \<le> k \<Longrightarrow> k \<le> L + 1 \<Longrightarrow> nat (L + 1 - k) = n
    \<Longrightarrow> levelScan (getRequiredScoreForLevel L) k = L"
proof (induction n arbitrary: k)
  case 0
  then have k: "k = L + 1" by simp
  show ?case
  proof (cases "L = 100")
    case True
    with k show ?thesis by (simp add: levelScan_end)
  next
    case False
    with assms k have "k \<le> 100" by simp
    moreover have "getRequiredScoreForLevel L < getRequiredScoreForLevel k"
      using required_strict_step [OF assms(1)] k by simp
    ultimately show ?thesis using k assms by (simp add: levelScan_hit)
  qed
next
  case (Suc n)
  then have kl: "k \<le> L" by simp
  then have "getRequiredScoreForLevel k \<le> getRequiredScoreForLevel L"
    using Suc.prems by (intro required_mono) auto
  moreover have "levelScan (getRequiredScoreForLevel L) (k + 1) = L"
    using Suc.prems kl by (intro Suc.IH) auto
  ultimately show ?case using kl assms by (simp add: levelScan_skip)
qed


text \<open>Deciding a comparison with a threshold, and the level of a given score.\<close>

lemma required_one: "getRequiredScoreForLevel 1 = 0"
  by (simp add: getRequiredScoreForLevel_def)

lemma lt_required_iff:
  assumes "2 \<le> L" "0 \<le> s"
  shows "(s < getRequiredScoreForLevel L) = ((s + 1) ^ 20 \<le> 500 ^ 20 * L ^ 37)"
proof -
  define x where "x = real_of_int L"
  define a where "a = real_of_int (s + 1)"
  have x: "0 < x" and a: "0 \<le> a" using assms by (simp_all add: x_def a_def)
  have p: "(x powr 0.85) ^ 20 = x ^ 17"
  proof -
    have "(x powr 0.85) ^ 20 = x powr (of_nat 20 * 0.85)"
      using x by (intro powr_power) simp
    also have "of_nat 20 * (0.85::real) = real (17::nat)" by simp
    also have "x powr real (17::nat) = x ^ 17" using x by (rule powr_realpow)
    finally show ?thesis .
  qed
  have b: "0 \<le> 500 * x * (x powr 0.85)" using x by simp
  have "(s < getRequiredScoreForLevel L) = (s + 1 \<le> \<lfloor>500 * x * (x powr 0.85)\<rfloor>)"
    using assms by (auto simp add: getRequiredScoreForLevel_def BASE_SCORE_PER_LEVEL_def x_def)
  also have "\<dots> = (a \<le> 500 * x * (x powr 0.85))"
    by (simp only: le_floor_iff a_def)
  also have "\<dots> = (a ^ 20 \<le> (500 * x * (x powr 0.85)) ^ 20)"
    using a b by (simp add: power_mono_iff)
  also have "(500 * x * (x powr 0.85)) ^ 20 = 500 ^ 20 * x ^ 37"
    by (simp only: power_mult_distrib p) (simp add: power_add [symmetric] mult.assoc)
  also have "(a ^ 20 \<le> 500 ^ 20 * x ^ 37) = (real_of_int ((s + 1) ^ 20) \<le> real_of_int (500 ^ 20 * L ^ 37))"
    by (simp add: a_def x_def)
  also have "\<dots> = ((s + 1) ^ 20 \<le> 500 ^ 20 * L ^ 37)"
    by (simp only: of_int_le_iff)
  finally show ?thesis .
qed

lemma levelScan_upper:
  assumes "2 \<le> L" "L \<le> 100" "s < getRequiredScoreForLevel L"
  shows "1 \<le> k \<Longrightarrow> k \<le> L \<Longrightarrow> nat (L - k) = n \<Longrightarrow> levelScan s k \<le> L - 1"
proof (induction n arbitrary: k)
  case 0
  then have "k = L" by simp
  with assms show ?case by (simp add: levelScan_hit)
next
  case (Suc n)
  show ?case
  proof (cases "s < getRequiredScoreForLevel k")
    case True
    with Suc.prems assms show ?thesis by (simp add: levelScan_hit)
  next
    case False
    moreover have "levelScan s (k + 1) \<le> L - 1"
      using Suc.prems by (intro Suc.IH) auto
    ultimately show ?thesis using Suc.prems assms by (simp add: levelScan_skip)
  qed
qed

lemma level_lt_iff:
  assumes "2 \<le> L" "L \<le> 100"
  shows "(calculateLevelFromScore s < L) = (s < getRequiredScoreForLevel L)"
proof
  assume "s < getRequiredScoreForLevel L"
  then have "levelScan s 1 \<le> L - 1"
    using assms levelScan_upper [of L s 1 "nat (L - 1)"] by simp
  then show "calculateLevelFromScore s < L" by (simp add: calculateLevelFromScore_def)
next
  assume l: "calculateLevelFromScore s < L"
  show "s < getRequiredScoreForLevel L"
  proof (rule ccontr)
    assume "\<not> s < getRequiredScoreForLevel L"
    then have "levelScan (getRequiredScoreForLevel L) 1 \<le> levelScan s 1"
      by (intro levelScan_mono) simp
    moreover have "levelScan (getRequiredScoreForLevel L) 1 = L"
      using assms levelScan_at_threshold [of L 1 "nat L"] by simp
    ultimately show False using l by (simp add: calculateLevelFromScore_def)
  qed
qed

lemma level_ge_one: "1 \<le> calculateLevelFromScore s"
  using levelScan_lower [of 1 s] by (simp add: calculateLevelFromScore_def)

lemma level_le_100: "calculateLevelFromScore s \<le> 100"
proof -
  have "lv \<le> 101 \<Longrightarrow> 1 \<le> lv \<Longrightarrow> levelScan sc lv \<le> 100" for sc lv
  proof (induction sc lv rule: levelScan.induct)
    case (1 sc lv)
    show ?case
    proof (cases "lv \<le> 100")
      case True
      then show ?thesis using 1
        by (cases "sc < getRequiredScoreForLevel lv") (simp_all add: levelScan_hit levelScan_skip)
    next
      case False
      then show ?thesis by (simp add: levelScan_end)
    qed
  qed
  then show ?thesis by (simp add: calculateLevelFromScore_def)
qed

lemma level_eq_if:
  assumes "1 \<le> L" "L < 100"
    and "\<not> s < getRequiredScoreForLevel L" "s < getRequiredScoreForLevel (L + 1)"
  shows "calculateLevelFromScore s = L"
proof -
  have "calculateLevelFromScore s < L + 1"
    using assms by (subst level_lt_iff) auto
  moreover have "L \<le> calculateLevelFromScore s"
  proof (cases "L = 1")
    case True
    then show ?thesis using level_ge_one by simp
  next
    case False
    then have "\<not> calculateLevelFromScore s < L"
      using assms by (subst level_lt_iff) auto
    then show ?thesis by simp
  qed
  ultimately show ?thesis by simp
qed

lemma level_eq_100:
  assumes "\<not> s < getRequiredScoreForLevel 100"
  shows "calculateLevelFromScore s = 100"
proof -
  have "\<not> calculateLevelFromScore s < 100"
    using assms by (subst level_lt_iff) auto
  then show ?thesis using level_le_100 [of s] by simp
qed

text \<open>
  C9. levelFromScore is monotonic: a larger score never gives a smaller level; and it
  is exact at the thresholds: for every level L from 1 to 100, the level of the score
  requiredScore(L) is L, where requiredScore(L) is the floor of 500 * L * L^0.85 for
  L > 1 and 0 otherwise.
\<close>

theorem levelFromScore_monotone_exact:
  "(\<forall>s1 s2. s1 \<le> s2 \<longrightarrow> calculateLevelFromScore s1 \<le> calculateLevelFromScore s2) \<and>
   (\<forall>L \<in> {1..100}. calculateLevelFromScore (getRequiredScoreForLevel L) = L) \<and>
   (\<forall>L. getRequiredScoreForLevel L =
      (if L > 1 then \<lfloor>500 * real_of_int L * (real_of_int L powr 0.85)\<rfloor> else 0))"
proof (intro conjI allI impI ballI)
  fix s1 s2 :: int
  assume "s1 \<le> s2"
  then show "calculateLevelFromScore s1 \<le> calculateLevelFromScore s2"
    unfolding calculateLevelFromScore_def by (rule levelScan_mono)
next
  fix L :: int
  assume "L \<in> {1..100}"
  then show "calculateLevelFromScore (getRequiredScoreForLevel L) = L"
    unfolding calculateLevelFromScore_def
    using levelScan_at_threshold [of L 1 "nat L"] by simp
next
  fix L :: int
  show "getRequiredScoreForLevel L =
      (if L > 1 then \<lfloor>500 * real_of_int L * (real_of_int L powr 0.85)\<rfloor> else 0)"
    by (simp add: getRequiredScoreForLevel_def BASE_SCORE_PER_LEVEL_def)
qed

theorem levelFromScore_monotone_exact_witness:
  "calculateLevelFromScore 0 \<le> calculateLevelFromScore 1802 \<and>
   calculateLevelFromScore (getRequiredScoreForLevel 10) = 10 \<and>
   getRequiredScoreForLevel 1 = 0"
proof -
  note t = levelFromScore_monotone_exact
  have "calculateLevelFromScore 0 \<le> calculateLevelFromScore 1802"
    using t by (meson zero_le_numeral)
  moreover have "calculateLevelFromScore (getRequiredScoreForLevel 10) = 10"
  proof -
    have "(10::int) \<in> {1..100}" by simp
    with conjunct1 [OF conjunct2 [OF t]] show ?thesis by (rule bspec)
  qed
  moreover have "getRequiredScoreForLevel 1 = 0"
    using conjunct2 [OF conjunct2 [OF t]] by simp
  ultimately show ?thesis by simp
qed

section \<open>What each step leaves alone\<close>

text \<open>
  For every step of the reducer, the fields of the state that it does not assign.
\<close>

lemma idleDetection_frame [simp]:
  "playerX (idleDetection t s) = playerX s"
  "playerY (idleDetection t s) = playerY s"
  "bullets (idleDetection t s) = bullets s"
  "aliens (idleDetection t s) = aliens s"
  "running (idleDetection t s) = running s"
  "score (idleDetection t s) = score s"
  "lives (idleDetection t s) = lives s"
  "level (idleDetection t s) = level s"
  "previousLevel (idleDetection t s) = previousLevel s"
  "wave (idleDetection t s) = wave s"
  "waveKills (idleDetection t s) = waveKills s"
  "waveEnemiesSpawned (idleDetection t s) = waveEnemiesSpawned s"
  "waveStartTime (idleDetection t s) = waveStartTime s"
  "status (idleDetection t s) = status s"
  "difficultyMode (idleDetection t s) = difficultyMode s"
  "activePowerUps (idleDetection t s) = activePowerUps s"
  "scoreMultiplier (idleDetection t s) = scoreMultiplier s"
  "maxCombo (idleDetection t s) = maxCombo s"
  "comboTier (idleDetection t s) = comboTier s"
  "difficultyBracket (idleDetection t s) = difficultyBracket s"
  "bossActive (idleDetection t s) = bossActive s"
  "bossHP (idleDetection t s) = bossHP s"
  "bossMaxHP (idleDetection t s) = bossMaxHP s"
  "totalKills (idleDetection t s) = totalKills s"
  "missedAliens (idleDetection t s) = missedAliens s"
  "escapeStreak (idleDetection t s) = escapeStreak s"
  "victoryType (idleDetection t s) = victoryType s"
  "victoryTitle (idleDetection t s) = victoryTitle s"
  "lastShotTime (idleDetection t s) = lastShotTime s"
  "missesInWindow (idleDetection t s) = missesInWindow s"
  "missWindowStart (idleDetection t s) = missWindowStart s"
  "showWaveNotification (idleDetection t s) = showWaveNotification s"
  "waveNotificationData (idleDetection t s) = waveNotificationData s"
  "shotsFired (idleDetection t s) = shotsFired s"
  "shotsHit (idleDetection t s) = shotsHit s"
  "gameStartTime (idleDetection t s) = gameStartTime s"
  "powerUpsCollected (idleDetection t s) = powerUpsCollected s"
  "wavesCompleted (idleDetection t s) = wavesCompleted s"
  "idCounter (idleDetection t s) = idCounter s"
  by (simp_all add: idleDetection_def)

lemma missWindowReset_frame [simp]:
  "playerX (missWindowReset t s) = playerX s"
  "playerY (missWindowReset t s) = playerY s"
  "bullets (missWindowReset t s) = bullets s"
  "aliens (missWindowReset t s) = aliens s"
  "running (missWindowReset t s) = running s"
  "score (missWindowReset t s) = score s"
  "lives (missWindowReset t s) = lives s"
  "level (missWindowReset t s) = level s"
  "previousLevel (missWindowReset t s) = previousLevel s"
  "wave (missWindowReset t s) = wave s"
  "waveKills (missWindowReset t s) = waveKills s"
  "waveEnemiesSpawned (missWindowReset t s) = waveEnemiesSpawned s"
  "waveStartTime (missWindowReset t s) = waveStartTime s"
  "status (missWindowReset t s) = status s"
  "difficultyMode (missWindowReset t s) = difficultyMode s"
  "activePowerUps (missWindowReset t s) = activePowerUps s"
  "scoreMultiplier (missWindowReset t s) = scoreMultiplier s"
  "combo (missWindowReset t s) = combo s"
  "maxCombo (missWindowReset t s) = maxCombo s"
  "comboTimer (missWindowReset t s) = comboTimer s"
  "comboTier (missWindowReset t s) = comboTier s"
  "difficultyBracket (missWindowReset t s) = difficultyBracket s"
  "bossActive (missWindowReset t s) = bossActive s"
  "bossHP (missWindowReset t s) = bossHP s"
  "bossMaxHP (missWindowReset t s) = bossMaxHP s"
  "totalKills (missWindowReset t s) = totalKills s"
  "missedAliens (missWindowReset t s) = missedAliens s"
  "escapeStreak (missWindowReset t s) = escapeStreak s"
  "victoryType (missWindowReset t s) = victoryType s"
  "victoryTitle (missWindowReset t s) = victoryTitle s"
  "lastShotTime (missWindowReset t s) = lastShotTime s"
  "showWaveNotification (missWindowReset t s) = showWaveNotification s"
  "waveNotificationData (missWindowReset t s) = waveNotificationData s"
  "shotsFired (missWindowReset t s) = shotsFired s"
  "shotsHit (missWindowReset t s) = shotsHit s"
  "gameStartTime (missWindowReset t s) = gameStartTime s"
  "powerUpsCollected (missWindowReset t s) = powerUpsCollected s"
  "wavesCompleted (missWindowReset t s) = wavesCompleted s"
  "idCounter (missWindowReset t s) = idCounter s"
  by (simp_all add: missWindowReset_def)

lemma comboDecayStep_frame [simp]:
  "playerX (comboDecayStep p s) = playerX s"
  "playerY (comboDecayStep p s) = playerY s"
  "bullets (comboDecayStep p s) = bullets s"
  "aliens (comboDecayStep p s) = aliens s"
  "running (comboDecayStep p s) = running s"
  "score (comboDecayStep p s) = score s"
  "lives (comboDecayStep p s) = lives s"
  "level (comboDecayStep p s) = level s"
  "previousLevel (comboDecayStep p s) = previousLevel s"
  "wave (comboDecayStep p s) = wave s"
  "waveKills (comboDecayStep p s) = waveKills s"
  "waveEnemiesSpawned (comboDecayStep p s) = waveEnemiesSpawned s"
  "waveStartTime (comboDecayStep p s) = waveStartTime s"
  "status (comboDecayStep p s) = status s"
  "difficultyMode (comboDecayStep p s) = difficultyMode s"
  "activePowerUps (comboDecayStep p s) = activePowerUps s"
  "scoreMultiplier (comboDecayStep p s) = scoreMultiplier s"
  "maxCombo (comboDecayStep p s) = maxCombo s"
  "comboTier (comboDecayStep p s) = comboTier s"
  "difficultyBracket (comboDecayStep p s) = difficultyBracket s"
  "bossActive (comboDecayStep p s) = bossActive s"
  "bossHP (comboDecayStep p s) = bossHP s"
  "bossMaxHP (comboDecayStep p s) = bossMaxHP s"
  "totalKills (comboDecayStep p s) = totalKills s"
  "missedAliens (comboDecayStep p s) = missedAliens s"
  "escapeStreak (comboDecayStep p s) = escapeStreak s"
  "victoryType (comboDecayStep p s) = victoryType s"
  "victoryTitle (comboDecayStep p s) = victoryTitle s"
  "lastShotTime (comboDecayStep p s) = lastShotTime s"
  "missesInWindow (comboDecayStep p s) = missesInWindow s"
  "missWindowStart (comboDecayStep p s) = missWindowStart s"
  "showWaveNotification (comboDecayStep p s) = showWaveNotification s"
  "waveNotificationData (comboDecayStep p s) = waveNotificationData s"
  "shotsFired (comboDecayStep p s) = shotsFired s"
  "shotsHit (comboDecayStep p s) = shotsHit s"
  "gameStartTime (comboDecayStep p s) = gameStartTime s"
  "powerUpsCollected (comboDecayStep p s) = powerUpsCollected s"
  "wavesCompleted (comboDecayStep p s) = wavesCompleted s"
  "idCounter (comboDecayStep p s) = idCounter s"
  by (simp_all add: comboDecayStep_def Let_def)

lemma tickTimers_frame [simp]:
  "playerX (tickTimers t s) = playerX s"
  "playerY (tickTimers t s) = playerY s"
  "bullets (tickTimers t s) = bullets s"
  "aliens (tickTimers t s) = aliens s"
  "running (tickTimers t s) = running s"
  "score (tickTimers t s) = score s"
  "lives (tickTimers t s) = lives s"
  "wave (tickTimers t s) = wave s"
  "waveKills (tickTimers t s) = waveKills s"
  "waveEnemiesSpawned (tickTimers t s) = waveEnemiesSpawned s"
  "waveStartTime (tickTimers t s) = waveStartTime s"
  "status (tickTimers t s) = status s"
  "difficultyMode (tickTimers t s) = difficultyMode s"
  "maxCombo (tickTimers t s) = maxCombo s"
  "bossActive (tickTimers t s) = bossActive s"
  "bossHP (tickTimers t s) = bossHP s"
  "bossMaxHP (tickTimers t s) = bossMaxHP s"
  "totalKills (tickTimers t s) = totalKills s"
  "missedAliens (tickTimers t s) = missedAliens s"
  "escapeStreak (tickTimers t s) = escapeStreak s"
  "victoryType (tickTimers t s) = victoryType s"
  "victoryTitle (tickTimers t s) = victoryTitle s"
  "lastShotTime (tickTimers t s) = lastShotTime s"
  "showWaveNotification (tickTimers t s) = showWaveNotification s"
  "waveNotificationData (tickTimers t s) = waveNotificationData s"
  "shotsFired (tickTimers t s) = shotsFired s"
  "shotsHit (tickTimers t s) = shotsHit s"
  "gameStartTime (tickTimers t s) = gameStartTime s"
  "powerUpsCollected (tickTimers t s) = powerUpsCollected s"
  "wavesCompleted (tickTimers t s) = wavesCompleted s"
  "idCounter (tickTimers t s) = idCounter s"
  by (simp_all add: tickTimers_def Let_def)

lemma tickMovement_frame [simp]:
  "playerX (tickMovement s) = playerX s"
  "playerY (tickMovement s) = playerY s"
  "running (tickMovement s) = running s"
  "score (tickMovement s) = score s"
  "lives (tickMovement s) = lives s"
  "level (tickMovement s) = level s"
  "previousLevel (tickMovement s) = previousLevel s"
  "wave (tickMovement s) = wave s"
  "waveKills (tickMovement s) = waveKills s"
  "waveEnemiesSpawned (tickMovement s) = waveEnemiesSpawned s"
  "waveStartTime (tickMovement s) = waveStartTime s"
  "status (tickMovement s) = status s"
  "difficultyMode (tickMovement s) = difficultyMode s"
  "activePowerUps (tickMovement s) = activePowerUps s"
  "scoreMultiplier (tickMovement s) = scoreMultiplier s"
  "combo (tickMovement s) = combo s"
  "maxCombo (tickMovement s) = maxCombo s"
  "comboTimer (tickMovement s) = comboTimer s"
  "comboTier (tickMovement s) = comboTier s"
  "difficultyBracket (tickMovement s) = difficultyBracket s"
  "bossActive (tickMovement s) = bossActive s"
  "bossHP (tickMovement s) = bossHP s"
  "bossMaxHP (tickMovement s) = bossMaxHP s"
  "totalKills (tickMovement s) = totalKills s"
  "missedAliens (tickMovement s) = missedAliens s"
  "escapeStreak (tickMovement s) = escapeStreak s"
  "victoryType (tickMovement s) = victoryType s"
  "victoryTitle (tickMovement s) = victoryTitle s"
  "lastShotTime (tickMovement s) = lastShotTime s"
  "missesInWindow (tickMovement s) = missesInWindow s"
  "missWindowStart (tickMovement s) = missWindowStart s"
  "showWaveNotification (tickMovement s) = showWaveNotification s"
  "waveNotificationData (tickMovement s) = waveNotificationData s"
  "shotsFired (tickMovement s) = shotsFired s"
  "shotsHit (tickMovement s) = shotsHit s"
  "gameStartTime (tickMovement s) = gameStartTime s"
  "powerUpsCollected (tickMovement s) = powerUpsCollected s"
  "wavesCompleted (tickMovement s) = wavesCompleted s"
  "idCounter (tickMovement s) = idCounter s"
  by (simp_all add: tickMovement_def Let_def)

lemma comboIncrease_frame [simp]:
  "playerX (comboIncrease s) = playerX s"
  "playerY (comboIncrease s) = playerY s"
  "bullets (comboIncrease s) = bullets s"
  "aliens (comboIncrease s) = aliens s"
  "running (comboIncrease s) = running s"
  "score (comboIncrease s) = score s"
  "lives (comboIncrease s) = lives s"
  "level (comboIncrease s) = level s"
  "previousLevel (comboIncrease s) = previousLevel s"
  "wave (comboIncrease s) = wave s"
  "waveEnemiesSpawned (comboIncrease s) = waveEnemiesSpawned s"
  "waveStartTime (comboIncrease s) = waveStartTime s"
  "status (comboIncrease s) = status s"
  "difficultyMode (comboIncrease s) = difficultyMode s"
  "activePowerUps (comboIncrease s) = activePowerUps s"
  "scoreMultiplier (comboIncrease s) = scoreMultiplier s"
  "comboTier (comboIncrease s) = comboTier s"
  "difficultyBracket (comboIncrease s) = difficultyBracket s"
  "bossActive (comboIncrease s) = bossActive s"
  "bossHP (comboIncrease s) = bossHP s"
  "bossMaxHP (comboIncrease s) = bossMaxHP s"
  "missedAliens (comboIncrease s) = missedAliens s"
  "victoryType (comboIncrease s) = victoryType s"
  "victoryTitle (comboIncrease s) = victoryTitle s"
  "lastShotTime (comboIncrease s) = lastShotTime s"
  "missesInWindow (comboIncrease s) = missesInWindow s"
  "missWindowStart (comboIncrease s) = missWindowStart s"
  "showWaveNotification (comboIncrease s) = showWaveNotification s"
  "waveNotificationData (comboIncrease s) = waveNotificationData s"
  "shotsFired (comboIncrease s) = shotsFired s"
  "shotsHit (comboIncrease s) = shotsHit s"
  "gameStartTime (comboIncrease s) = gameStartTime s"
  "powerUpsCollected (comboIncrease s) = powerUpsCollected s"
  "wavesCompleted (comboIncrease s) = wavesCompleted s"
  "idCounter (comboIncrease s) = idCounter s"
  by (simp_all add: comboIncrease_def Let_def)

lemma perfectComboBonus_frame [simp]:
  "playerX (perfectComboBonus s) = playerX s"
  "playerY (perfectComboBonus s) = playerY s"
  "bullets (perfectComboBonus s) = bullets s"
  "aliens (perfectComboBonus s) = aliens s"
  "running (perfectComboBonus s) = running s"
  "lives (perfectComboBonus s) = lives s"
  "level (perfectComboBonus s) = level s"
  "previousLevel (perfectComboBonus s) = previousLevel s"
  "wave (perfectComboBonus s) = wave s"
  "waveKills (perfectComboBonus s) = waveKills s"
  "waveEnemiesSpawned (perfectComboBonus s) = waveEnemiesSpawned s"
  "waveStartTime (perfectComboBonus s) = waveStartTime s"
  "status (perfectComboBonus s) = status s"
  "difficultyMode (perfectComboBonus s) = difficultyMode s"
  "activePowerUps (perfectComboBonus s) = activePowerUps s"
  "scoreMultiplier (perfectComboBonus s) = scoreMultiplier s"
  "combo (perfectComboBonus s) = combo s"
  "maxCombo (perfectComboBonus s) = maxCombo s"
  "comboTimer (perfectComboBonus s) = comboTimer s"
  "comboTier (perfectComboBonus s) = comboTier s"
  "difficultyBracket (perfectComboBonus s) = difficultyBracket s"
  "bossActive (perfectComboBonus s) = bossActive s"
  "bossHP (perfectComboBonus s) = bossHP s"
  "bossMaxHP (perfectComboBonus s) = bossMaxHP s"
  "totalKills (perfectComboBonus s) = totalKills s"
  "missedAliens (perfectComboBonus s) = missedAliens s"
  "escapeStreak (perfectComboBonus s) = escapeStreak s"
  "victoryType (perfectComboBonus s) = victoryType s"
  "victoryTitle (perfectComboBonus s) = victoryTitle s"
  "lastShotTime (perfectComboBonus s) = lastShotTime s"
  "missesInWindow (perfectComboBonus s) = missesInWindow s"
  "missWindowStart (perfectComboBonus s) = missWindowStart s"
  "showWaveNotification (perfectComboBonus s) = showWaveNotification s"
  "waveNotificationData (perfectComboBonus s) = waveNotificationData s"
  "shotsFired (perfectComboBonus s) = shotsFired s"
  "shotsHit (perfectComboBonus s) = shotsHit s"
  "gameStartTime (perfectComboBonus s) = gameStartTime s"
  "powerUpsCollected (perfectComboBonus s) = powerUpsCollected s"
  "wavesCompleted (perfectComboBonus s) = wavesCompleted s"
  "idCounter (perfectComboBonus s) = idCounter s"
  by (simp_all add: perfectComboBonus_def)

lemma creditKill_frame [simp]:
  "playerX (creditKill rw a s) = playerX s"
  "playerY (creditKill rw a s) = playerY s"
  "bullets (creditKill rw a s) = bullets s"
  "aliens (creditKill rw a s) = aliens s"
  "running (creditKill rw a s) = running s"
  "lives (creditKill rw a s) = lives s"
  "level (creditKill rw a s) = level s"
  "previousLevel (creditKill rw a s) = previousLevel s"
  "wave (creditKill rw a s) = wave s"
  "waveKills (creditKill rw a s) = waveKills s"
  "waveEnemiesSpawned (creditKill rw a s) = waveEnemiesSpawned s"
  "waveStartTime (creditKill rw a s) = waveStartTime s"
  "status (creditKill rw a s) = status s"
  "difficultyMode (creditKill rw a s) = difficultyMode s"
  "activePowerUps (creditKill rw a s) = activePowerUps s"
  "scoreMultiplier (creditKill rw a s) = scoreMultiplier s"
  "combo (creditKill rw a s) = combo s"
  "maxCombo (creditKill rw a s) = maxCombo s"
  "comboTimer (creditKill rw a s) = comboTimer s"
  "comboTier (creditKill rw a s) = comboTier s"
  "difficultyBracket (creditKill rw a s) = difficultyBracket s"
  "bossActive (creditKill rw a s) = bossActive s"
  "bossHP (creditKill rw a s) = bossHP s"
  "bossMaxHP (creditKill rw a s) = bossMaxHP s"
  "totalKills (creditKill rw a s) = totalKills s"
  "missedAliens (creditKill rw a s) = missedAliens s"
  "escapeStreak (creditKill rw a s) = escapeStreak s"
  "victoryType (creditKill rw a s) = victoryType s"
  "victoryTitle (creditKill rw a s) = victoryTitle s"
  "lastShotTime (creditKill rw a s) = lastShotTime s"
  "missesInWindow (creditKill rw a s) = missesInWindow s"
  "missWindowStart (creditKill rw a s) = missWindowStart s"
  "showWaveNotification (creditKill rw a s) = showWaveNotification s"
  "waveNotificationData (creditKill rw a s) = waveNotificationData s"
  "shotsFired (creditKill rw a s) = shotsFired s"
  "shotsHit (creditKill rw a s) = shotsHit s"
  "gameStartTime (creditKill rw a s) = gameStartTime s"
  "powerUpsCollected (creditKill rw a s) = powerUpsCollected s"
  "wavesCompleted (creditKill rw a s) = wavesCompleted s"
  "idCounter (creditKill rw a s) = idCounter s"
  by (simp_all add: creditKill_def Let_def)

lemma collectPowerUp_frame [simp]:
  "playerX (collectPowerUp t rw s) = playerX s"
  "playerY (collectPowerUp t rw s) = playerY s"
  "bullets (collectPowerUp t rw s) = bullets s"
  "aliens (collectPowerUp t rw s) = aliens s"
  "running (collectPowerUp t rw s) = running s"
  "score (collectPowerUp t rw s) = score s"
  "level (collectPowerUp t rw s) = level s"
  "previousLevel (collectPowerUp t rw s) = previousLevel s"
  "wave (collectPowerUp t rw s) = wave s"
  "waveKills (collectPowerUp t rw s) = waveKills s"
  "waveEnemiesSpawned (collectPowerUp t rw s) = waveEnemiesSpawned s"
  "waveStartTime (collectPowerUp t rw s) = waveStartTime s"
  "status (collectPowerUp t rw s) = status s"
  "difficultyMode (collectPowerUp t rw s) = difficultyMode s"
  "scoreMultiplier (collectPowerUp t rw s) = scoreMultiplier s"
  "combo (collectPowerUp t rw s) = combo s"
  "maxCombo (collectPowerUp t rw s) = maxCombo s"
  "comboTimer (collectPowerUp t rw s) = comboTimer s"
  "comboTier (collectPowerUp t rw s) = comboTier s"
  "difficultyBracket (collectPowerUp t rw s) = difficultyBracket s"
  "bossActive (collectPowerUp t rw s) = bossActive s"
  "bossHP (collectPowerUp t rw s) = bossHP s"
  "bossMaxHP (collectPowerUp t rw s) = bossMaxHP s"
  "totalKills (collectPowerUp t rw s) = totalKills s"
  "missedAliens (collectPowerUp t rw s) = missedAliens s"
  "escapeStreak (collectPowerUp t rw s) = escapeStreak s"
  "victoryType (collectPowerUp t rw s) = victoryType s"
  "victoryTitle (collectPowerUp t rw s) = victoryTitle s"
  "lastShotTime (collectPowerUp t rw s) = lastShotTime s"
  "missesInWindow (collectPowerUp t rw s) = missesInWindow s"
  "missWindowStart (collectPowerUp t rw s) = missWindowStart s"
  "showWaveNotification (collectPowerUp t rw s) = showWaveNotification s"
  "waveNotificationData (collectPowerUp t rw s) = waveNotificationData s"
  "shotsFired (collectPowerUp t rw s) = shotsFired s"
  "shotsHit (collectPowerUp t rw s) = shotsHit s"
  "gameStartTime (collectPowerUp t rw s) = gameStartTime s"
  "wavesCompleted (collectPowerUp t rw s) = wavesCompleted s"
  "idCounter (collectPowerUp t rw s) = idCounter s"
  by (simp_all add: collectPowerUp_def Let_def split: option.splits)

lemma powerUpDrop_frame [simp]:
  "playerX (powerUpDrop t d rw a s) = playerX s"
  "playerY (powerUpDrop t d rw a s) = playerY s"
  "bullets (powerUpDrop t d rw a s) = bullets s"
  "aliens (powerUpDrop t d rw a s) = aliens s"
  "running (powerUpDrop t d rw a s) = running s"
  "score (powerUpDrop t d rw a s) = score s"
  "level (powerUpDrop t d rw a s) = level s"
  "previousLevel (powerUpDrop t d rw a s) = previousLevel s"
  "wave (powerUpDrop t d rw a s) = wave s"
  "waveKills (powerUpDrop t d rw a s) = waveKills s"
  "waveEnemiesSpawned (powerUpDrop t d rw a s) = waveEnemiesSpawned s"
  "waveStartTime (powerUpDrop t d rw a s) = waveStartTime s"
  "status (powerUpDrop t d rw a s) = status s"
  "difficultyMode (powerUpDrop t d rw a s) = difficultyMode s"
  "scoreMultiplier (powerUpDrop t d rw a s) = scoreMultiplier s"
  "combo (powerUpDrop t d rw a s) = combo s"
  "maxCombo (powerUpDrop t d rw a s) = maxCombo s"
  "comboTimer (powerUpDrop t d rw a s) = comboTimer s"
  "comboTier (powerUpDrop t d rw a s) = comboTier s"
  "difficultyBracket (powerUpDrop t d rw a s) = difficultyBracket s"
  "bossActive (powerUpDrop t d rw a s) = bossActive s"
  "bossHP (powerUpDrop t d rw a s) = bossHP s"
  "bossMaxHP (powerUpDrop t d rw a s) = bossMaxHP s"
  "totalKills (powerUpDrop t d rw a s) = totalKills s"
  "missedAliens (powerUpDrop t d rw a s) = missedAliens s"
  "escapeStreak (powerUpDrop t d rw a s) = escapeStreak s"
  "victoryType (powerUpDrop t d rw a s) = victoryType s"
  "victoryTitle (powerUpDrop t d rw a s) = victoryTitle s"
  "lastShotTime (powerUpDrop t d rw a s) = lastShotTime s"
  "missesInWindow (powerUpDrop t d rw a s) = missesInWindow s"
  "missWindowStart (powerUpDrop t d rw a s) = missWindowStart s"
  "showWaveNotification (powerUpDrop t d rw a s) = showWaveNotification s"
  "waveNotificationData (powerUpDrop t d rw a s) = waveNotificationData s"
  "shotsFired (powerUpDrop t d rw a s) = shotsFired s"
  "shotsHit (powerUpDrop t d rw a s) = shotsHit s"
  "gameStartTime (powerUpDrop t d rw a s) = gameStartTime s"
  "wavesCompleted (powerUpDrop t d rw a s) = wavesCompleted s"
  "idCounter (powerUpDrop t d rw a s) = idCounter s"
  by (simp_all add: powerUpDrop_def Let_def)

lemma bossDefeated_frame [simp]:
  "playerX (bossDefeated s) = playerX s"
  "playerY (bossDefeated s) = playerY s"
  "bullets (bossDefeated s) = bullets s"
  "aliens (bossDefeated s) = aliens s"
  "running (bossDefeated s) = running s"
  "score (bossDefeated s) = score s"
  "lives (bossDefeated s) = lives s"
  "level (bossDefeated s) = level s"
  "previousLevel (bossDefeated s) = previousLevel s"
  "wave (bossDefeated s) = wave s"
  "waveKills (bossDefeated s) = waveKills s"
  "waveEnemiesSpawned (bossDefeated s) = waveEnemiesSpawned s"
  "waveStartTime (bossDefeated s) = waveStartTime s"
  "difficultyMode (bossDefeated s) = difficultyMode s"
  "activePowerUps (bossDefeated s) = activePowerUps s"
  "scoreMultiplier (bossDefeated s) = scoreMultiplier s"
  "combo (bossDefeated s) = combo s"
  "maxCombo (bossDefeated s) = maxCombo s"
  "comboTimer (bossDefeated s) = comboTimer s"
  "comboTier (bossDefeated s) = comboTier s"
  "difficultyBracket (bossDefeated s) = difficultyBracket s"
  "bossHP (bossDefeated s) = bossHP s"
  "bossMaxHP (bossDefeated s) = bossMaxHP s"
  "totalKills (bossDefeated s) = totalKills s"
  "missedAliens (bossDefeated s) = missedAliens s"
  "escapeStreak (bossDefeated s) = escapeStreak s"
  "lastShotTime (bossDefeated s) = lastShotTime s"
  "missesInWindow (bossDefeated s) = missesInWindow s"
  "missWindowStart (bossDefeated s) = missWindowStart s"
  "showWaveNotification (bossDefeated s) = showWaveNotification s"
  "waveNotificationData (bossDefeated s) = waveNotificationData s"
  "shotsFired (bossDefeated s) = shotsFired s"
  "shotsHit (bossDefeated s) = shotsHit s"
  "gameStartTime (bossDefeated s) = gameStartTime s"
  "powerUpsCollected (bossDefeated s) = powerUpsCollected s"
  "wavesCompleted (bossDefeated s) = wavesCompleted s"
  "idCounter (bossDefeated s) = idCounter s"
  by (simp_all add: bossDefeated_def Let_def)

lemma processKill_frame [simp]:
  "playerX (processKill t d a s) = playerX s"
  "playerY (processKill t d a s) = playerY s"
  "bullets (processKill t d a s) = bullets s"
  "aliens (processKill t d a s) = aliens s"
  "running (processKill t d a s) = running s"
  "level (processKill t d a s) = level s"
  "previousLevel (processKill t d a s) = previousLevel s"
  "wave (processKill t d a s) = wave s"
  "waveEnemiesSpawned (processKill t d a s) = waveEnemiesSpawned s"
  "waveStartTime (processKill t d a s) = waveStartTime s"
  "difficultyMode (processKill t d a s) = difficultyMode s"
  "scoreMultiplier (processKill t d a s) = scoreMultiplier s"
  "comboTier (processKill t d a s) = comboTier s"
  "difficultyBracket (processKill t d a s) = difficultyBracket s"
  "bossHP (processKill t d a s) = bossHP s"
  "bossMaxHP (processKill t d a s) = bossMaxHP s"
  "missedAliens (processKill t d a s) = missedAliens s"
  "lastShotTime (processKill t d a s) = lastShotTime s"
  "missesInWindow (processKill t d a s) = missesInWindow s"
  "missWindowStart (processKill t d a s) = missWindowStart s"
  "showWaveNotification (processKill t d a s) = showWaveNotification s"
  "waveNotificationData (processKill t d a s) = waveNotificationData s"
  "shotsFired (processKill t d a s) = shotsFired s"
  "shotsHit (processKill t d a s) = shotsHit s"
  "gameStartTime (processKill t d a s) = gameStartTime s"
  "wavesCompleted (processKill t d a s) = wavesCompleted s"
  "idCounter (processKill t d a s) = idCounter s"
  by (simp_all add: processKill_def Let_def)

lemma cannonCollision_frame [simp]:
  "playerX (cannonCollision s) = playerX s"
  "playerY (cannonCollision s) = playerY s"
  "bullets (cannonCollision s) = bullets s"
  "running (cannonCollision s) = running s"
  "score (cannonCollision s) = score s"
  "level (cannonCollision s) = level s"
  "previousLevel (cannonCollision s) = previousLevel s"
  "wave (cannonCollision s) = wave s"
  "waveKills (cannonCollision s) = waveKills s"
  "waveEnemiesSpawned (cannonCollision s) = waveEnemiesSpawned s"
  "waveStartTime (cannonCollision s) = waveStartTime s"
  "difficultyMode (cannonCollision s) = difficultyMode s"
  "activePowerUps (cannonCollision s) = activePowerUps s"
  "scoreMultiplier (cannonCollision s) = scoreMultiplier s"
  "maxCombo (cannonCollision s) = maxCombo s"
  "comboTimer (cannonCollision s) = comboTimer s"
  "comboTier (cannonCollision s) = comboTier s"
  "difficultyBracket (cannonCollision s) = difficultyBracket s"
  "bossActive (cannonCollision s) = bossActive s"
  "bossHP (cannonCollision s) = bossHP s"
  "bossMaxHP (cannonCollision s) = bossMaxHP s"
  "totalKills (cannonCollision s) = totalKills s"
  "missedAliens (cannonCollision s) = missedAliens s"
  "escapeStreak (cannonCollision s) = escapeStreak s"
  "victoryType (cannonCollision s) = victoryType s"
  "victoryTitle (cannonCollision s) = victoryTitle s"
  "lastShotTime (cannonCollision s) = lastShotTime s"
  "missesInWindow (cannonCollision s) = missesInWindow s"
  "missWindowStart (cannonCollision s) = missWindowStart s"
  "showWaveNotification (cannonCollision s) = showWaveNotification s"
  "waveNotificationData (cannonCollision s) = waveNotificationData s"
  "shotsFired (cannonCollision s) = shotsFired s"
  "shotsHit (cannonCollision s) = shotsHit s"
  "gameStartTime (cannonCollision s) = gameStartTime s"
  "powerUpsCollected (cannonCollision s) = powerUpsCollected s"
  "wavesCompleted (cannonCollision s) = wavesCompleted s"
  "idCounter (cannonCollision s) = idCounter s"
  by (simp_all add: cannonCollision_def Let_def split: option.splits)

lemma recordEscape_frame [simp]:
  "playerX (recordEscape s) = playerX s"
  "playerY (recordEscape s) = playerY s"
  "bullets (recordEscape s) = bullets s"
  "aliens (recordEscape s) = aliens s"
  "running (recordEscape s) = running s"
  "score (recordEscape s) = score s"
  "level (recordEscape s) = level s"
  "previousLevel (recordEscape s) = previousLevel s"
  "wave (recordEscape s) = wave s"
  "waveKills (recordEscape s) = waveKills s"
  "waveEnemiesSpawned (recordEscape s) = waveEnemiesSpawned s"
  "waveStartTime (recordEscape s) = waveStartTime s"
  "status (recordEscape s) = status s"
  "difficultyMode (recordEscape s) = difficultyMode s"
  "activePowerUps (recordEscape s) = activePowerUps s"
  "scoreMultiplier (recordEscape s) = scoreMultiplier s"
  "combo (recordEscape s) = combo s"
  "maxCombo (recordEscape s) = maxCombo s"
  "comboTimer (recordEscape s) = comboTimer s"
  "comboTier (recordEscape s) = comboTier s"
  "difficultyBracket (recordEscape s) = difficultyBracket s"
  "bossActive (recordEscape s) = bossActive s"
  "bossHP (recordEscape s) = bossHP s"
  "bossMaxHP (recordEscape s) = bossMaxHP s"
  "totalKills (recordEscape s) = totalKills s"
  "victoryType (recordEscape s) = victoryType s"
  "victoryTitle (recordEscape s) = victoryTitle s"
  "lastShotTime (recordEscape s) = lastShotTime s"
  "missWindowStart (recordEscape s) = missWindowStart s"
  "showWaveNotification (recordEscape s) = showWaveNotification s"
  "waveNotificationData (recordEscape s) = waveNotificationData s"
  "shotsFired (recordEscape s) = shotsFired s"
  "shotsHit (recordEscape s) = shotsHit s"
  "gameStartTime (recordEscape s) = gameStartTime s"
  "powerUpsCollected (recordEscape s) = powerUpsCollected s"
  "wavesCompleted (recordEscape s) = wavesCompleted s"
  "idCounter (recordEscape s) = idCounter s"
  by (simp_all add: recordEscape_def)

lemma softMissReset_frame [simp]:
  "playerX (softMissReset t s) = playerX s"
  "playerY (softMissReset t s) = playerY s"
  "bullets (softMissReset t s) = bullets s"
  "aliens (softMissReset t s) = aliens s"
  "running (softMissReset t s) = running s"
  "score (softMissReset t s) = score s"
  "lives (softMissReset t s) = lives s"
  "level (softMissReset t s) = level s"
  "previousLevel (softMissReset t s) = previousLevel s"
  "wave (softMissReset t s) = wave s"
  "waveKills (softMissReset t s) = waveKills s"
  "waveEnemiesSpawned (softMissReset t s) = waveEnemiesSpawned s"
  "waveStartTime (softMissReset t s) = waveStartTime s"
  "status (softMissReset t s) = status s"
  "difficultyMode (softMissReset t s) = difficultyMode s"
  "activePowerUps (softMissReset t s) = activePowerUps s"
  "scoreMultiplier (softMissReset t s) = scoreMultiplier s"
  "maxCombo (softMissReset t s) = maxCombo s"
  "comboTier (softMissReset t s) = comboTier s"
  "difficultyBracket (softMissReset t s) = difficultyBracket s"
  "bossActive (softMissReset t s) = bossActive s"
  "bossHP (softMissReset t s) = bossHP s"
  "bossMaxHP (softMissReset t s) = bossMaxHP s"
  "totalKills (softMissReset t s) = totalKills s"
  "missedAliens (softMissReset t s) = missedAliens s"
  "escapeStreak (softMissReset t s) = escapeStreak s"
  "victoryType (softMissReset t s) = victoryType s"
  "victoryTitle (softMissReset t s) = victoryTitle s"
  "lastShotTime (softMissReset t s) = lastShotTime s"
  "showWaveNotification (softMissReset t s) = showWaveNotification s"
  "waveNotificationData (softMissReset t s) = waveNotificationData s"
  "shotsFired (softMissReset t s) = shotsFired s"
  "shotsHit (softMissReset t s) = shotsHit s"
  "gameStartTime (softMissReset t s) = gameStartTime s"
  "powerUpsCollected (softMissReset t s) = powerUpsCollected s"
  "wavesCompleted (softMissReset t s) = wavesCompleted s"
  "idCounter (softMissReset t s) = idCounter s"
  by (simp_all add: softMissReset_def)

lemma bossReachedBottom_frame [simp]:
  "playerX (bossReachedBottom a s) = playerX s"
  "playerY (bossReachedBottom a s) = playerY s"
  "bullets (bossReachedBottom a s) = bullets s"
  "aliens (bossReachedBottom a s) = aliens s"
  "running (bossReachedBottom a s) = running s"
  "score (bossReachedBottom a s) = score s"
  "level (bossReachedBottom a s) = level s"
  "previousLevel (bossReachedBottom a s) = previousLevel s"
  "wave (bossReachedBottom a s) = wave s"
  "waveKills (bossReachedBottom a s) = waveKills s"
  "waveEnemiesSpawned (bossReachedBottom a s) = waveEnemiesSpawned s"
  "waveStartTime (bossReachedBottom a s) = waveStartTime s"
  "difficultyMode (bossReachedBottom a s) = difficultyMode s"
  "activePowerUps (bossReachedBottom a s) = activePowerUps s"
  "scoreMultiplier (bossReachedBottom a s) = scoreMultiplier s"
  "combo (bossReachedBottom a s) = combo s"
  "maxCombo (bossReachedBottom a s) = maxCombo s"
  "comboTimer (bossReachedBottom a s) = comboTimer s"
  "comboTier (bossReachedBottom a s) = comboTier s"
  "difficultyBracket (bossReachedBottom a s) = difficultyBracket s"
  "bossActive (bossReachedBottom a s) = bossActive s"
  "bossHP (bossReachedBottom a s) = bossHP s"
  "bossMaxHP (bossReachedBottom a s) = bossMaxHP s"
  "totalKills (bossReachedBottom a s) = totalKills s"
  "missedAliens (bossReachedBottom a s) = missedAliens s"
  "escapeStreak (bossReachedBottom a s) = escapeStreak s"
  "victoryType (bossReachedBottom a s) = victoryType s"
  "victoryTitle (bossReachedBottom a s) = victoryTitle s"
  "lastShotTime (bossReachedBottom a s) = lastShotTime s"
  "missesInWindow (bossReachedBottom a s) = missesInWindow s"
  "missWindowStart (bossReachedBottom a s) = missWindowStart s"
  "showWaveNotification (bossReachedBottom a s) = showWaveNotification s"
  "waveNotificationData (bossReachedBottom a s) = waveNotificationData s"
  "shotsFired (bossReachedBottom a s) = shotsFired s"
  "shotsHit (bossReachedBottom a s) = shotsHit s"
  "gameStartTime (bossReachedBottom a s) = gameStartTime s"
  "powerUpsCollected (bossReachedBottom a s) = powerUpsCollected s"
  "wavesCompleted (bossReachedBottom a s) = wavesCompleted s"
  "idCounter (bossReachedBottom a s) = idCounter s"
  by (simp_all add: bossReachedBottom_def)

lemma screenOverflow_frame [simp]:
  "playerX (screenOverflow s) = playerX s"
  "playerY (screenOverflow s) = playerY s"
  "bullets (screenOverflow s) = bullets s"
  "aliens (screenOverflow s) = aliens s"
  "running (screenOverflow s) = running s"
  "score (screenOverflow s) = score s"
  "level (screenOverflow s) = level s"
  "previousLevel (screenOverflow s) = previousLevel s"
  "wave (screenOverflow s) = wave s"
  "waveKills (screenOverflow s) = waveKills s"
  "waveEnemiesSpawned (screenOverflow s) = waveEnemiesSpawned s"
  "waveStartTime (screenOverflow s) = waveStartTime s"
  "difficultyMode (screenOverflow s) = difficultyMode s"
  "activePowerUps (screenOverflow s) = activePowerUps s"
  "scoreMultiplier (screenOverflow s) = scoreMultiplier s"
  "combo (screenOverflow s) = combo s"
  "maxCombo (screenOverflow s) = maxCombo s"
  "comboTimer (screenOverflow s) = comboTimer s"
  "comboTier (screenOverflow s) = comboTier s"
  "difficultyBracket (screenOverflow s) = difficultyBracket s"
  "bossActive (screenOverflow s) = bossActive s"
  "bossHP (screenOverflow s) = bossHP s"
  "bossMaxHP (screenOverflow s) = bossMaxHP s"
  "totalKills (screenOverflow s) = totalKills s"
  "missedAliens (screenOverflow s) = missedAliens s"
  "escapeStreak (screenOverflow s) = escapeStreak s"
  "victoryType (screenOverflow s) = victoryType s"
  "victoryTitle (screenOverflow s) = victoryTitle s"
  "lastShotTime (screenOverflow s) = lastShotTime s"
  "missesInWindow (screenOverflow s) = missesInWindow s"
  "missWindowStart (screenOverflow s) = missWindowStart s"
  "showWaveNotification (screenOverflow s) = showWaveNotification s"
  "waveNotificationData (screenOverflow s) = waveNotificationData s"
  "shotsFired (screenOverflow s) = shotsFired s"
  "shotsHit (screenOverflow s) = shotsHit s"
  "gameStartTime (screenOverflow s) = gameStartTime s"
  "powerUpsCollected (screenOverflow s) = powerUpsCollected s"
  "wavesCompleted (screenOverflow s) = wavesCompleted s"
  "idCounter (screenOverflow s) = idCounter s"
  by (simp_all add: screenOverflow_def)

lemma missedScorePenalty_frame [simp]:
  "playerX (missedScorePenalty p s) = playerX s"
  "playerY (missedScorePenalty p s) = playerY s"
  "bullets (missedScorePenalty p s) = bullets s"
  "aliens (missedScorePenalty p s) = aliens s"
  "running (missedScorePenalty p s) = running s"
  "lives (missedScorePenalty p s) = lives s"
  "level (missedScorePenalty p s) = level s"
  "previousLevel (missedScorePenalty p s) = previousLevel s"
  "wave (missedScorePenalty p s) = wave s"
  "waveKills (missedScorePenalty p s) = waveKills s"
  "waveEnemiesSpawned (missedScorePenalty p s) = waveEnemiesSpawned s"
  "waveStartTime (missedScorePenalty p s) = waveStartTime s"
  "status (missedScorePenalty p s) = status s"
  "difficultyMode (missedScorePenalty p s) = difficultyMode s"
  "activePowerUps (missedScorePenalty p s) = activePowerUps s"
  "scoreMultiplier (missedScorePenalty p s) = scoreMultiplier s"
  "combo (missedScorePenalty p s) = combo s"
  "maxCombo (missedScorePenalty p s) = maxCombo s"
  "comboTimer (missedScorePenalty p s) = comboTimer s"
  "comboTier (missedScorePenalty p s) = comboTier s"
  "difficultyBracket (missedScorePenalty p s) = difficultyBracket s"
  "bossActive (missedScorePenalty p s) = bossActive s"
  "bossHP (missedScorePenalty p s) = bossHP s"
  "bossMaxHP (missedScorePenalty p s) = bossMaxHP s"
  "totalKills (missedScorePenalty p s) = totalKills s"
  "missedAliens (missedScorePenalty p s) = missedAliens s"
  "escapeStreak (missedScorePenalty p s) = escapeStreak s"
  "victoryType (missedScorePenalty p s) = victoryType s"
  "victoryTitle (missedScorePenalty p s) = victoryTitle s"
  "lastShotTime (missedScorePenalty p s) = lastShotTime s"
  "missesInWindow (missedScorePenalty p s) = missesInWindow s"
  "missWindowStart (missedScorePenalty p s) = missWindowStart s"
  "showWaveNotification (missedScorePenalty p s) = showWaveNotification s"
  "waveNotificationData (missedScorePenalty p s) = waveNotificationData s"
  "shotsFired (missedScorePenalty p s) = shotsFired s"
  "shotsHit (missedScorePenalty p s) = shotsHit s"
  "gameStartTime (missedScorePenalty p s) = gameStartTime s"
  "powerUpsCollected (missedScorePenalty p s) = powerUpsCollected s"
  "wavesCompleted (missedScorePenalty p s) = wavesCompleted s"
  "idCounter (missedScorePenalty p s) = idCounter s"
  by (simp_all add: missedScorePenalty_def)

lemma removeAlienById_frame [simp]:
  "playerX (removeAlienById i s) = playerX s"
  "playerY (removeAlienById i s) = playerY s"
  "bullets (removeAlienById i s) = bullets s"
  "running (removeAlienById i s) = running s"
  "score (removeAlienById i s) = score s"
  "lives (removeAlienById i s) = lives s"
  "level (removeAlienById i s) = level s"
  "previousLevel (removeAlienById i s) = previousLevel s"
  "wave (removeAlienById i s) = wave s"
  "waveKills (removeAlienById i s) = waveKills s"
  "waveEnemiesSpawned (removeAlienById i s) = waveEnemiesSpawned s"
  "waveStartTime (removeAlienById i s) = waveStartTime s"
  "status (removeAlienById i s) = status s"
  "difficultyMode (removeAlienById i s) = difficultyMode s"
  "activePowerUps (removeAlienById i s) = activePowerUps s"
  "scoreMultiplier (removeAlienById i s) = scoreMultiplier s"
  "combo (removeAlienById i s) = combo s"
  "maxCombo (removeAlienById i s) = maxCombo s"
  "comboTimer (removeAlienById i s) = comboTimer s"
  "comboTier (removeAlienById i s) = comboTier s"
  "difficultyBracket (removeAlienById i s) = difficultyBracket s"
  "bossActive (removeAlienById i s) = bossActive s"
  "bossHP (removeAlienById i s) = bossHP s"
  "bossMaxHP (removeAlienById i s) = bossMaxHP s"
  "totalKills (removeAlienById i s) = totalKills s"
  "missedAliens (removeAlienById i s) = missedAliens s"
  "escapeStreak (removeAlienById i s) = escapeStreak s"
  "victoryType (removeAlienById i s) = victoryType s"
  "victoryTitle (removeAlienById i s) = victoryTitle s"
  "lastShotTime (removeAlienById i s) = lastShotTime s"
  "missesInWindow (removeAlienById i s) = missesInWindow s"
  "missWindowStart (removeAlienById i s) = missWindowStart s"
  "showWaveNotification (removeAlienById i s) = showWaveNotification s"
  "waveNotificationData (removeAlienById i s) = waveNotificationData s"
  "shotsFired (removeAlienById i s) = shotsFired s"
  "shotsHit (removeAlienById i s) = shotsHit s"
  "gameStartTime (removeAlienById i s) = gameStartTime s"
  "powerUpsCollected (removeAlienById i s) = powerUpsCollected s"
  "wavesCompleted (removeAlienById i s) = wavesCompleted s"
  "idCounter (removeAlienById i s) = idCounter s"
  by (simp_all add: removeAlienById_def)

lemma outOfLives_frame [simp]:
  "playerX (outOfLives s) = playerX s"
  "playerY (outOfLives s) = playerY s"
  "bullets (outOfLives s) = bullets s"
  "aliens (outOfLives s) = aliens s"
  "running (outOfLives s) = running s"
  "score (outOfLives s) = score s"
  "lives (outOfLives s) = lives s"
  "level (outOfLives s) = level s"
  "previousLevel (outOfLives s) = previousLevel s"
  "wave (outOfLives s) = wave s"
  "waveKills (outOfLives s) = waveKills s"
  "waveEnemiesSpawned (outOfLives s) = waveEnemiesSpawned s"
  "waveStartTime (outOfLives s) = waveStartTime s"
  "difficultyMode (outOfLives s) = difficultyMode s"
  "activePowerUps (outOfLives s) = activePowerUps s"
  "scoreMultiplier (outOfLives s) = scoreMultiplier s"
  "combo (outOfLives s) = combo s"
  "maxCombo (outOfLives s) = maxCombo s"
  "comboTimer (outOfLives s) = comboTimer s"
  "comboTier (outOfLives s) = comboTier s"
  "difficultyBracket (outOfLives s) = difficultyBracket s"
  "bossActive (outOfLives s) = bossActive s"
  "bossHP (outOfLives s) = bossHP s"
  "bossMaxHP (outOfLives s) = bossMaxHP s"
  "totalKills (outOfLives s) = totalKills s"
  "missedAliens (outOfLives s) = missedAliens s"
  "escapeStreak (outOfLives s) = escapeStreak s"
  "victoryType (outOfLives s) = victoryType s"
  "victoryTitle (outOfLives s) = victoryTitle s"
  "lastShotTime (outOfLives s) = lastShotTime s"
  "missesInWindow (outOfLives s) = missesInWindow s"
  "missWindowStart (outOfLives s) = missWindowStart s"
  "showWaveNotification (outOfLives s) = showWaveNotification s"
  "waveNotificationData (outOfLives s) = waveNotificationData s"
  "shotsFired (outOfLives s) = shotsFired s"
  "shotsHit (outOfLives s) = shotsHit s"
  "gameStartTime (outOfLives s) = gameStartTime s"
  "powerUpsCollected (outOfLives s) = powerUpsCollected s"
  "wavesCompleted (outOfLives s) = wavesCompleted s"
  "idCounter (outOfLives s) = idCounter s"
  by (simp_all add: outOfLives_def)

lemma alienEscapes_frame [simp]:
  "playerX (alienEscapes t p a s) = playerX s"
  "playerY (alienEscapes t p a s) = playerY s"
  "bullets (alienEscapes t p a s) = bullets s"
  "running (alienEscapes t p a s) = running s"
  "level (alienEscapes t p a s) = level s"
  "previousLevel (alienEscapes t p a s) = previousLevel s"
  "wave (alienEscapes t p a s) = wave s"
  "waveKills (alienEscapes t p a s) = waveKills s"
  "waveEnemiesSpawned (alienEscapes t p a s) = waveEnemiesSpawned s"
  "waveStartTime (alienEscapes t p a s) = waveStartTime s"
  "difficultyMode (alienEscapes t p a s) = difficultyMode s"
  "activePowerUps (alienEscapes t p a s) = activePowerUps s"
  "scoreMultiplier (alienEscapes t p a s) = scoreMultiplier s"
  "maxCombo (alienEscapes t p a s) = maxCombo s"
  "comboTier (alienEscapes t p a s) = comboTier s"
  "difficultyBracket (alienEscapes t p a s) = difficultyBracket s"
  "bossActive (alienEscapes t p a s) = bossActive s"
  "bossHP (alienEscapes t p a s) = bossHP s"
  "bossMaxHP (alienEscapes t p a s) = bossMaxHP s"
  "totalKills (alienEscapes t p a s) = totalKills s"
  "victoryType (alienEscapes t p a s) = victoryType s"
  "victoryTitle (alienEscapes t p a s) = victoryTitle s"
  "lastShotTime (alienEscapes t p a s) = lastShotTime s"
  "showWaveNotification (alienEscapes t p a s) = showWaveNotification s"
  "waveNotificationData (alienEscapes t p a s) = waveNotificationData s"
  "shotsFired (alienEscapes t p a s) = shotsFired s"
  "shotsHit (alienEscapes t p a s) = shotsHit s"
  "gameStartTime (alienEscapes t p a s) = gameStartTime s"
  "powerUpsCollected (alienEscapes t p a s) = powerUpsCollected s"
  "wavesCompleted (alienEscapes t p a s) = wavesCompleted s"
  "idCounter (alienEscapes t p a s) = idCounter s"
  by (simp_all add: alienEscapes_def Let_def)

lemma foldl_frame: "(\<And>s a. g (F s a) = g s) \<Longrightarrow> g (foldl F s as) = g s"
  by (induction as arbitrary: s) simp_all

lemma processKills_frame_rule:
  "(\<And>d a s. g (processKill t d a s) = g s) \<Longrightarrow> g (processKills t r k as s) = g s"
  by (induction as arbitrary: k s) simp_all

lemma collideBullet_state:
  "accState (collideBullet b acc) =
     (accState acc)\<lparr> aliens := aliens (accState (collideBullet b acc)),
                      shotsHit := shotsHit (accState (collideBullet b acc)) \<rparr>"
  by (simp add: collideBullet_def registerHit_def Let_def split: option.splits)

lemma foldl_collide_state:
  "accState (foldl (\<lambda>acc b. collideBullet b acc) acc bs) =
     (accState acc)\<lparr> aliens := aliens (accState (foldl (\<lambda>acc b. collideBullet b acc) acc bs)),
                      shotsHit := shotsHit (accState (foldl (\<lambda>acc b. collideBullet b acc) acc bs)) \<rparr>"
proof (induction bs arbitrary: acc)
  case Nil
  show ?case by simp
next
  case (Cons b bs)
  show ?case
    by (simp, subst Cons, subst collideBullet_state) simp
qed

lemma detectCollisions_state:
  "accState (detectCollisions s) =
     s\<lparr> aliens := aliens (accState (detectCollisions s)),
        shotsHit := shotsHit (accState (detectCollisions s)) \<rparr>"
  using foldl_collide_state [of "\<lparr> accState = s, destroyedAliens = [], bulletsToRemove = {} \<rparr>" "bullets s"]
  by (simp add: detectCollisions_def)

lemma detectCollisions_frame [simp]:
  "playerX (accState (detectCollisions s)) = playerX s"
  "playerY (accState (detectCollisions s)) = playerY s"
  "bullets (accState (detectCollisions s)) = bullets s"
  "running (accState (detectCollisions s)) = running s"
  "score (accState (detectCollisions s)) = score s"
  "lives (accState (detectCollisions s)) = lives s"
  "level (accState (detectCollisions s)) = level s"
  "previousLevel (accState (detectCollisions s)) = previousLevel s"
  "wave (accState (detectCollisions s)) = wave s"
  "waveKills (accState (detectCollisions s)) = waveKills s"
  "waveEnemiesSpawned (accState (detectCollisions s)) = waveEnemiesSpawned s"
  "waveStartTime (accState (detectCollisions s)) = waveStartTime s"
  "status (accState (detectCollisions s)) = status s"
  "difficultyMode (accState (detectCollisions s)) = difficultyMode s"
  "activePowerUps (accState (detectCollisions s)) = activePowerUps s"
  "scoreMultiplier (accState (detectCollisions s)) = scoreMultiplier s"
  "combo (accState (detectCollisions s)) = combo s"
  "maxCombo (accState (detectCollisions s)) = maxCombo s"
  "comboTimer (accState (detectCollisions s)) = comboTimer s"
  "comboTier (accState (detectCollisions s)) = comboTier s"
  "difficultyBracket (accState (detectCollisions s)) = difficultyBracket s"
  "bossActive (accState (detectCollisions s)) = bossActive s"
  "bossHP (accState (detectCollisions s)) = bossHP s"
  "bossMaxHP (accState (detectCollisions s)) = bossMaxHP s"
  "totalKills (accState (detectCollisions s)) = totalKills s"
  "missedAliens (accState (detectCollisions s)) = missedAliens s"
  "escapeStreak (accState (detectCollisions s)) = escapeStreak s"
  "victoryType (accState (detectCollisions s)) = victoryType s"
  "victoryTitle (accState (detectCollisions s)) = victoryTitle s"
  "lastShotTime (accState (detectCollisions s)) = lastShotTime s"
  "missesInWindow (accState (detectCollisions s)) = missesInWindow s"
  "missWindowStart (accState (detectCollisions s)) = missWindowStart s"
  "showWaveNotification (accState (detectCollisions s)) = showWaveNotification s"
  "waveNotificationData (accState (detectCollisions s)) = waveNotificationData s"
  "shotsFired (accState (detectCollisions s)) = shotsFired s"
  "gameStartTime (accState (detectCollisions s)) = gameStartTime s"
  "powerUpsCollected (accState (detectCollisions s)) = powerUpsCollected s"
  "wavesCompleted (accState (detectCollisions s)) = wavesCompleted s"
  "idCounter (accState (detectCollisions s)) = idCounter s"
  by (subst detectCollisions_state, simp)+

lemma tickCollisions_frame [simp]:
  "playerX (accState (tickCollisions t s)) = playerX s"
  "playerY (accState (tickCollisions t s)) = playerY s"
  "running (accState (tickCollisions t s)) = running s"
  "score (accState (tickCollisions t s)) = score s"
  "lives (accState (tickCollisions t s)) = lives s"
  "wave (accState (tickCollisions t s)) = wave s"
  "waveKills (accState (tickCollisions t s)) = waveKills s"
  "waveEnemiesSpawned (accState (tickCollisions t s)) = waveEnemiesSpawned s"
  "waveStartTime (accState (tickCollisions t s)) = waveStartTime s"
  "status (accState (tickCollisions t s)) = status s"
  "difficultyMode (accState (tickCollisions t s)) = difficultyMode s"
  "maxCombo (accState (tickCollisions t s)) = maxCombo s"
  "bossActive (accState (tickCollisions t s)) = bossActive s"
  "bossHP (accState (tickCollisions t s)) = bossHP s"
  "bossMaxHP (accState (tickCollisions t s)) = bossMaxHP s"
  "totalKills (accState (tickCollisions t s)) = totalKills s"
  "missedAliens (accState (tickCollisions t s)) = missedAliens s"
  "escapeStreak (accState (tickCollisions t s)) = escapeStreak s"
  "victoryType (accState (tickCollisions t s)) = victoryType s"
  "victoryTitle (accState (tickCollisions t s)) = victoryTitle s"
  "lastShotTime (accState (tickCollisions t s)) = lastShotTime s"
  "showWaveNotification (accState (tickCollisions t s)) = showWaveNotification s"
  "waveNotificationData (accState (tickCollisions t s)) = waveNotificationData s"
  "shotsFired (accState (tickCollisions t s)) = shotsFired s"
  "gameStartTime (accState (tickCollisions t s)) = gameStartTime s"
  "powerUpsCollected (accState (tickCollisions t s)) = powerUpsCollected s"
  "wavesCompleted (accState (tickCollisions t s)) = wavesCompleted s"
  "idCounter (accState (tickCollisions t s)) = idCounter s"
  by (simp_all add: tickCollisions_def)

lemma processKills_frame [simp]:
  "playerX (processKills t r k as s) = playerX s"
  "playerY (processKills t r k as s) = playerY s"
  "bullets (processKills t r k as s) = bullets s"
  "aliens (processKills t r k as s) = aliens s"
  "running (processKills t r k as s) = running s"
  "level (processKills t r k as s) = level s"
  "previousLevel (processKills t r k as s) = previousLevel s"
  "wave (processKills t r k as s) = wave s"
  "waveEnemiesSpawned (processKills t r k as s) = waveEnemiesSpawned s"
  "waveStartTime (processKills t r k as s) = waveStartTime s"
  "difficultyMode (processKills t r k as s) = difficultyMode s"
  "scoreMultiplier (processKills t r k as s) = scoreMultiplier s"
  "comboTier (processKills t r k as s) = comboTier s"
  "difficultyBracket (processKills t r k as s) = difficultyBracket s"
  "bossHP (processKills t r k as s) = bossHP s"
  "bossMaxHP (processKills t r k as s) = bossMaxHP s"
  "missedAliens (processKills t r k as s) = missedAliens s"
  "lastShotTime (processKills t r k as s) = lastShotTime s"
  "missesInWindow (processKills t r k as s) = missesInWindow s"
  "missWindowStart (processKills t r k as s) = missWindowStart s"
  "showWaveNotification (processKills t r k as s) = showWaveNotification s"
  "waveNotificationData (processKills t r k as s) = waveNotificationData s"
  "shotsFired (processKills t r k as s) = shotsFired s"
  "shotsHit (processKills t r k as s) = shotsHit s"
  "gameStartTime (processKills t r k as s) = gameStartTime s"
  "wavesCompleted (processKills t r k as s) = wavesCompleted s"
  "idCounter (processKills t r k as s) = idCounter s"
  by (rule processKills_frame_rule, simp)+

lemma foldl_alienEscapes_frame [simp]:
  "playerX (foldl (\<lambda>s a. alienEscapes t p a s) s as) = playerX s"
  "playerY (foldl (\<lambda>s a. alienEscapes t p a s) s as) = playerY s"
  "bullets (foldl (\<lambda>s a. alienEscapes t p a s) s as) = bullets s"
  "running (foldl (\<lambda>s a. alienEscapes t p a s) s as) = running s"
  "level (foldl (\<lambda>s a. alienEscapes t p a s) s as) = level s"
  "previousLevel (foldl (\<lambda>s a. alienEscapes t p a s) s as) = previousLevel s"
  "wave (foldl (\<lambda>s a. alienEscapes t p a s) s as) = wave s"
  "waveKills (foldl (\<lambda>s a. alienEscapes t p a s) s as) = waveKills s"
  "waveEnemiesSpawned (foldl (\<lambda>s a. alienEscapes t p a s) s as) = waveEnemiesSpawned s"
  "waveStartTime (foldl (\<lambda>s a. alienEscapes t p a s) s as) = waveStartTime s"
  "difficultyMode (foldl (\<lambda>s a. alienEscapes t p a s) s as) = difficultyMode s"
  "activePowerUps (foldl (\<lambda>s a. alienEscapes t p a s) s as) = activePowerUps s"
  "scoreMultiplier (foldl (\<lambda>s a. alienEscapes t p a s) s as) = scoreMultiplier s"
  "maxCombo (foldl (\<lambda>s a. alienEscapes t p a s) s as) = maxCombo s"
  "comboTier (foldl (\<lambda>s a. alienEscapes t p a s) s as) = comboTier s"
  "difficultyBracket (foldl (\<lambda>s a. alienEscapes t p a s) s as) = difficultyBracket s"
  "bossActive (foldl (\<lambda>s a. alienEscapes t p a s) s as) = bossActive s"
  "bossHP (foldl (\<lambda>s a. alienEscapes t p a s) s as) = bossHP s"
  "bossMaxHP (foldl (\<lambda>s a. alienEscapes t p a s) s as) = bossMaxHP s"
  "totalKills (foldl (\<lambda>s a. alienEscapes t p a s) s as) = totalKills s"
  "victoryType (foldl (\<lambda>s a. alienEscapes t p a s) s as) = victoryType s"
  "victoryTitle (foldl (\<lambda>s a. alienEscapes t p a s) s as) = victoryTitle s"
  "lastShotTime (foldl (\<lambda>s a. alienEscapes t p a s) s as) = lastShotTime s"
  "showWaveNotification (foldl (\<lambda>s a. alienEscapes t p a s) s as) = showWaveNotification s"
  "waveNotificationData (foldl (\<lambda>s a. alienEscapes t p a s) s as) = waveNotificationData s"
  "shotsFired (foldl (\<lambda>s a. alienEscapes t p a s) s as) = shotsFired s"
  "shotsHit (foldl (\<lambda>s a. alienEscapes t p a s) s as) = shotsHit s"
  "gameStartTime (foldl (\<lambda>s a. alienEscapes t p a s) s as) = gameStartTime s"
  "powerUpsCollected (foldl (\<lambda>s a. alienEscapes t p a s) s as) = powerUpsCollected s"
  "wavesCompleted (foldl (\<lambda>s a. alienEscapes t p a s) s as) = wavesCompleted s"
  "idCounter (foldl (\<lambda>s a. alienEscapes t p a s) s as) = idCounter s"
  by (rule foldl_frame, simp)+

lemma aliensReachingBottom_frame [simp]:
  "playerX (aliensReachingBottom t p s) = playerX s"
  "playerY (aliensReachingBottom t p s) = playerY s"
  "bullets (aliensReachingBottom t p s) = bullets s"
  "running (aliensReachingBottom t p s) = running s"
  "level (aliensReachingBottom t p s) = level s"
  "previousLevel (aliensReachingBottom t p s) = previousLevel s"
  "wave (aliensReachingBottom t p s) = wave s"
  "waveKills (aliensReachingBottom t p s) = waveKills s"
  "waveEnemiesSpawned (aliensReachingBottom t p s) = waveEnemiesSpawned s"
  "waveStartTime (aliensReachingBottom t p s) = waveStartTime s"
  "difficultyMode (aliensReachingBottom t p s) = difficultyMode s"
  "activePowerUps (aliensReachingBottom t p s) = activePowerUps s"
  "scoreMultiplier (aliensReachingBottom t p s) = scoreMultiplier s"
  "maxCombo (aliensReachingBottom t p s) = maxCombo s"
  "comboTier (aliensReachingBottom t p s) = comboTier s"
  "difficultyBracket (aliensReachingBottom t p s) = difficultyBracket s"
  "bossActive (aliensReachingBottom t p s) = bossActive s"
  "bossHP (aliensReachingBottom t p s) = bossHP s"
  "bossMaxHP (aliensReachingBottom t p s) = bossMaxHP s"
  "totalKills (aliensReachingBottom t p s) = totalKills s"
  "victoryType (aliensReachingBottom t p s) = victoryType s"
  "victoryTitle (aliensReachingBottom t p s) = victoryTitle s"
  "lastShotTime (aliensReachingBottom t p s) = lastShotTime s"
  "showWaveNotification (aliensReachingBottom t p s) = showWaveNotification s"
  "waveNotificationData (aliensReachingBottom t p s) = waveNotificationData s"
  "shotsFired (aliensReachingBottom t p s) = shotsFired s"
  "shotsHit (aliensReachingBottom t p s) = shotsHit s"
  "gameStartTime (aliensReachingBottom t p s) = gameStartTime s"
  "powerUpsCollected (aliensReachingBottom t p s) = powerUpsCollected s"
  "wavesCompleted (aliensReachingBottom t p s) = wavesCompleted s"
  "idCounter (aliensReachingBottom t p s) = idCounter s"
  by (simp_all add: aliensReachingBottom_def)

lemma tickResolved_frame [simp]:
  "playerX (tickResolved t r s) = playerX s"
  "playerY (tickResolved t r s) = playerY s"
  "running (tickResolved t r s) = running s"
  "wave (tickResolved t r s) = wave s"
  "waveEnemiesSpawned (tickResolved t r s) = waveEnemiesSpawned s"
  "waveStartTime (tickResolved t r s) = waveStartTime s"
  "difficultyMode (tickResolved t r s) = difficultyMode s"
  "bossHP (tickResolved t r s) = bossHP s"
  "bossMaxHP (tickResolved t r s) = bossMaxHP s"
  "missedAliens (tickResolved t r s) = missedAliens s"
  "lastShotTime (tickResolved t r s) = lastShotTime s"
  "showWaveNotification (tickResolved t r s) = showWaveNotification s"
  "waveNotificationData (tickResolved t r s) = waveNotificationData s"
  "shotsFired (tickResolved t r s) = shotsFired s"
  "gameStartTime (tickResolved t r s) = gameStartTime s"
  "wavesCompleted (tickResolved t r s) = wavesCompleted s"
  "idCounter (tickResolved t r s) = idCounter s"
  by (simp_all add: tickResolved_def Let_def)

lemma tick_frame [simp]:
  "playerX (tick t r s) = playerX s"
  "playerY (tick t r s) = playerY s"
  "running (tick t r s) = running s"
  "wave (tick t r s) = wave s"
  "waveEnemiesSpawned (tick t r s) = waveEnemiesSpawned s"
  "waveStartTime (tick t r s) = waveStartTime s"
  "difficultyMode (tick t r s) = difficultyMode s"
  "bossHP (tick t r s) = bossHP s"
  "bossMaxHP (tick t r s) = bossMaxHP s"
  "lastShotTime (tick t r s) = lastShotTime s"
  "showWaveNotification (tick t r s) = showWaveNotification s"
  "waveNotificationData (tick t r s) = waveNotificationData s"
  "shotsFired (tick t r s) = shotsFired s"
  "gameStartTime (tick t r s) = gameStartTime s"
  "wavesCompleted (tick t r s) = wavesCompleted s"
  "idCounter (tick t r s) = idCounter s"
  by (simp_all add: tick_def Let_def)

section \<open>Evaluation of runs\<close>

text \<open>
  The definitions that unfold a concrete run. The simplifier is given the weak
  congruence rule of \<open>Let\<close> with them, so that a bound value is computed before it is
  used.
\<close>

lemma floor_int_product [simp]: "\<lfloor>real_of_int a * real_of_int b * real_of_int c\<rfloor> = a * b * c"
  by (metis floor_of_int of_int_mult)

lemmas tick_eval =
  tick_def tickResolved_def tickCollisions_def tickTimers_def tickMovement_def
  detectCollisions_def collideBullet_def registerHit_def bulletHitsAlien_def processKill_def
  comboIncrease_def perfectComboBonus_def creditKill_def powerUpDrop_def collectPowerUp_def
  bossDefeated_def cannonCollision_def alienHitsCannon_def aliensReachingBottom_def
  alienEscapes_def recordEscape_def softMissReset_def bossReachedBottom_def screenOverflow_def
  missedScorePenalty_def removeAlienById_def outOfLives_def idleDetection_def
  missWindowReset_def comboDecayStep_def removeExpired_def updateBullets_def updateBullet_def
  moveAlien_def getAlienSpeed_def getWaveConfig_def waveBase_def getLevelWithinBracket_def
  getScorePressure_def getComboMultiplier_def getDifficultyBracket_def getPowerUpDuration_def
  getPowerUpDropChance_def hasPowerUp_def HIT_RADIUS_NORMAL_def HIT_RADIUS_BOSS_def
  CANNON_HIT_RADIUS_def MISS_THRESHOLD_def PERFECT_COMBO_BONUS_def Let_def

lemmas reducer_defs =
  move_def fire_def spawnAlien_def reset_def setGameStatus_def setDifficultyMode_def
  showWaveNotificationAction_def hideWaveNotification_def continueAfterVictory_def
  nextWave_def startWave_def startBoss_def incrementWaveSpawns_def incrementScore_def
  spawnBoss_def updateBossHP_def setVictory_def

lemmas run_eval =
  run_def reducer_defs initialState_def BULLET_LIMIT_def ALIEN_LIMIT_def tick_eval

lemma level_of_0: "calculateLevelFromScore 0 = 1"
  by (rule level_eq_if) (simp_all add: required_one lt_required_iff)

lemma level_of_100: "calculateLevelFromScore 100 = 1"
  by (rule level_eq_if) (simp_all add: required_one lt_required_iff)

lemma run_snoc: "run s (as @ [a]) = reducer (run s as) a"
  by (simp add: run_def)

lemma run_append: "run s (as @ bs) = run (run s as) bs"
  by (simp add: run_def)

lemma reachable_run: "reachable s \<Longrightarrow> reachable (run s as)"
proof (induction as rule: rev_induct)
  case Nil
  then show ?case by (simp add: run_def)
next
  case (snoc a as)
  then show ?case by (simp add: run_snoc reachable_step)
qed

section \<open>Combo and best combo\<close>

lemma tickTimers_maxCombo [simp]: "maxCombo (tickTimers t s) = maxCombo s"
  by simp

lemma idleDetection_combo:
  "combo (idleDetection t s) =
     (if combo s > 0 \<and> t - lastShotTime s \<ge> 15000 then 0 else combo s)"
  by (simp add: idleDetection_def)

lemma comboDecayStep_combo_le:
  "0 \<le> combo s \<Longrightarrow> 0 \<le> combo (comboDecayStep p s) \<and> combo (comboDecayStep p s) \<le> combo s"
  by (simp add: comboDecayStep_def Let_def)

lemma tickTimers_combo_eq:
  "combo (tickTimers t s) =
     combo (comboDecayStep (getScorePressure (calculateLevelFromScore (score s))) (idleDetection t s))"
  by (simp add: tickTimers_def Let_def comboDecayStep_def idleDetection_def missWindowReset_def)

lemma tickTimers_combo_le:
  assumes "0 \<le> combo s"
  shows "0 \<le> combo (tickTimers t s) \<and> combo (tickTimers t s) \<le> combo s"
proof -
  have i: "0 \<le> combo (idleDetection t s)" "combo (idleDetection t s) \<le> combo s"
    using assms by (simp_all add: idleDetection_combo)
  show ?thesis
    unfolding tickTimers_combo_eq
    using comboDecayStep_combo_le [OF i(1), of "getScorePressure (calculateLevelFromScore (score s))"] i(2)
    by linarith
qed

lemma tickCollisions_combo [simp]:
  "combo (accState (tickCollisions t s)) = combo (tickTimers t s)"
  by (simp add: tickCollisions_def)

lemma processKill_combo [simp]:
  "combo (processKill t d a s) = combo s + 1"
  "maxCombo (processKill t d a s) = max (maxCombo s) (combo s + 1)"
  by (simp_all add: processKill_def Let_def comboIncrease_def)

lemma processKills_combo [simp]:
  "combo (processKills t r k as s) = combo s + int (length as)"
  by (induction as arbitrary: k s) simp_all

lemma processKills_maxCombo:
  "maxCombo (processKills t r k as s) =
     (if as = [] then maxCombo s else max (maxCombo s) (combo s + int (length as)))"
  by (induction as arbitrary: k s) auto

lemma cannonCollision_combo:
  "combo (cannonCollision s) = (if find (alienHitsCannon s) (aliens s) = None then combo s else 0)"
  by (simp add: cannonCollision_def Let_def split: option.splits)

lemma alienEscapes_combo:
  "combo (alienEscapes t p a s) = combo s \<or> combo (alienEscapes t p a s) = 0"
  by (simp add: alienEscapes_def Let_def softMissReset_def)

lemma foldl_alienEscapes_combo:
  "combo (foldl (\<lambda>s a. alienEscapes t p a s) s as) = combo s \<or>
   combo (foldl (\<lambda>s a. alienEscapes t p a s) s as) = 0"
proof (induction as arbitrary: s)
  case Nil
  show ?case by simp
next
  case (Cons a as)
  show ?case
    using Cons [of "alienEscapes t p a s"] alienEscapes_combo [of t p a s] by auto
qed

lemma aliensReachingBottom_combo:
  "combo (aliensReachingBottom t p s) = combo s \<or> combo (aliensReachingBottom t p s) = 0"
  by (simp add: aliensReachingBottom_def foldl_alienEscapes_combo)

text \<open>The combo and the best combo after a tick.\<close>

lemma tickResolved_combo:
  "combo (tickResolved t r s) =
     combo (tickTimers t s) + int (length (destroyedAliens (tickCollisions t s)))"
  by (simp add: tickResolved_def Let_def)

lemma tickResolved_maxCombo:
  "maxCombo (tickResolved t r s) =
     (if destroyedAliens (tickCollisions t s) = [] then maxCombo s
      else max (maxCombo s)
             (combo (tickTimers t s) + int (length (destroyedAliens (tickCollisions t s)))))"
  by (simp add: tickResolved_def Let_def processKills_maxCombo)

lemma tick_maxCombo: "maxCombo (tick t r s) = maxCombo (tickResolved t r s)"
  by (simp add: tick_def Let_def)

lemma tick_combo_cases:
  "combo (tick t r s) = combo (tickResolved t r s) \<or> combo (tick t r s) = 0"
  unfolding tick_def Let_def
  using aliensReachingBottom_combo [of t "getScorePressure (level (tickResolved t r s))"
      "cannonCollision (tickResolved t r s)"]
    cannonCollision_combo [of "tickResolved t r s"]
  by (auto split: if_splits)

lemma tick_combo_invariant:
  assumes "0 \<le> combo s" "combo s \<le> maxCombo s"
  shows "0 \<le> combo (tick t r s) \<and> combo (tick t r s) \<le> maxCombo (tick t r s)"
  using assms tick_combo_cases [of t r s] tickTimers_combo_le [of s t]
  by (auto simp add: tick_maxCombo tickResolved_maxCombo tickResolved_combo)

lemma tick_maxCombo_mono: "maxCombo s \<le> maxCombo (tick t r s)"
  by (simp add: tick_maxCombo tickResolved_maxCombo)

lemma reducer_combo_other:
  assumes "\<not> isReset act" "\<forall>t r. act \<noteq> Tick t r"
  shows "combo (reducer s act) = combo s \<and> maxCombo (reducer s act) = maxCombo s"
  using assms by (cases act) (simp_all add: reducer_defs Let_def)

lemma reducer_combo_invariant:
  assumes "0 \<le> combo s \<and> combo s \<le> maxCombo s"
  shows "0 \<le> combo (reducer s act) \<and> combo (reducer s act) \<le> maxCombo (reducer s act)"
proof (cases act)
  case (Tick t r)
  then show ?thesis using assms tick_combo_invariant [of s t r] by simp
next
  case (Reset t1 t2 t3 t4)
  then show ?thesis by (simp add: reset_def initialState_def)
qed (use assms in \<open>simp_all add: reducer_defs Let_def\<close>)

lemma reachable_combo_invariant:
  "reachable s \<Longrightarrow> 0 \<le> combo s \<and> combo s \<le> maxCombo s"
proof (induction rule: reachable.induct)
  case (reachable_initial shotClock missClock startClock)
  show ?case by (simp add: initialState_def)
next
  case (reachable_step state action)
  from reachable_step.IH show ?case by (rule reducer_combo_invariant)
qed

lemma reducer_maxCombo_mono:
  assumes "\<not> isReset act"
  shows "maxCombo s \<le> maxCombo (reducer s act)"
proof (cases "\<exists>t r. act = Tick t r")
  case True
  then show ?thesis using tick_maxCombo_mono by auto
next
  case False
  then show ?thesis using reducer_combo_other [OF assms, of s] by simp
qed

text \<open>
  C10. In every reachable state the combo is at most the best combo. No reducer but
  reset lowers the best combo, and reset sets both to 0. A kill adds one to the combo
  and raises the best combo to the new combo when that is larger. The decay takes one
  off a positive combo when its timer runs out, and leaves it otherwise. The idle reset
  (15 seconds without a shot, combo positive), the cannon collision (an alien within
  the cannon's radius) and the miss reset (3 misses in the window) set the combo to 0;
  when their condition does not hold they leave it. Decay and the three resets leave
  the best combo alone. In a tick the best combo becomes the larger of its old value
  and the combo after the kills of the tick.
\<close>

theorem combo_le_maxCombo:
  "(reachable s \<longrightarrow> combo s \<le> maxCombo s) \<and>
   (\<not> isReset act \<longrightarrow> maxCombo s \<le> maxCombo (reducer s act)) \<and>
   (isReset act \<longrightarrow> combo (reducer s act) = 0 \<and> maxCombo (reducer s act) = 0) \<and>
   combo (processKill t d a s) = combo s + 1 \<and>
   maxCombo (processKill t d a s) = max (maxCombo s) (combo s + 1) \<and>
   combo (processKill t d a s) \<le> maxCombo (processKill t d a s) \<and>
   combo (comboDecayStep p s) =
     (if 0 < combo s \<and> 0 < comboDecay p \<and> comboTimer s \<le> 16 then combo s - 1 else combo s) \<and>
   maxCombo (comboDecayStep p s) = maxCombo s \<and>
   combo (idleDetection t s) =
     (if 0 < combo s \<and> 15000 \<le> t - lastShotTime s then 0 else combo s) \<and>
   maxCombo (idleDetection t s) = maxCombo s \<and>
   combo (cannonCollision s) =
     (if find (alienHitsCannon s) (aliens s) = None then combo s else 0) \<and>
   maxCombo (cannonCollision s) = maxCombo s \<and>
   combo (softMissReset t s) = (if 3 \<le> missesInWindow s then 0 else combo s) \<and>
   maxCombo (softMissReset t s) = maxCombo s \<and>
   combo (tickTimers t s) =
     combo (comboDecayStep (getScorePressure (calculateLevelFromScore (score s)))
       (idleDetection t s)) \<and>
   combo (tickResolved t r s) =
     combo (tickTimers t s) + int (length (destroyedAliens (tickCollisions t s))) \<and>
   maxCombo (tick t r s) =
     (if destroyedAliens (tickCollisions t s) = [] then maxCombo s
      else max (maxCombo s) (combo (tickResolved t r s)))"
proof -
  have 1: "isReset act \<Longrightarrow> combo (reducer s act) = 0 \<and> maxCombo (reducer s act) = 0"
    by (cases act) (simp_all add: reset_def initialState_def)
  have 2: "combo (comboDecayStep p s) =
     (if 0 < combo s \<and> 0 < comboDecay p \<and> comboTimer s \<le> 16 then combo s - 1 else combo s)"
    by (simp add: comboDecayStep_def Let_def)
  have 3: "combo (softMissReset t s) = (if 3 \<le> missesInWindow s then 0 else combo s)"
    by (simp add: softMissReset_def MISS_THRESHOLD_def)
  have 4: "combo (tickTimers t s) =
     combo (comboDecayStep (getScorePressure (calculateLevelFromScore (score s)))
       (idleDetection t s))"
    by (rule tickTimers_combo_eq)
  have 5: "maxCombo (tick t r s) =
     (if destroyedAliens (tickCollisions t s) = [] then maxCombo s
      else max (maxCombo s) (combo (tickResolved t r s)))"
    by (simp add: tick_maxCombo tickResolved_maxCombo tickResolved_combo)
  have 6: "reachable s \<Longrightarrow> combo s \<le> maxCombo s"
    using reachable_combo_invariant [of s] by simp
  have 7: "\<not> isReset act \<Longrightarrow> maxCombo s \<le> maxCombo (reducer s act)"
    using reducer_maxCombo_mono [of act s] by simp
  have 8: "combo (idleDetection t s) =
     (if 0 < combo s \<and> 15000 \<le> t - lastShotTime s then 0 else combo s)"
    by (simp add: idleDetection_combo)
  have 9: "combo (cannonCollision s) =
     (if find (alienHitsCannon s) (aliens s) = None then combo s else 0)"
    by (rule cannonCollision_combo)
  have 10: "combo (tickResolved t r s) =
     combo (tickTimers t s) + int (length (destroyedAliens (tickCollisions t s)))"
    by (rule tickResolved_combo)
  have 11: "combo (processKill t d a s) = combo s + 1"
    "maxCombo (processKill t d a s) = max (maxCombo s) (combo s + 1)"
    "combo (processKill t d a s) \<le> maxCombo (processKill t d a s)"
    "maxCombo (comboDecayStep p s) = maxCombo s"
    "maxCombo (idleDetection t s) = maxCombo s"
    "maxCombo (cannonCollision s) = maxCombo s"
    "maxCombo (softMissReset t s) = maxCombo s"
    by simp_all
  show ?thesis
    using 1 6 7 by (simp only: 2 3 4 [symmetric] 5 8 9 10 11 simp_thms) simp
qed

theorem combo_le_maxCombo_witness:
  "reachable (run (initialState 0 0 0) [Fire 0, SpawnAlien 0 (-1.82) Red 1 None None, Tick 0 (\<lambda>_. 0)]) \<and>
   combo (run (initialState 0 0 0) [Fire 0, SpawnAlien 0 (-1.82) Red 1 None None, Tick 0 (\<lambda>_. 0)]) = 1 \<and>
   maxCombo (run (initialState 0 0 0) [Fire 0, SpawnAlien 0 (-1.82) Red 1 None None, Tick 0 (\<lambda>_. 0)]) = 1 \<and>
   maxCombo (reducer (run (initialState 0 0 0)
       [Fire 0, SpawnAlien 0 (-1.82) Red 1 None None, Tick 0 (\<lambda>_. 0)]) (Tick 20000 (\<lambda>_. 0))) \<ge> 1 \<and>
   maxCombo (reducer (run (initialState 0 0 0)
       [Fire 0, SpawnAlien 0 (-1.82) Red 1 None None, Tick 0 (\<lambda>_. 0)]) (Reset 5 5 5 5)) = 0 \<and>
   combo (idleDetection 20000 (run (initialState 0 0 0)
       [Fire 0, SpawnAlien 0 (-1.82) Red 1 None None, Tick 0 (\<lambda>_. 0)])) = 0 \<and>
   combo (idleDetection 14999 (run (initialState 0 0 0)
       [Fire 0, SpawnAlien 0 (-1.82) Red 1 None None, Tick 0 (\<lambda>_. 0)])) = 1"
proof -
  define K where
    "K = run (initialState 0 0 0) [Fire 0, SpawnAlien 0 (-1.82) Red 1 None None, Tick 0 (\<lambda>_. 0)]"
  have r: "reachable K"
    unfolding K_def by (rule reachable_run) (rule reachable_initial)
  have e: "combo K = 1" "maxCombo K = 1" "lastShotTime K = 0"
    by (simp_all add: K_def run_eval level_of_0 cong: let_weak_cong)
  have "maxCombo K \<le> maxCombo (reducer K (Tick 20000 (\<lambda>_. 0)))"
    using combo_le_maxCombo [of K "Tick 20000 (\<lambda>_. 0)"] by simp
  moreover have "maxCombo (reducer K (Reset 5 5 5 5)) = 0"
    using combo_le_maxCombo [of K "Reset 5 5 5 5"] by simp
  moreover have "combo K \<le> maxCombo K"
    using combo_le_maxCombo [of K] r by simp
  moreover have "combo (idleDetection 20000 K) = 0"
    using combo_le_maxCombo [of K "Reset 5 5 5 5" 20000] e by simp
  moreover have "combo (idleDetection 14999 K) = 1"
    using combo_le_maxCombo [of K "Reset 5 5 5 5" 14999] e by simp
  ultimately show ?thesis using r e unfolding K_def by simp
qed

section \<open>Bullet and alien counts\<close>

lemma fire_bullets_at_cap:
  assumes "length (bullets s) \<ge> 100"
  shows "length (bullets (fire t s)) \<le> 100"
  using assms by (simp add: fire_def Let_def BULLET_LIMIT_def)

lemma fire_bullets_single:
  assumes "\<not> hasPowerUp SpreadShot (activePowerUps s)" "\<not> hasPowerUp DoubleBullets (activePowerUps s)"
    and "length (bullets s) \<le> 100"
  shows "length (bullets (fire t s)) \<le> 100"
  using assms by (simp add: fire_def Let_def BULLET_LIMIT_def)

lemma fire_drops_oldest:
  assumes "length (bullets s) \<ge> 100"
  shows "take 97 (bullets (fire t s)) = drop (length (bullets s) - 97) (bullets s)"
  using assms by (simp add: fire_def Let_def BULLET_LIMIT_def)

lemma fire_aliens [simp]: "aliens (fire t s) = aliens s"
  by (simp add: fire_def Let_def)

lemma spawnAlien_at_cap:
  assumes "length (aliens s) \<ge> 80" "boss \<noteq> Some True"
  shows "spawnAlien x y ty h boss vx s = s"
  using assms by (simp add: spawnAlien_def ALIEN_LIMIT_def)

lemma spawnAlien_below_cap:
  assumes "length (aliens s) < 80" "boss \<noteq> Some True"
  shows "length (aliens (spawnAlien x y ty h boss vx s)) = length (aliens s) + 1"
  using assms by (cases boss) (simp_all add: spawnAlien_def ALIEN_LIMIT_def Let_def)

lemma spawnAlien_boss_length:
  "length (aliens (spawnAlien x y ty h (Some True) vx s)) = length (aliens s) + 1"
  by (simp add: spawnAlien_def Let_def)

lemma spawnAlien_bullets [simp]: "bullets (spawnAlien x y ty h boss vx s) = bullets s"
  by (simp add: spawnAlien_def Let_def)

lemma spawnBoss_length: "length (aliens (spawnBoss h ty s)) = length (aliens s) + 1"
  by (simp add: spawnBoss_def Let_def)

lemma collideBullet_aliens_length [simp]:
  "length (aliens (accState (collideBullet b acc))) = length (aliens (accState acc))"
  by (simp add: collideBullet_def registerHit_def Let_def split: option.splits)

lemma foldl_collide_aliens_length [simp]:
  "length (aliens (accState (foldl (\<lambda>acc b. collideBullet b acc) acc bs)))
     = length (aliens (accState acc))"
  by (induction bs arbitrary: acc) simp_all

lemma detectCollisions_aliens_length [simp]:
  "length (aliens (accState (detectCollisions s))) = length (aliens s)"
  by (simp add: detectCollisions_def)

lemma tickMovement_lists [simp]:
  "bullets (tickMovement s) = updateBullets (bullets s)"
  "length (aliens (tickMovement s)) = length (aliens s)"
  by (simp_all add: tickMovement_def Let_def)

lemma tickCollisions_aliens_length [simp]:
  "length (aliens (accState (tickCollisions t s))) = length (aliens s)"
  by (simp add: tickCollisions_def)

lemma tickCollisions_bullets [simp]:
  "bullets (accState (tickCollisions t s)) = updateBullets (bullets s)"
  by (simp add: tickCollisions_def)

lemma tickResolved_bullets:
  "bullets (tickResolved t r s) =
     filter (\<lambda>b. bulletId b \<notin> bulletsToRemove (tickCollisions t s)) (updateBullets (bullets s))"
  by (simp add: tickResolved_def Let_def)

lemma tickResolved_aliens:
  "aliens (tickResolved t r s) = filter (\<lambda>a. hp a > 0) (aliens (accState (tickCollisions t s)))"
  by (simp add: tickResolved_def Let_def)

lemma cannonCollision_aliens_length:
  "length (aliens (cannonCollision s)) \<le> length (aliens s)"
  by (simp add: cannonCollision_def Let_def split: option.splits)

lemma alienEscapes_aliens_length:
  "length (aliens (alienEscapes t p a s)) \<le> length (aliens s)"
  by (simp add: alienEscapes_def Let_def removeAlienById_def outOfLives_def)

lemma foldl_alienEscapes_aliens_length:
  "length (aliens (foldl (\<lambda>s a. alienEscapes t p a s) s as)) \<le> length (aliens s)"
proof (induction as arbitrary: s)
  case Nil
  show ?case by simp
next
  case (Cons a as)
  show ?case
    using Cons [of "alienEscapes t p a s"] alienEscapes_aliens_length [of t p a s] by simp
qed

lemma tick_bullets: "bullets (tick t r s) = bullets (tickResolved t r s)"
  by (simp add: tick_def Let_def)

lemma tick_bullets_length: "length (bullets (tick t r s)) \<le> length (bullets s)"
proof -
  have "length (bullets (tick t r s)) \<le> length (updateBullets (bullets s))"
    by (simp add: tick_bullets tickResolved_bullets)
  also have "\<dots> \<le> length (bullets s)"
    using length_filter_le [of _ "map updateBullet (bullets s)"] by (simp add: updateBullets_def)
  finally show ?thesis .
qed

lemma tick_aliens_length: "length (aliens (tick t r s)) \<le> length (aliens s)"
proof -
  have "length (aliens (tick t r s)) \<le> length (aliens (cannonCollision (tickResolved t r s)))"
    by (simp add: tick_def Let_def aliensReachingBottom_def foldl_alienEscapes_aliens_length)
  also have "\<dots> \<le> length (aliens (tickResolved t r s))"
    by (rule cannonCollision_aliens_length)
  also have "\<dots> \<le> length (aliens (accState (tickCollisions t s)))"
    unfolding tickResolved_aliens by (rule length_filter_le)
  finally show ?thesis by simp
qed

lemma reset_lists: "bullets (reset a b c d s) = []" "aliens (reset a b c d s) = []"
  by (simp_all add: reset_def initialState_def)

text \<open>
  C7 (amended). fire at or above 100 bullets keeps the newest 97 and appends, leaving at
  most 100; a single-bullet fire (no spread shot, no double bullets) never takes the
  count above 100; fire adds no alien. spawnAlien for an alien
  that is not a boss does nothing at 80 aliens or more and never takes the count above
  80. A boss always spawns: spawnAlien with isBoss and spawnBoss add one alien whatever
  the count is. tick adds neither bullets nor aliens, and reset empties both lists.
\<close>

theorem entity_caps:
  "(length (bullets s) \<ge> 100 \<longrightarrow>
      length (bullets (fire t s)) \<le> 100 \<and>
      take 97 (bullets (fire t s)) = drop (length (bullets s) - 97) (bullets s)) \<and>
   (\<not> hasPowerUp SpreadShot (activePowerUps s) \<and> \<not> hasPowerUp DoubleBullets (activePowerUps s) \<and>
      length (bullets s) \<le> 100 \<longrightarrow> length (bullets (fire t s)) \<le> 100) \<and>
   aliens (fire t s) = aliens s \<and>
   (boss \<noteq> Some True \<and> length (aliens s) \<ge> 80 \<longrightarrow> spawnAlien x y ty h boss vx s = s) \<and>
   (boss \<noteq> Some True \<and> length (aliens s) \<le> 80 \<longrightarrow>
      length (aliens (spawnAlien x y ty h boss vx s)) \<le> 80) \<and>
   length (aliens (spawnAlien x y ty h (Some True) vx s)) = length (aliens s) + 1 \<and>
   length (aliens (spawnBoss h ty s)) = length (aliens s) + 1 \<and>
   bullets (spawnAlien x y ty h boss vx s) = bullets s \<and>
   bullets (spawnBoss h ty s) = bullets s \<and>
   length (bullets (tick t r s)) \<le> length (bullets s) \<and>
   length (aliens (tick t r s)) \<le> length (aliens s) \<and>
   bullets (reset c1 c2 c3 c4 s) = [] \<and> aliens (reset c1 c2 c3 c4 s) = []"
proof -
  have "boss \<noteq> Some True \<Longrightarrow> length (aliens s) \<le> 80
      \<Longrightarrow> length (aliens (spawnAlien x y ty h boss vx s)) \<le> 80"
    using spawnAlien_at_cap [of s boss x y ty h vx] spawnAlien_below_cap [of s boss x y ty h vx]
    by (cases "length (aliens s) < 80") auto
  moreover have "bullets (spawnBoss h ty s) = bullets s"
    by (simp add: spawnBoss_def Let_def)
  ultimately show ?thesis
    using fire_bullets_at_cap [of s t] fire_drops_oldest [of s t] fire_bullets_single [of s t]
      spawnAlien_at_cap [of s boss x y ty h vx]
      spawnAlien_boss_length [of x y ty h vx s] spawnBoss_length [of h ty s]
      tick_bullets_length [of t r s] tick_aliens_length [of t r s] reset_lists [of c1 c2 c3 c4 s]
    by simp
qed


lemma spawn_many:
  assumes "length (aliens s) + n \<le> 80"
  shows "length (aliens (run s (replicate n (SpawnAlien x y ty h None None)))) = length (aliens s) + n"
  using assms
proof (induction n)
  case 0
  show ?case by (simp add: run_def)
next
  case (Suc n)
  have "replicate (Suc n) (SpawnAlien x y ty h None None)
      = replicate n (SpawnAlien x y ty h None None) @ [SpawnAlien x y ty h None None]"
    by (simp add: replicate_append_same)
  then show ?case using Suc by (simp add: run_snoc spawnAlien_below_cap)
qed

theorem entity_caps_counterexample:
  "reachable (run (initialState 0 0 0)
      (replicate 80 (SpawnAlien 0 4 Red 1 None None) @ [SpawnBoss 40 Purple])) \<and>
   length (aliens (run (initialState 0 0 0)
      (replicate 80 (SpawnAlien 0 4 Red 1 None None) @ [SpawnBoss 40 Purple]))) = 81"
proof -
  have "length (aliens (run (initialState 0 0 0) (replicate 80 (SpawnAlien 0 4 Red 1 None None)))) = 80"
    using spawn_many [of "initialState 0 0 0" 80 0 4 Red 1] by (simp add: initialState_def)
  moreover have "reachable (run (initialState 0 0 0)
      (replicate 80 (SpawnAlien 0 4 Red 1 None None) @ [SpawnBoss 40 Purple]))"
    by (rule reachable_run) (rule reachable_initial)
  ultimately show ?thesis
    by (simp add: run_snoc spawnBoss_length)
qed

theorem entity_caps_witness:
  "length (bullets ((initialState 0 0 0)\<lparr> bullets := replicate 100 \<lparr> bulletId = Plain 1, bulletX = 0,
      bulletY = 0, bulletVx = 0, bulletVy = 0.15 \<rparr>, aliens := replicate 80 \<lparr> alienId = Plain 2,
      alienX = 0, alienY = 4, alienType = Red, hp = 1, maxHp = 1, isBoss = False, alienVx = 0 \<rparr> \<rparr>)) \<ge> 100 \<and>
   length (bullets (fire 7 ((initialState 0 0 0)\<lparr> bullets := replicate 100 \<lparr> bulletId = Plain 1, bulletX = 0,
      bulletY = 0, bulletVx = 0, bulletVy = 0.15 \<rparr>, aliens := replicate 80 \<lparr> alienId = Plain 2,
      alienX = 0, alienY = 4, alienType = Red, hp = 1, maxHp = 1, isBoss = False, alienVx = 0 \<rparr> \<rparr>))) \<le> 100 \<and>
   spawnAlien 0 4 Red 1 None None ((initialState 0 0 0)\<lparr> bullets := replicate 100 \<lparr> bulletId = Plain 1, bulletX = 0,
      bulletY = 0, bulletVx = 0, bulletVy = 0.15 \<rparr>, aliens := replicate 80 \<lparr> alienId = Plain 2,
      alienX = 0, alienY = 4, alienType = Red, hp = 1, maxHp = 1, isBoss = False, alienVx = 0 \<rparr> \<rparr>)
   = (initialState 0 0 0)\<lparr> bullets := replicate 100 \<lparr> bulletId = Plain 1, bulletX = 0,
      bulletY = 0, bulletVx = 0, bulletVy = 0.15 \<rparr>, aliens := replicate 80 \<lparr> alienId = Plain 2,
      alienX = 0, alienY = 4, alienType = Red, hp = 1, maxHp = 1, isBoss = False, alienVx = 0 \<rparr> \<rparr>"
proof -
  define S where "S = (initialState 0 0 0)\<lparr> bullets := replicate 100 \<lparr> bulletId = Plain 1, bulletX = 0,
      bulletY = 0, bulletVx = 0, bulletVy = 0.15 \<rparr>, aliens := replicate 80 \<lparr> alienId = Plain 2,
      alienX = 0, alienY = 4, alienType = Red, hp = 1, maxHp = 1, isBoss = False, alienVx = 0 \<rparr> \<rparr>"
  have h: "length (bullets S) = 100" "length (aliens S) = 80"
    "\<not> hasPowerUp SpreadShot (activePowerUps S)" "\<not> hasPowerUp DoubleBullets (activePowerUps S)"
    by (simp_all add: S_def initialState_def hasPowerUp_def)
  have "length (bullets (fire 7 S)) \<le> 100"
    using entity_caps [of S 7] h by simp
  moreover have "spawnAlien 0 4 Red 1 None None S = S"
    using entity_caps [of S 7 None 0 4 Red 1 None] h by simp
  ultimately show ?thesis using h unfolding S_def by simp
qed

section \<open>The boss flag\<close>

lemma processKill_bossActive [simp]:
  "bossActive (processKill t d a s) = (bossActive s \<and> \<not> isBoss a)"
  by (simp add: processKill_def Let_def bossDefeated_def)

lemma processKills_bossActive [simp]:
  "bossActive (processKills t r k as s) = (bossActive s \<and> \<not> list_ex isBoss as)"
  by (induction as arbitrary: k s) auto


lemma moveAlien_isBoss [simp]: "isBoss (moveAlien v a) = isBoss a"
  by (simp add: moveAlien_def Let_def)

lemma collideBullet_isBoss [simp]:
  "map isBoss (aliens (accState (collideBullet b acc))) = map isBoss (aliens (accState acc))"
proof -
  have u: "map isBoss (xs[i := (xs ! i)\<lparr> hp := h \<rparr>]) = map isBoss xs" for xs :: "Alien list" and i h
  proof -
    have "map isBoss (xs[i := (xs ! i)\<lparr> hp := h \<rparr>]) = (map isBoss xs)[i := isBoss (xs ! i)]"
      by (simp add: map_update)
    also have "\<dots> = map isBoss (xs[i := xs ! i])"
      by (simp only: map_update)
    finally show ?thesis by (simp only: list_update_id)
  qed
  show ?thesis
    by (simp add: collideBullet_def registerHit_def Let_def u split: option.splits)
qed

lemma foldl_collide_isBoss [simp]:
  "map isBoss (aliens (accState (foldl (\<lambda>acc b. collideBullet b acc) acc bs)))
     = map isBoss (aliens (accState acc))"
  by (induction bs arbitrary: acc) simp_all











section \<open>Kills: score and victory\<close>

lemma killCredit_cong [simp]:
  "killCredit (comboIncrease s) a = killCredit s a"
  "killCredit (perfectComboBonus s) a = killCredit s a"
  "killCredit (processKill t d b s) a = killCredit s a"
  by (simp_all add: killCredit_def)

lemma creditKill_score:
  "score (creditKill (alienRewards (alienType a)) a s) = score s + killCredit s a"
  by (simp add: creditKill_def killCredit_def Let_def)

lemma perfectComboBonus_score:
  "score (perfectComboBonus s) = score s + (if combo s = 50 then PERFECT_COMBO_BONUS else 0)"
  by (simp add: perfectComboBonus_def)

lemma comboIncrease_combo [simp]: "combo (comboIncrease s) = combo s + 1"
  by (simp add: comboIncrease_def Let_def)

lemma processKill_score:
  "score (processKill t d a s) =
     score s + killCredit s a + (if combo s = 49 then PERFECT_COMBO_BONUS else 0)"
  by (simp add: processKill_def Let_def creditKill_score perfectComboBonus_score)

lemma processKills_score:
  "score (processKills t r k as s) =
     score s + (\<Sum>a\<leftarrow>as. killCredit s a) +
     (if combo s < 50 \<and> 50 \<le> combo s + int (length as) then PERFECT_COMBO_BONUS else 0)"
proof (induction as arbitrary: k s)
  case Nil
  show ?case by simp
next
  case (Cons a as)
  show ?case
    by (simp add: Cons processKill_score) 
qed

lemma tickTimers_values:
  "level (tickTimers t s) = calculateLevelFromScore (score s)"
  "activePowerUps (tickTimers t s) = removeExpired t (activePowerUps s)"
  "scoreMultiplier (tickTimers t s) =
     multiplier (getComboMultiplier (combo s)) *
     (if hasPowerUp ScoreMultiplier (removeExpired t (activePowerUps s)) then 2 else 1)"
  by (simp_all add: tickTimers_def Let_def)

lemma tickCollisions_values [simp]:
  "level (accState (tickCollisions t s)) = level (tickTimers t s)"
  "scoreMultiplier (accState (tickCollisions t s)) = scoreMultiplier (tickTimers t s)"
  "activePowerUps (accState (tickCollisions t s)) = activePowerUps (tickTimers t s)"
  by (simp_all add: tickCollisions_def)

lemma killCredit_tickCollisions:
  "killCredit (accState (tickCollisions t s)) a =
     points (alienRewards (alienType a)) *
     (multiplier (getComboMultiplier (combo s)) *
      (if hasPowerUp ScoreMultiplier (removeExpired t (activePowerUps s)) then 2 else 1)) *
     (if isBoss a then 5 else 1)"
  by (simp add: killCredit_def tickTimers_values)

lemma tickResolved_score:
  "score (tickResolved t r s) =
     score s + (\<Sum>a\<leftarrow>destroyedAliens (tickCollisions t s). killCredit (accState (tickCollisions t s)) a) +
     (if combo (tickTimers t s) < 50 \<and>
         50 \<le> combo (tickTimers t s) + int (length (destroyedAliens (tickCollisions t s)))
      then PERFECT_COMBO_BONUS else 0)"
  by (simp add: tickResolved_def Let_def processKills_score)

lemma calculateKillScore_formula:
  "calculateKillScore alienHP w c boss m =
     \<lfloor>real_of_int (500 * alienHP * w) * real_of_int (multiplier (getComboMultiplier c)) *
      (case m of ModeNormal \<Rightarrow> 1 | ModeElite \<Rightarrow> 1.5 | ModeMastery \<Rightarrow> 2) *
      (if boss then 5 else 1)\<rfloor>"
  unfolding calculateKillScore_def Let_def
  by (rule arg_cong [where f = floor]) (cases m; cases boss; simp)

lemma calculateKillScore_base: "calculateKillScore 1 1 0 False ModeNormal = 500"
  by (simp add: calculateKillScore_def Let_def getComboMultiplier_def)

text \<open>
  C1 (amended). For every alien destroyed in a tick the score grows by
  points(type) * scoreMultiplier * bossMultiplier, where points is the reward table of
  game.ts (100 to 350 by colour), scoreMultiplier is the combo multiplier of the combo
  the tick started with, doubled while a scoreMultiplier power-up is active, and
  bossMultiplier is 5 for a boss and 1 otherwise; hit points, wave and difficulty mode
  do not enter. (The PERFECT bonus is added on top when the combo reaches 50.) The
  function calculateKillScore, which tick does not call, is the floor of
  500 * alienHP * wave * comboMultiplier * modeMultiplier * bossMultiplier, and is 500
  for alienHP 1, wave 1, combo 0, normal mode, no boss.
\<close>

theorem kill_score:
  "score (tickResolved t r s) =
     score s +
     (\<Sum>a\<leftarrow>destroyedAliens (tickCollisions t s).
        points (alienRewards (alienType a)) *
        (multiplier (getComboMultiplier (combo s)) *
         (if hasPowerUp ScoreMultiplier (removeExpired t (activePowerUps s)) then 2 else 1)) *
        (if isBoss a then 5 else 1)) +
     (if combo (tickTimers t s) < 50 \<and>
         50 \<le> combo (tickTimers t s) + int (length (destroyedAliens (tickCollisions t s)))
      then PERFECT_COMBO_BONUS else 0) \<and>
   score (creditKill (alienRewards (alienType a)) a s) =
     score s + points (alienRewards (alienType a)) * scoreMultiplier s * (if isBoss a then 5 else 1) \<and>
   calculateKillScore alienHP w c boss m =
     \<lfloor>real_of_int (500 * alienHP * w) * real_of_int (multiplier (getComboMultiplier c)) *
      (case m of ModeNormal \<Rightarrow> 1 | ModeElite \<Rightarrow> 1.5 | ModeMastery \<Rightarrow> 2) *
      (if boss then 5 else 1)\<rfloor> \<and>
   calculateKillScore 1 1 0 False ModeNormal = 500"
proof -
  have "score (tickResolved t r s) =
     score s +
     (\<Sum>a\<leftarrow>destroyedAliens (tickCollisions t s).
        points (alienRewards (alienType a)) *
        (multiplier (getComboMultiplier (combo s)) *
         (if hasPowerUp ScoreMultiplier (removeExpired t (activePowerUps s)) then 2 else 1)) *
        (if isBoss a then 5 else 1)) +
     (if combo (tickTimers t s) < 50 \<and>
         50 \<le> combo (tickTimers t s) + int (length (destroyedAliens (tickCollisions t s)))
      then PERFECT_COMBO_BONUS else 0)"
    unfolding tickResolved_score killCredit_tickCollisions ..
  moreover have "score (creditKill (alienRewards (alienType a)) a s) =
     score s + points (alienRewards (alienType a)) * scoreMultiplier s * (if isBoss a then 5 else 1)"
    unfolding creditKill_score killCredit_def ..
  ultimately show ?thesis
    using calculateKillScore_formula [of alienHP w c boss m] calculateKillScore_base
    by blast
qed

theorem kill_score_counterexample:
  "totalKills (run (initialState 0 0 0)
      [Fire 0, SpawnAlien 0 (-1.82) Red 1 None None, Tick 0 (\<lambda>_. 0)]) = 1 \<and>
   score (run (initialState 0 0 0)
      [Fire 0, SpawnAlien 0 (-1.82) Red 1 None None, Tick 0 (\<lambda>_. 0)]) = 100 \<and>
   calculateKillScore 1 1 0 False ModeNormal = 500 \<and>
   500 * points (alienRewards Red) = 50000"
  by (simp add: run_eval level_of_0 calculateKillScore_base cong: let_weak_cong)

text \<open>
  C6 (amended). The combo multiplier is 1 for a combo of 0 to 5, 2 for 6 to 15, 3 for
  16 to 30, 4 for 31 to 49 and 5 from 50 on. Every kill that takes the combo from 49 to
  50 adds the PERFECT bonus of 10000 to the score, each time it happens: nothing
  records that the bonus was given before.
\<close>

theorem perfect_bonus:
  "multiplier (getComboMultiplier c) =
     (if c \<le> 5 then 1 else if c \<le> 15 then 2 else if c \<le> 30 then 3 else if c \<le> 49 then 4 else 5) \<and>
   combo (processKill t d a s) = combo s + 1 \<and>
   score (processKill t d a s) =
     score s + killCredit s a + (if combo s = 49 then 10000 else 0)"
  by (simp add: getComboMultiplier_def processKill_score PERFECT_COMBO_BONUS_def)


subsection \<open>Victory\<close>

lemma bossDefeated_victory:
  "victoryType (bossDefeated s) =
     (if level s \<ge> 100 then Some Ultimate else if level s \<ge> 50 then Some Major
      else if level s \<ge> 10 then Some Minor else victoryType s)"
  "victoryTitle (bossDefeated s) =
     (if level s \<ge> 100 then ''COSMIC SAVIOR'' else if level s \<ge> 50 then ''ELITE SECTOR''
      else if level s \<ge> 10 then ''SECTOR CLEARED'' else victoryTitle s)"
  "status (bossDefeated s) = (if level s \<ge> 10 then Victory else status s)"
  by (simp_all add: bossDefeated_def Let_def)

lemma processKill_victory:
  "victoryType (processKill t d a s) =
     (if isBoss a then
        (if level s \<ge> 100 then Some Ultimate else if level s \<ge> 50 then Some Major
         else if level s \<ge> 10 then Some Minor else victoryType s)
      else victoryType s)"
  "victoryTitle (processKill t d a s) =
     (if isBoss a then
        (if level s \<ge> 100 then ''COSMIC SAVIOR'' else if level s \<ge> 50 then ''ELITE SECTOR''
         else if level s \<ge> 10 then ''SECTOR CLEARED'' else victoryTitle s)
      else victoryTitle s)"
  "status (processKill t d a s) = (if isBoss a \<and> level s \<ge> 10 then Victory else status s)"
  by (simp_all add: processKill_def Let_def bossDefeated_victory)

lemma processKills_victory:
  "victoryType (processKills t r k as s) =
     (if list_ex isBoss as then
        (if level s \<ge> 100 then Some Ultimate else if level s \<ge> 50 then Some Major
         else if level s \<ge> 10 then Some Minor else victoryType s)
      else victoryType s)"
  "victoryTitle (processKills t r k as s) =
     (if list_ex isBoss as then
        (if level s \<ge> 100 then ''COSMIC SAVIOR'' else if level s \<ge> 50 then ''ELITE SECTOR''
         else if level s \<ge> 10 then ''SECTOR CLEARED'' else victoryTitle s)
      else victoryTitle s)"
  "status (processKills t r k as s) =
     (if list_ex isBoss as \<and> level s \<ge> 10 then Victory else status s)"
proof (induction as arbitrary: k s)
  case Nil
  {
    case 1 show ?case by simp
  next
    case 2 show ?case by simp
  next
    case 3 show ?case by simp
  }
next
  case (Cons a as)
  {
    case 1 show ?case by (simp add: Cons processKill_victory)
  next
    case 2 show ?case by (simp add: Cons processKill_victory)
  next
    case 3 show ?case by (simp add: Cons processKill_victory)
  }
qed

lemma cannonCollision_status:
  "status (cannonCollision s) = status s \<or> status (cannonCollision s) = GameOver"
  by (simp add: cannonCollision_def Let_def split: option.splits)

lemma alienEscapes_status:
  "status (alienEscapes t p a s) = status s \<or> status (alienEscapes t p a s) = GameOver"
  by (simp add: alienEscapes_def Let_def outOfLives_def screenOverflow_def bossReachedBottom_def)

lemma foldl_alienEscapes_status:
  "status (foldl (\<lambda>s a. alienEscapes t p a s) s as) = status s \<or>
   status (foldl (\<lambda>s a. alienEscapes t p a s) s as) = GameOver"
proof (induction as arbitrary: s)
  case Nil
  show ?case by simp
next
  case (Cons a as)
  show ?case
    using Cons [of "alienEscapes t p a s"] alienEscapes_status [of t p a s] by auto
qed

lemma tick_status:
  "status (tick t r s) = status (tickResolved t r s) \<or> status (tick t r s) = GameOver"
  unfolding tick_def Let_def aliensReachingBottom_def
  using foldl_alienEscapes_status [of t "getScorePressure (level (tickResolved t r s))"
      "cannonCollision (tickResolved t r s)" "aliens (cannonCollision (tickResolved t r s))"]
    cannonCollision_status [of "tickResolved t r s"]
  by auto

lemma tick_victory_fields:
  "victoryType (tick t r s) = victoryType (tickResolved t r s)"
  "victoryTitle (tick t r s) = victoryTitle (tickResolved t r s)"
  by (simp_all add: tick_def Let_def)

lemma tickResolved_victory:
  "victoryType (tickResolved t r s) =
     (if list_ex isBoss (destroyedAliens (tickCollisions t s)) then
        (if calculateLevelFromScore (score s) \<ge> 100 then Some Ultimate
         else if calculateLevelFromScore (score s) \<ge> 50 then Some Major
         else if calculateLevelFromScore (score s) \<ge> 10 then Some Minor else victoryType s)
      else victoryType s)"
  "victoryTitle (tickResolved t r s) =
     (if list_ex isBoss (destroyedAliens (tickCollisions t s)) then
        (if calculateLevelFromScore (score s) \<ge> 100 then ''COSMIC SAVIOR''
         else if calculateLevelFromScore (score s) \<ge> 50 then ''ELITE SECTOR''
         else if calculateLevelFromScore (score s) \<ge> 10 then ''SECTOR CLEARED''
         else victoryTitle s)
      else victoryTitle s)"
  "status (tickResolved t r s) =
     (if list_ex isBoss (destroyedAliens (tickCollisions t s)) \<and>
         calculateLevelFromScore (score s) \<ge> 10
      then Victory else status s)"
  by (simp_all add: tickResolved_def Let_def processKills_victory tickTimers_values)

text \<open>
  How tick sets the victory fields: a victory is granted when a boss is among the aliens
  the tick destroys and the level (computed from the score at the start of the tick) is
  at least 10. The type depends on the level by thresholds: Minor for levels 10 to 49,
  Major for levels 50 to 99, Ultimate at level 100.
\<close>

lemma victory_by_level:
  "victoryType (tick t r s) =
     (if list_ex isBoss (destroyedAliens (tickCollisions t s)) then
        (if calculateLevelFromScore (score s) \<ge> 100 then Some Ultimate
         else if calculateLevelFromScore (score s) \<ge> 50 then Some Major
         else if calculateLevelFromScore (score s) \<ge> 10 then Some Minor else victoryType s)
      else victoryType s) \<and>
   victoryTitle (tick t r s) =
     (if list_ex isBoss (destroyedAliens (tickCollisions t s)) then
        (if calculateLevelFromScore (score s) \<ge> 100 then ''COSMIC SAVIOR''
         else if calculateLevelFromScore (score s) \<ge> 50 then ''ELITE SECTOR''
         else if calculateLevelFromScore (score s) \<ge> 10 then ''SECTOR CLEARED''
         else victoryTitle s)
      else victoryTitle s) \<and>
   status (tickResolved t r s) =
     (if list_ex isBoss (destroyedAliens (tickCollisions t s)) \<and>
         calculateLevelFromScore (score s) \<ge> 10
      then Victory else status s) \<and>
   status (tick t r s) \<in> {status (tickResolved t r s), GameOver} \<and>
   calculateLevelFromScore (score s) \<le> 100"
  using tick_status [of t r s] level_le_100 [of "score s"]
  by (simp only: tick_victory_fields tickResolved_victory) auto

lemma level_of_130000: "calculateLevelFromScore 130000 = 20"
  by (rule level_eq_if) (simp_all add: required_one lt_required_iff)

text \<open>
  C3. Victory is granted exactly when a boss is defeated at level 10, 50 or 100, and at
  no other level. The code does otherwise: here a boss is destroyed at level 20 (score
  130000), and the tick sets status Victory, type Minor and title SECTOR CLEARED.
\<close>

theorem victory_at_level_20:
  "level (run (initialState 0 0 0)
      [IncrementScore 130000, Fire 0, SpawnAlien 0 (-1.78) Red 1 (Some True) None,
       Tick 0 (\<lambda>_. 0)]) = 20 \<and>
   status (run (initialState 0 0 0)
      [IncrementScore 130000, Fire 0, SpawnAlien 0 (-1.78) Red 1 (Some True) None,
       Tick 0 (\<lambda>_. 0)]) = Victory \<and>
   victoryType (run (initialState 0 0 0)
      [IncrementScore 130000, Fire 0, SpawnAlien 0 (-1.78) Red 1 (Some True) None,
       Tick 0 (\<lambda>_. 0)]) = Some Minor \<and>
   victoryTitle (run (initialState 0 0 0)
      [IncrementScore 130000, Fire 0, SpawnAlien 0 (-1.78) Red 1 (Some True) None,
       Tick 0 (\<lambda>_. 0)]) = ''SECTOR CLEARED''"
  by (simp add: run_eval level_of_130000 cong: let_weak_cong)

section \<open>Combo resets\<close>

lemma tick_unfold:
  "tick t r s = aliensReachingBottom t (getScorePressure (calculateLevelFromScore (score s)))
     (cannonCollision (tickResolved t r s))"
  by (simp add: tick_def Let_def tickResolved_def tickTimers_values)

lemma escaped_Cons [simp]:
  "escaped (a # as) = (if alienY a < -3 then a # escaped as else escaped as)"
  "escaped [] = []"
  by (simp_all add: escaped_def)

lemma alienEscapes_not_escaped [simp]: "\<not> alienY a < -3 \<Longrightarrow> alienEscapes t p a s = s"
  by (simp add: alienEscapes_def)

lemma alienEscapes_misses:
  "alienY a < -3 \<Longrightarrow> missesInWindow (alienEscapes t p a s) =
     (if missesInWindow s + 1 \<ge> 3 then 0 else missesInWindow s + 1)"
  "alienY a < -3 \<Longrightarrow> combo (alienEscapes t p a s) =
     (if missesInWindow s + 1 \<ge> 3 then 0 else combo s)"
  by (simp_all add: alienEscapes_def Let_def softMissReset_def recordEscape_def MISS_THRESHOLD_def)

lemma foldl_alienEscapes_zero:
  "combo s = 0 \<Longrightarrow> combo (foldl (\<lambda>s a. alienEscapes t p a s) s as) = 0"
  using foldl_alienEscapes_combo [of t p s as] by auto

lemma foldl_alienEscapes_third_miss:
  "length (escaped as) \<ge> 1 \<Longrightarrow> missesInWindow s + int (length (escaped as)) \<ge> 3
    \<Longrightarrow> combo (foldl (\<lambda>s a. alienEscapes t p a s) s as) = 0"
proof (induction as arbitrary: s)
  case Nil
  then show ?case by simp
next
  case (Cons a as)
  show ?case
  proof (cases "alienY a < -3")
    case False
    with Cons show ?thesis by simp
  next
    case True
    show ?thesis
    proof (cases "missesInWindow s + 1 \<ge> 3")
      case True
      with \<open>alienY a < -3\<close> have "combo (alienEscapes t p a s) = 0"
        by (simp add: alienEscapes_misses)
      then show ?thesis by (simp add: foldl_alienEscapes_zero)
    next
      case False
      with \<open>alienY a < -3\<close> have m: "missesInWindow (alienEscapes t p a s) = missesInWindow s + 1"
        by (simp add: alienEscapes_misses)
      have "combo (foldl (\<lambda>s a. alienEscapes t p a s) (alienEscapes t p a s) as) = 0"
        using Cons.prems False \<open>alienY a < -3\<close> m by (intro Cons.IH) auto
      then show ?thesis by simp
    qed
  qed
qed

lemma foldl_alienEscapes_no_reset:
  "0 \<le> missesInWindow s \<Longrightarrow> missesInWindow s + int (length (escaped as)) < 3
    \<Longrightarrow> combo (foldl (\<lambda>s a. alienEscapes t p a s) s as) = combo s"
proof (induction as arbitrary: s)
  case Nil
  then show ?case by simp
next
  case (Cons a as)
  show ?case
  proof (cases "alienY a < -3")
    case False
    with Cons show ?thesis by simp
  next
    case True
    with Cons.prems have m: "missesInWindow (alienEscapes t p a s) = missesInWindow s + 1"
      and c: "combo (alienEscapes t p a s) = combo s"
      by (simp_all add: alienEscapes_misses)
    have "combo (foldl (\<lambda>s a. alienEscapes t p a s) (alienEscapes t p a s) as)
        = combo (alienEscapes t p a s)"
      using Cons.prems True m by (intro Cons.IH) auto
    then show ?thesis by (simp add: c)
  qed
qed

lemma foldl_alienEscapes_none:
  "escaped as = [] \<Longrightarrow> foldl (\<lambda>s a. alienEscapes t p a s) s as = s"
  by (induction as arbitrary: s) (simp_all split: if_splits)

text \<open>Once the game is over with no life left, escaping aliens leave it so.\<close>

lemma alienEscapes_over:
  "status s = GameOver \<Longrightarrow> lives s = 0
    \<Longrightarrow> status (alienEscapes t p a s) = GameOver \<and> lives (alienEscapes t p a s) = 0"
  by (simp add: alienEscapes_def Let_def outOfLives_def screenOverflow_def bossReachedBottom_def
      recordEscape_def)

lemma foldl_alienEscapes_over:
  "status s = GameOver \<Longrightarrow> lives s = 0
    \<Longrightarrow> status (foldl (\<lambda>s a. alienEscapes t p a s) s as) = GameOver \<and>
        lives (foldl (\<lambda>s a. alienEscapes t p a s) s as) = 0"
proof (induction as arbitrary: s)
  case Nil
  then show ?case by simp
next
  case (Cons a as)
  then show ?case using alienEscapes_over [of s t p a] by simp
qed

lemma alienEscapes_boss:
  "alienY a < -3 \<Longrightarrow> isBoss a
    \<Longrightarrow> status (alienEscapes t p a s) = GameOver \<and> lives (alienEscapes t p a s) = 0"
  by (simp add: alienEscapes_def Let_def outOfLives_def screenOverflow_def bossReachedBottom_def)

lemma foldl_alienEscapes_boss:
  "list_ex isBoss (escaped as)
    \<Longrightarrow> status (foldl (\<lambda>s a. alienEscapes t p a s) s as) = GameOver \<and>
        lives (foldl (\<lambda>s a. alienEscapes t p a s) s as) = 0"
proof (induction as arbitrary: s)
  case Nil
  then show ?case by simp
next
  case (Cons a as)
  show ?case
  proof (cases "alienY a < -3 \<and> isBoss a")
    case True
    then show ?thesis
      using alienEscapes_boss [of a t p s] foldl_alienEscapes_over [of "alienEscapes t p a s" t p as]
      by simp
  next
    case False
    with Cons.prems have "list_ex isBoss (escaped as)" by (auto split: if_splits)
    then show ?thesis using Cons.IH by simp
  qed
qed

lemma tickResolved_misses [simp]:
  "missesInWindow (tickResolved t r s) =
     (if t - missWindowStart s \<ge> 10000 then 0 else missesInWindow s)"
  by (simp add: tickResolved_def Let_def tickCollisions_def tickTimers_def missWindowReset_def)

lemma tickTimers_idle:
  "combo s > 0 \<Longrightarrow> t - lastShotTime s \<ge> 15000 \<Longrightarrow> combo (tickTimers t s) = 0"
  by (simp add: tickTimers_combo_eq idleDetection_def comboDecayStep_def)

lemma tickTimers_not_idle:
  "\<not> (combo s > 0 \<and> t - lastShotTime s \<ge> 15000)
    \<Longrightarrow> combo (tickTimers t s) =
        combo (comboDecayStep (getScorePressure (calculateLevelFromScore (score s))) s)"
  by (auto simp add: tickTimers_combo_eq idleDetection_def)

lemma cannonCollision_misses [simp]:
  "missesInWindow (cannonCollision s) = missesInWindow s"
  by simp

text \<open>
  C5 (amended). Within a tick the combo is set to 0 by three events. (1) A cannon-alien
  collision: the combo is 0 when the tick ends. (2) The miss counter of the current
  window reaching 3 (the window is restarted, and the counter cleared, at the first tick
  10 seconds or more after its start, so the window does not roll): the combo is 0 when
  the tick ends. (3) 15 seconds without a shot while the combo is positive: the combo is
  0 after the timers, and at the end of the tick it is the number of kills of the tick,
  or 0. When none of the three happens the combo is not reset: it is the combo after
  the decay step plus the kills of the tick. A boss reaching the lower boundary ends
  the game (status GameOver, no life left); that branch does not assign the combo.
\<close>

theorem combo_resets:
  "(find (alienHitsCannon (tickResolved t r s)) (aliens (tickResolved t r s)) \<noteq> None
      \<longrightarrow> combo (tick t r s) = 0) \<and>
   (length (escaped (aliens (cannonCollision (tickResolved t r s)))) \<ge> 1 \<and>
    (if t - missWindowStart s \<ge> 10000 then 0 else missesInWindow s) +
      int (length (escaped (aliens (cannonCollision (tickResolved t r s))))) \<ge> 3
      \<longrightarrow> combo (tick t r s) = 0) \<and>
   (combo s > 0 \<and> t - lastShotTime s \<ge> 15000
      \<longrightarrow> combo (tickTimers t s) = 0 \<and>
          combo (tick t r s) \<in> {0, int (length (destroyedAliens (tickCollisions t s)))}) \<and>
   (\<not> (combo s > 0 \<and> t - lastShotTime s \<ge> 15000) \<and>
    find (alienHitsCannon (tickResolved t r s)) (aliens (tickResolved t r s)) = None \<and>
    0 \<le> (if t - missWindowStart s \<ge> 10000 then 0 else missesInWindow s) \<and>
    (if t - missWindowStart s \<ge> 10000 then 0 else missesInWindow s) +
      int (length (escaped (aliens (cannonCollision (tickResolved t r s))))) < 3
      \<longrightarrow> combo (tick t r s) =
          combo (comboDecayStep (getScorePressure (calculateLevelFromScore (score s))) s) +
          int (length (destroyedAliens (tickCollisions t s)))) \<and>
   (list_ex isBoss (escaped (aliens (cannonCollision (tickResolved t r s))))
      \<longrightarrow> status (tick t r s) = GameOver \<and> lives (tick t r s) = 0) \<and>
   combo (bossReachedBottom a s) = combo s"
proof (intro conjI impI)
  let ?X = "tickResolved t r s"
  let ?Y = "cannonCollision ?X"
  let ?p = "getScorePressure (calculateLevelFromScore (score s))"
  let ?m = "if t - missWindowStart s \<ge> 10000 then 0 else missesInWindow s"
  have t: "tick t r s = foldl (\<lambda>s a. alienEscapes t ?p a s) ?Y (aliens ?Y)"
    by (simp add: tick_unfold aliensReachingBottom_def)
  have m: "missesInWindow ?Y = ?m" by simp
  {
    assume "find (alienHitsCannon ?X) (aliens ?X) \<noteq> None"
    then have "combo ?Y = 0" by (auto simp add: cannonCollision_combo)
    then show "combo (tick t r s) = 0" unfolding t by (rule foldl_alienEscapes_zero)
  }
  {
    assume "length (escaped (aliens ?Y)) \<ge> 1 \<and> ?m + int (length (escaped (aliens ?Y))) \<ge> 3"
    then show "combo (tick t r s) = 0"
      unfolding t using m by (intro foldl_alienEscapes_third_miss) auto
  }
  {
    assume i: "combo s > 0 \<and> t - lastShotTime s \<ge> 15000"
    then show z: "combo (tickTimers t s) = 0" by (simp add: tickTimers_idle)
    show "combo (tick t r s) \<in> {0, int (length (destroyedAliens (tickCollisions t s)))}"
      using tick_combo_cases [of t r s] z by (auto simp add: tickResolved_combo)
  }
  {
    assume a: "\<not> (combo s > 0 \<and> t - lastShotTime s \<ge> 15000) \<and>
      find (alienHitsCannon ?X) (aliens ?X) = None \<and> 0 \<le> ?m \<and>
      ?m + int (length (escaped (aliens ?Y))) < 3"
    then have "combo (tick t r s) = combo ?Y"
      unfolding t using m by (intro foldl_alienEscapes_no_reset) auto
    also have "\<dots> = combo ?X" using a by (simp add: cannonCollision_combo)
    also have "\<dots> = combo (comboDecayStep ?p s) + int (length (destroyedAliens (tickCollisions t s)))"
      using a by (simp add: tickResolved_combo tickTimers_not_idle)
    finally show "combo (tick t r s) =
          combo (comboDecayStep ?p s) + int (length (destroyedAliens (tickCollisions t s)))" .
  }
  {
    assume "list_ex isBoss (escaped (aliens ?Y))"
    then show "status (tick t r s) = GameOver" "lives (tick t r s) = 0"
      unfolding t using foldl_alienEscapes_boss by blast+
  }
  show "combo (bossReachedBottom a s) = combo s" by simp
qed


theorem combo_resets_witness:
  "combo (tick 0 (\<lambda>_. 0) (run (initialState 0 0 0)
     [Fire 0, SpawnAlien 0 (-1.82) Red 1 None None, Tick 0 (\<lambda>_. 0),
      SpawnAlien 0 (-2.4) Red 1 None None])) = 0 \<and>
   combo (tick 0 (\<lambda>_. 0) (run (initialState 0 0 0)
     [Fire 0, SpawnAlien 0 (-1.82) Red 1 None None, Tick 0 (\<lambda>_. 0),
      SpawnAlien 3 (-2.99) Red 1 None None, SpawnAlien 2 (-2.99) Red 1 None None,
      SpawnAlien 1 (-2.99) Red 1 None None])) = 0 \<and>
   combo (tick 20000 (\<lambda>_. 0) (run (initialState 0 0 0)
     [Fire 0, SpawnAlien 0 (-1.82) Red 1 None None, Tick 0 (\<lambda>_. 0)])) = 0 \<and>
   combo (tick 0 (\<lambda>_. 0) (run (initialState 0 0 0)
     [Fire 0, SpawnAlien 0 (-1.82) Red 1 None None, Tick 0 (\<lambda>_. 0)])) = 1 \<and>
   status (tick 0 (\<lambda>_. 0) (run (initialState 0 0 0)
     [Fire 0, SpawnAlien 0 (-1.82) Red 1 None None, Tick 0 (\<lambda>_. 0),
      SpawnAlien 3 (-2.99) Red 1 (Some True) None])) = GameOver"
proof -
  define K where
    "K = run (initialState 0 0 0) [Fire 0, SpawnAlien 0 (-1.82) Red 1 None None, Tick 0 (\<lambda>_. 0)]"
  define r :: "nat \<Rightarrow> real" where "r = (\<lambda>_. 0)"
  have K: "K = (initialState 0 0 0)\<lparr> score := 100, combo := 1, maxCombo := 1, comboTimer := 2000,
      totalKills := 1, waveKills := 1, shotsFired := 1, shotsHit := 1, powerUpsCollected := 1,
      activePowerUps := [\<lparr> powerType = FireRate, expiresAt = 8000 \<rparr>], idCounter := 2 \<rparr>"
    by (simp add: K_def run_eval level_of_0 cong: let_weak_cong)
  have 1: "combo (tick 0 r (run K [SpawnAlien 0 (-2.4) Red 1 None None])) = 0"
  proof -
    have "find (alienHitsCannon (tickResolved 0 r (run K [SpawnAlien 0 (-2.4) Red 1 None None])))
        (aliens (tickResolved 0 r (run K [SpawnAlien 0 (-2.4) Red 1 None None]))) \<noteq> None"
      by (simp add: K run_eval level_of_100 cong: let_weak_cong)
    then show ?thesis using combo_resets by blast
  qed
  have 2: "combo (tick 0 r (run K [SpawnAlien 3 (-2.99) Red 1 None None,
      SpawnAlien 2 (-2.99) Red 1 None None, SpawnAlien 1 (-2.99) Red 1 None None])) = 0"
  proof -
    have "length (escaped (aliens (cannonCollision (tickResolved 0 r
        (run K [SpawnAlien 3 (-2.99) Red 1 None None,
          SpawnAlien 2 (-2.99) Red 1 None None, SpawnAlien 1 (-2.99) Red 1 None None]))))) = 3"
      "missWindowStart (run K [SpawnAlien 3 (-2.99) Red 1 None None,
          SpawnAlien 2 (-2.99) Red 1 None None, SpawnAlien 1 (-2.99) Red 1 None None]) = 0"
      "missesInWindow (run K [SpawnAlien 3 (-2.99) Red 1 None None,
          SpawnAlien 2 (-2.99) Red 1 None None, SpawnAlien 1 (-2.99) Red 1 None None]) = 0"
      by (simp_all add: K run_eval level_of_100 cong: let_weak_cong)
    then show ?thesis
      using combo_resets [of 0 r "run K [SpawnAlien 3 (-2.99) Red 1 None None,
          SpawnAlien 2 (-2.99) Red 1 None None, SpawnAlien 1 (-2.99) Red 1 None None]"]
      by simp
  qed
  have 3: "combo (tick 20000 r K) = 0"
  proof -
    have "combo K > 0 \<and> 20000 - lastShotTime K \<ge> 15000"
      "length (destroyedAliens (tickCollisions 20000 K)) = 0"
      by (simp_all add: K run_eval level_of_100 cong: let_weak_cong)
    then show ?thesis using combo_resets [of 20000 r K] by simp
  qed
  have 4: "combo (tick 0 r K) = 1"
  proof -
    have "\<not> (combo K > 0 \<and> 0 - lastShotTime K \<ge> 15000)"
      "find (alienHitsCannon (tickResolved 0 r K)) (aliens (tickResolved 0 r K)) = None"
      "missWindowStart K = 0" "missesInWindow K = 0"
      "length (escaped (aliens (cannonCollision (tickResolved 0 r K)))) = 0"
      "length (destroyedAliens (tickCollisions 0 K)) = 0"
      "combo (comboDecayStep (getScorePressure (calculateLevelFromScore (score K))) K) = 1"
      by (simp_all add: K run_eval level_of_100 cong: let_weak_cong)
    then show ?thesis using combo_resets [of 0 r K] by simp
  qed
  have 5: "status (tick 0 r (run K [SpawnAlien 3 (-2.99) Red 1 (Some True) None])) = GameOver"
  proof -
    have "list_ex isBoss (escaped (aliens (cannonCollision (tickResolved 0 r
        (run K [SpawnAlien 3 (-2.99) Red 1 (Some True) None])))))"
      by (simp add: K run_eval level_of_100 cong: let_weak_cong)
    then show ?thesis using combo_resets by blast
  qed
  show ?thesis
    using 1 2 3 4 5 unfolding K_def r_def by (simp add: run_def)
qed

theorem combo_resets_counterexample:
  "status (run (initialState 0 0 0)
     [Fire 0, SpawnAlien 0 (-1.82) Red 1 None None, Tick 0 (\<lambda>_. 0),
      SpawnAlien 3 (-2.99) Red 1 (Some True) None, Tick 0 (\<lambda>_. 0)]) = GameOver \<and>
   missedAliens (run (initialState 0 0 0)
     [Fire 0, SpawnAlien 0 (-1.82) Red 1 None None, Tick 0 (\<lambda>_. 0),
      SpawnAlien 3 (-2.99) Red 1 (Some True) None, Tick 0 (\<lambda>_. 0)]) = 1 \<and>
   aliens (run (initialState 0 0 0)
     [Fire 0, SpawnAlien 0 (-1.82) Red 1 None None, Tick 0 (\<lambda>_. 0),
      SpawnAlien 3 (-2.99) Red 1 (Some True) None, Tick 0 (\<lambda>_. 0)]) = [] \<and>
   combo (run (initialState 0 0 0)
     [Fire 0, SpawnAlien 0 (-1.82) Red 1 None None, Tick 0 (\<lambda>_. 0),
      SpawnAlien 3 (-2.99) Red 1 (Some True) None]) = 1 \<and>
   combo (run (initialState 0 0 0)
     [Fire 0, SpawnAlien 0 (-1.82) Red 1 None None, Tick 0 (\<lambda>_. 0),
      SpawnAlien 3 (-2.99) Red 1 (Some True) None, Tick 0 (\<lambda>_. 0)]) = 1"
  by (simp add: run_eval level_of_0 level_of_100 cong: let_weak_cong)

section \<open>What a tick takes from the random source\<close>

lemma powerUpDrop_draw:
  assumes "isBoss a \<or> (d < getPowerUpDropChance (level s)) = (d' < getPowerUpDropChance (level s))"
  shows "powerUpDrop t d rw a s = powerUpDrop t d' rw a s"
  using assms by (auto simp add: powerUpDrop_def Let_def)

lemma processKill_draw:
  assumes "isBoss a \<or> (d < getPowerUpDropChance (level s)) = (d' < getPowerUpDropChance (level s))"
  shows "processKill t d a s = processKill t d' a s"
proof -
  have "powerUpDrop t d (alienRewards (alienType a)) a
          (creditKill (alienRewards (alienType a)) a (perfectComboBonus (comboIncrease s)))
      = powerUpDrop t d' (alienRewards (alienType a)) a
          (creditKill (alienRewards (alienType a)) a (perfectComboBonus (comboIncrease s)))"
    using assms by (intro powerUpDrop_draw) simp
  then show ?thesis by (simp add: processKill_def Let_def)
qed

lemma processKills_draw:
  assumes "\<forall>i < length as. isBoss (as ! i) \<or>
      (r (k + i) < getPowerUpDropChance (level s)) = (r' (k + i) < getPowerUpDropChance (level s))"
  shows "processKills t r k as s = processKills t r' k as s"
  using assms
proof (induction as arbitrary: k s)
  case Nil
  show ?case by simp
next
  case (Cons a as)
  have 0: "isBoss a \<or> (r k < getPowerUpDropChance (level s)) = (r' k < getPowerUpDropChance (level s))"
    using Cons.prems by fastforce
  have e: "processKill t (r k) a s = processKill t (r' k) a s"
    using 0 by (rule processKill_draw)
  have "\<forall>i < length as. isBoss (as ! i) \<or>
      (r (Suc k + i) < getPowerUpDropChance (level (processKill t (r' k) a s)))
      = (r' (Suc k + i) < getPowerUpDropChance (level (processKill t (r' k) a s)))"
  proof (intro allI impI)
    fix i assume "i < length as"
    then have "Suc i < length (a # as)" by simp
    from Cons.prems [rule_format, OF this]
    show "isBoss (as ! i) \<or>
      (r (Suc k + i) < getPowerUpDropChance (level (processKill t (r' k) a s)))
      = (r' (Suc k + i) < getPowerUpDropChance (level (processKill t (r' k) a s)))"
      by simp
  qed
  then have "processKills t r (Suc k) as (processKill t (r' k) a s)
      = processKills t r' (Suc k) as (processKill t (r' k) a s)"
    by (rule Cons.IH)
  then show ?case by (simp add: e)
qed

lemma tick_draws:
  assumes "\<forall>i < length (destroyedAliens (tickCollisions t s)).
      isBoss (destroyedAliens (tickCollisions t s) ! i) \<or>
      (r i < getPowerUpDropChance (calculateLevelFromScore (score s)))
      = (r' i < getPowerUpDropChance (calculateLevelFromScore (score s)))"
  shows "tick t r s = tick t r' s"
proof -
  have "processKills t r 0 (destroyedAliens (tickCollisions t s)) (accState (tickCollisions t s))
      = processKills t r' 0 (destroyedAliens (tickCollisions t s)) (accState (tickCollisions t s))"
    using assms by (intro processKills_draw) (simp add: tickTimers_values)
  then have "tickResolved t r s = tickResolved t r' s"
    by (simp add: tickResolved_def Let_def)
  then show ?thesis by (simp add: tick_def Let_def)
qed

text \<open>
  C2 (amended). The reducer is a function of the state, the action and of what the clock
  and the random source return when it reads them: fire, tick, reset, nextWave and
  startWave read \<^verbatim>\<open>Date.now()\<close>, and tick reads \<^verbatim>\<open>Math.random()\<close> once for every
  destroyed alien that is not a boss. A tick depends on those draws only through the
  comparisons with the drop chance of the level: two ticks from the same state at the
  same clock reading give the same state when the comparisons agree. Below level 50 the
  drop chance is 1, so there every draw (a number below 1) gives the same state.
\<close>

theorem tick_random_dependence:
  "((\<forall>i < length (destroyedAliens (tickCollisions t s)).
       isBoss (destroyedAliens (tickCollisions t s) ! i) \<or>
       (r i < getPowerUpDropChance (calculateLevelFromScore (score s)))
       = (r' i < getPowerUpDropChance (calculateLevelFromScore (score s))))
     \<longrightarrow> tick t r s = tick t r' s) \<and>
   (calculateLevelFromScore (score s) < 50 \<and> (\<forall>i. r i < 1 \<and> r' i < 1)
     \<longrightarrow> tick t r s = tick t r' s)"
proof (intro conjI impI)
  assume "\<forall>i < length (destroyedAliens (tickCollisions t s)).
       isBoss (destroyedAliens (tickCollisions t s) ! i) \<or>
       (r i < getPowerUpDropChance (calculateLevelFromScore (score s)))
       = (r' i < getPowerUpDropChance (calculateLevelFromScore (score s)))"
  then show "tick t r s = tick t r' s" by (rule tick_draws)
next
  assume "calculateLevelFromScore (score s) < 50 \<and> (\<forall>i. r i < 1 \<and> r' i < 1)"
  then show "tick t r s = tick t r' s"
    by (intro tick_draws) (simp add: getPowerUpDropChance_def)
qed

lemma level_of_10000000: "calculateLevelFromScore 10000000 = 100"
  by (rule level_eq_100) (simp add: lt_required_iff)

theorem tick_random_dependence_witness:
  "tick 0 (\<lambda>_. 0) (run (initialState 0 0 0) [Fire 0, SpawnAlien 0 (-1.82) Red 1 None None])
   = tick 0 (\<lambda>_. 1 / 2) (run (initialState 0 0 0) [Fire 0, SpawnAlien 0 (-1.82) Red 1 None None]) \<and>
   length (destroyedAliens (tickCollisions 0
     (run (initialState 0 0 0) [Fire 0, SpawnAlien 0 (-1.82) Red 1 None None]))) = 1"
proof -
  define S where "S = run (initialState 0 0 0) [Fire 0, SpawnAlien 0 (-1.82) Red 1 None None]"
  have "calculateLevelFromScore (score S) < 50"
    by (simp add: S_def run_def reducer_defs initialState_def Let_def level_of_0)
  moreover have "\<forall>i::nat. (0::real) < 1 \<and> (1 / 2 :: real) < 1" by simp
  ultimately have "tick 0 (\<lambda>_. 0) S = tick 0 (\<lambda>_. 1 / 2) S"
    using tick_random_dependence [of 0 S "\<lambda>_. 0" "\<lambda>_. 1 / 2"] by blast
  moreover have "length (destroyedAliens (tickCollisions 0 S)) = 1"
    by (simp add: S_def run_eval level_of_0 cong: let_weak_cong)
  ultimately show ?thesis unfolding S_def by simp
qed

theorem tick_random_dependence_counterexample:
  "powerUpsCollected (run (initialState 0 0 0)
     [IncrementScore 10000000, Fire 0, SpawnAlien 0 (-1.643) Red 1 None None,
      Tick 0 (\<lambda>_. 1 / 10)]) = 1 \<and>
   powerUpsCollected (run (initialState 0 0 0)
     [IncrementScore 10000000, Fire 0, SpawnAlien 0 (-1.643) Red 1 None None,
      Tick 0 (\<lambda>_. 9 / 10)]) = 0 \<and>
   run (initialState 0 0 0)
     [IncrementScore 10000000, Fire 0, SpawnAlien 0 (-1.643) Red 1 None None,
      Tick 0 (\<lambda>_. 1 / 10)] \<noteq>
   run (initialState 0 0 0)
     [IncrementScore 10000000, Fire 0, SpawnAlien 0 (-1.643) Red 1 None None,
      Tick 0 (\<lambda>_. 9 / 10)]"
proof -
  have a: "powerUpsCollected (run (initialState 0 0 0)
     [IncrementScore 10000000, Fire 0, SpawnAlien 0 (-1.643) Red 1 None None,
      Tick 0 (\<lambda>_. 1 / 10)]) = 1"
    by (simp add: run_eval level_of_10000000 cong: let_weak_cong)
  have b: "powerUpsCollected (run (initialState 0 0 0)
     [IncrementScore 10000000, Fire 0, SpawnAlien 0 (-1.643) Red 1 None None,
      Tick 0 (\<lambda>_. 9 / 10)]) = 0"
    by (simp add: run_eval level_of_10000000 cong: let_weak_cong)
  from a b show ?thesis by auto
qed


section \<open>A volley: many shots from one place at one alien\<close>

lemma fire_plain:
  assumes "\<not> hasPowerUp SpreadShot (activePowerUps s)" "\<not> hasPowerUp DoubleBullets (activePowerUps s)"
    and "length (bullets s) < 100"
  shows "fire t s = s\<lparr> lastShotTime := t, idCounter := idCounter s + 1,
      bullets := bullets s @ [\<lparr> bulletId = Plain (idCounter s + 1), bulletX = playerX s,
        bulletY = playerY s + 0.5, bulletVx = 0, bulletVy = 0.15 \<rparr>],
      shotsFired := shotsFired s + 1 \<rparr>"
  using assms by (simp add: fire_def Let_def BULLET_LIMIT_def)

lemma fire_many:
  assumes "\<not> hasPowerUp SpreadShot (activePowerUps s)" "\<not> hasPowerUp DoubleBullets (activePowerUps s)"
  shows "length (bullets s) + Suc n \<le> 100 \<Longrightarrow>
    run s (replicate (Suc n) (Fire t)) = s\<lparr> lastShotTime := t, idCounter := idCounter s + Suc n,
      bullets := bullets s @ map (\<lambda>i. \<lparr> bulletId = Plain (idCounter s + 1 + i), bulletX = playerX s,
        bulletY = playerY s + 0.5, bulletVx = 0, bulletVy = 0.15 \<rparr>) [0..<Suc n],
      shotsFired := shotsFired s + int (Suc n) \<rparr>"
proof (induction n)
  case 0
  then show ?case using assms by (simp add: run_def fire_plain)
next
  case (Suc n)
  have r: "replicate (Suc (Suc n)) (Fire t) = replicate (Suc n) (Fire t) @ [Fire t]"
    by (simp only: replicate_append_same) simp
  show ?case
    unfolding r run_snoc
    using Suc assms
    by (simp add: fire_plain add.assoc)
qed


lemma bulletHitsAlien_hp [simp]: "bulletHitsAlien b (a\<lparr> hp := h \<rparr>) = bulletHitsAlien b a"
  by (simp add: bulletHitsAlien_def Let_def)

text \<open>
  One bullet at the only alien of the list, which has at most one hit point left: the
  alien loses one more and is pushed on the destroyed list.
\<close>

lemma collideBullet_single:
  assumes "aliens (accState acc) = [a]" "hp a \<le> 1"
    and "bulletId b \<notin> bulletsToRemove acc" "\<not> (bulletY b < -4 \<or> bulletY b > 5)"
    and "bulletHitsAlien b a"
  shows "collideBullet b acc =
     acc\<lparr> accState := (accState acc)\<lparr> aliens := [a\<lparr> hp := hp a - 1 \<rparr>],
                                         shotsHit := shotsHit (accState acc) + 1 \<rparr>,
           destroyedAliens := destroyedAliens acc @ [a\<lparr> hp := hp a - 1 \<rparr>],
           bulletsToRemove := insert (bulletId b) (bulletsToRemove acc) \<rparr>"
  using assms by (simp add: collideBullet_def registerHit_def Let_def)

lemma collide_volley:
  "aliens (accState acc) = [a] \<Longrightarrow> hp a \<le> 1 \<Longrightarrow> distinct (map bulletId bs)
   \<Longrightarrow> \<forall>b \<in> set bs. bulletId b \<notin> bulletsToRemove acc \<and> \<not> (bulletY b < -4 \<or> bulletY b > 5) \<and>
         bulletHitsAlien b a
   \<Longrightarrow> aliens (accState (foldl (\<lambda>acc b. collideBullet b acc) acc bs))
         = [a\<lparr> hp := hp a - int (length bs) \<rparr>] \<and>
       length (destroyedAliens (foldl (\<lambda>acc b. collideBullet b acc) acc bs))
         = length (destroyedAliens acc) + length bs \<and>
       (\<forall>d \<in> set (destroyedAliens (foldl (\<lambda>acc b. collideBullet b acc) acc bs)).
          d \<in> set (destroyedAliens acc) \<or> (alienType d = alienType a \<and> isBoss d = isBoss a)) \<and>
       bulletsToRemove (foldl (\<lambda>acc b. collideBullet b acc) acc bs)
         = bulletsToRemove acc \<union> bulletId ` set bs"
proof (induction bs arbitrary: acc a)
  case Nil
  then show ?case by simp
next
  case (Cons b bs)
  let ?a = "a\<lparr> hp := hp a - 1 \<rparr>"
  let ?acc = "collideBullet b acc"
  have step: "?acc =
     acc\<lparr> accState := (accState acc)\<lparr> aliens := [?a], shotsHit := shotsHit (accState acc) + 1 \<rparr>,
           destroyedAliens := destroyedAliens acc @ [?a],
           bulletsToRemove := insert (bulletId b) (bulletsToRemove acc) \<rparr>"
    using Cons.prems by (intro collideBullet_single) auto
  have 1: "aliens (accState ?acc) = [?a]" by (simp add: step)
  have 2: "hp ?a \<le> 1" using Cons.prems by simp
  have 3: "distinct (map bulletId bs)" using Cons.prems by simp
  have 4: "\<forall>b' \<in> set bs. bulletId b' \<notin> bulletsToRemove ?acc \<and>
      \<not> (bulletY b' < -4 \<or> bulletY b' > 5) \<and> bulletHitsAlien b' ?a"
  proof
    fix b' assume m: "b' \<in> set bs"
    have "bulletId b \<notin> bulletId ` set bs" using Cons.prems(3) by simp
    with m have "bulletId b' \<noteq> bulletId b" by (metis imageI)
    moreover have "bulletId b' \<notin> bulletsToRemove acc"
      "\<not> (bulletY b' < -4 \<or> bulletY b' > 5)" "bulletHitsAlien b' a"
      using Cons.prems(4) m by simp_all
    ultimately show "bulletId b' \<notin> bulletsToRemove ?acc \<and>
      \<not> (bulletY b' < -4 \<or> bulletY b' > 5) \<and> bulletHitsAlien b' ?a"
      by (simp add: step)
  qed
  note ih = Cons.IH [OF 1 2 3 4]
  have d: "destroyedAliens ?acc = destroyedAliens acc @ [?a]"
    and rm: "bulletsToRemove ?acc = insert (bulletId b) (bulletsToRemove acc)"
    by (simp_all add: step)
  show ?case
  proof (intro conjI)
    show "aliens (accState (foldl (\<lambda>acc b. collideBullet b acc) acc (b # bs)))
         = [a\<lparr> hp := hp a - int (length (b # bs)) \<rparr>]"
      using ih by (simp add: algebra_simps)
    show "length (destroyedAliens (foldl (\<lambda>acc b. collideBullet b acc) acc (b # bs)))
         = length (destroyedAliens acc) + length (b # bs)"
      using ih by (simp add: d)
    show "\<forall>d \<in> set (destroyedAliens (foldl (\<lambda>acc b. collideBullet b acc) acc (b # bs))).
          d \<in> set (destroyedAliens acc) \<or> (alienType d = alienType a \<and> isBoss d = isBoss a)"
      using ih by (auto simp add: d)
    show "bulletsToRemove (foldl (\<lambda>acc b. collideBullet b acc) acc (b # bs))
         = bulletsToRemove acc \<union> bulletId ` set (b # bs)"
      using ih by (auto simp add: rm)
  qed
qed

lemma detectCollisions_volley:
  assumes "aliens s = [a]" "hp a \<le> 1" "distinct (map bulletId (bullets s))"
    and "\<forall>b \<in> set (bullets s). \<not> (bulletY b < -4 \<or> bulletY b > 5) \<and> bulletHitsAlien b a"
  shows "aliens (accState (detectCollisions s)) = [a\<lparr> hp := hp a - int (length (bullets s)) \<rparr>]"
    and "length (destroyedAliens (detectCollisions s)) = length (bullets s)"
    and "\<forall>d \<in> set (destroyedAliens (detectCollisions s)). alienType d = alienType a \<and> isBoss d = isBoss a"
    and "bulletsToRemove (detectCollisions s) = bulletId ` set (bullets s)"
  using collide_volley [of "\<lparr> accState = s, destroyedAliens = [], bulletsToRemove = {} \<rparr>" a "bullets s"]
    assms
  by (simp_all add: detectCollisions_def)


subsection \<open>Red kills only add the fire-rate power-up\<close>

lemma findPowerUpIndex_Some:
  "findPowerUpIndex ty ps = Some i \<Longrightarrow> i < length ps \<and> powerType (ps ! i) = ty"
proof (induction ps arbitrary: i)
  case Nil
  then show ?case by simp
next
  case (Cons p ps)
  then show ?case by (cases "powerType p = ty") auto
qed

lemma collectPowerUp_fireRate:
  assumes "\<forall>p \<in> set (activePowerUps s). powerType p = FireRate"
  shows "\<forall>p \<in> set (activePowerUps (collectPowerUp t (alienRewards Red) s)). powerType p = FireRate"
proof (cases "findPowerUpIndex FireRate (activePowerUps s)")
  case None
  then show ?thesis using assms by (simp add: collectPowerUp_def Let_def)
next
  case (Some i)
  then have i: "i < length (activePowerUps s)" using findPowerUpIndex_Some by blast
  define e where "e = t + getPowerUpDuration (level s)"
  define q where "q = (activePowerUps s ! i)\<lparr> expiresAt := e \<rparr>"
  have sub: "set ((activePowerUps s)[i := q]) \<subseteq> insert q (set (activePowerUps s))"
    by (rule set_update_subset_insert)
  have q: "powerType q = FireRate" using assms i by (simp add: q_def)
  have "\<forall>p \<in> set ((activePowerUps s)[i := q]). powerType p = FireRate"
    using sub q assms by blast
  then show ?thesis using Some
    by (simp add: collectPowerUp_def Let_def q_def e_def)
qed

lemma processKill_fireRate:
  assumes "\<forall>p \<in> set (activePowerUps s). powerType p = FireRate" "alienType a = Red" "\<not> isBoss a"
  shows "\<forall>p \<in> set (activePowerUps (processKill t d a s)). powerType p = FireRate"
proof -
  let ?s = "creditKill (alienRewards Red) a (perfectComboBonus (comboIncrease s))"
  have "\<forall>p \<in> set (activePowerUps ?s). powerType p = FireRate" using assms by simp
  then have "\<forall>p \<in> set (activePowerUps (collectPowerUp t (alienRewards Red) ?s)). powerType p = FireRate"
    by (rule collectPowerUp_fireRate)
  then show ?thesis using assms
    by (simp add: processKill_def Let_def powerUpDrop_def)
qed

lemma processKills_fireRate:
  "\<forall>p \<in> set (activePowerUps s). powerType p = FireRate
   \<Longrightarrow> \<forall>a \<in> set as. alienType a = Red \<and> \<not> isBoss a
   \<Longrightarrow> \<forall>p \<in> set (activePowerUps (processKills t r k as s)). powerType p = FireRate"
proof (induction as arbitrary: k s)
  case Nil
  then show ?case by simp
next
  case (Cons a as)
  have "\<forall>p \<in> set (activePowerUps (processKill t (r k) a s)). powerType p = FireRate"
    using Cons.prems by (intro processKill_fireRate) auto
  then show ?case using Cons.prems by (simp add: Cons.IH)
qed

lemma hasPowerUp_fireRate_only:
  assumes "\<forall>p \<in> set ps. powerType p = FireRate" "ty \<noteq> FireRate"
  shows "\<not> hasPowerUp ty ps"
  using assms by (auto simp add: hasPowerUp_def list_ex_iff)

lemma removeExpired_fireRate:
  "\<forall>p \<in> set ps. powerType p = FireRate \<Longrightarrow> \<forall>p \<in> set (removeExpired t ps). powerType p = FireRate"
  by (simp add: removeExpired_def)

lemma sum_list_constant:
  "\<forall>x \<in> set xs. f x = c \<Longrightarrow> sum_list (map f xs) = int (length xs) * c" for c :: int
  by (induction xs) (simp_all add: algebra_simps)

subsection \<open>A tick with nothing on the screen\<close>

lemma tick_quiet:
  assumes "bullets s = []" "aliens s = []"
  shows "tick t r s = tickTimers t s"
proof -
  have m: "tickMovement (tickTimers t s) = tickTimers t s"
    using assms by (simp add: tickMovement_def Let_def updateBullets_def)
  have c: "tickCollisions t s =
      \<lparr> accState = tickTimers t s, destroyedAliens = [], bulletsToRemove = {} \<rparr>"
    using assms by (simp add: tickCollisions_def m detectCollisions_def)
  have x: "tickResolved t r s = tickTimers t s"
    using assms by (simp add: tickResolved_def Let_def c)
  show ?thesis
    using assms by (simp add: tick_def Let_def x cannonCollision_def aliensReachingBottom_def)
qed


subsection \<open>The volley\<close>

lemma alienSpeed_low:
  assumes "1 \<le> L" "L \<le> 10"
  shows "getAlienSpeed L 1 False = 0.03 + 0.0006 * real_of_int (L - 1)"
proof -
  have "getAlienSpeed L 1 False = 0.03 * (1 + real_of_int (L - 1) * 0.02)"
    using assms
    by (simp add: getAlienSpeed_def getWaveConfig_def waveBase_def getLevelWithinBracket_def Let_def)
  also have "\<dots> = 0.03 + 0.0006 * real_of_int (L - 1)"
    by (simp add: algebra_simps)
  finally show ?thesis .
qed

lemma volley_hit:
  assumes "1 \<le> L" "L \<le> 10"
  shows "bulletHitsAlien \<lparr> bulletId = i, bulletX = 0, bulletY = -1.85, bulletVx = 0, bulletVy = 0.15 \<rparr>
     \<lparr> alienId = j, alienX = 0, alienY = -1.82 - getAlienSpeed L 1 False, alienType = ty, hp = h,
       maxHp = mh, isBoss = False, alienVx = 0 \<rparr>"
proof -
  define x where "x = real_of_int (L - 1)"
  have x: "0 \<le> x" "x \<le> 9" using assms by (simp_all add: x_def)
  have "x * x \<le> 9 * 9" using x by (intro mult_mono) auto
  then have sq: "(0.0006 * x) * (0.0006 * x) < 0.0625" by simp
  have dy: "-1.82 - getAlienSpeed L 1 False - (-1.85) = - (0.0006 * x)"
    using assms by (simp add: alienSpeed_low x_def)
  show ?thesis
    unfolding bulletHitsAlien_def Let_def Bullet.simps Alien.simps dy HIT_RADIUS_NORMAL_def
    using x sq by simp
qed

lemma volley:
  fixes s :: GameState and n :: nat and t tf :: int and r :: "nat \<Rightarrow> real"
  assumes b: "bullets s = []" and a: "aliens s = []"
    and px: "playerX s = 0" and py: "playerY s = -2.5" and w: "wave s = 1"
    and fr: "\<forall>p \<in> set (activePowerUps s). powerType p = FireRate"
    and lv: "calculateLevelFromScore (score s) \<le> 10"
    and n: "n < 100"
    and dr: "\<forall>k. r k < 1"
  defines "s' \<equiv> run s (replicate (Suc n) (Fire tf) @ [SpawnAlien 0 (-1.82) Red 1 None None, Tick t r])"
    and "c0 \<equiv> (if combo s > 0 \<and> t - tf \<ge> 15000 then 0 else combo s)"
  shows "bullets s' = [] \<and> aliens s' = [] \<and> playerX s' = 0 \<and> playerY s' = -2.5 \<and> wave s' = 1 \<and>
    (\<forall>p \<in> set (activePowerUps s'). powerType p = FireRate) \<and>
    combo s' = c0 + int (Suc n) \<and>
    score s' = score s + int (Suc n) * (100 * multiplier (getComboMultiplier (combo s))) +
      (if c0 < 50 \<and> 50 \<le> c0 + int (Suc n) then 10000 else 0) \<and>
    lastShotTime s' = tf"
proof -
  define L where "L = calculateLevelFromScore (score s)"
  have L: "1 \<le> L" "L \<le> 10" using lv level_ge_one [of "score s"] by (simp_all add: L_def)
  define c where "c = idCounter s"
  define shot where "shot = (\<lambda>i::nat. \<lparr> bulletId = Plain (c + 1 + i), bulletX = (0::real),
        bulletY = -2, bulletVx = 0, bulletVy = 0.15 \<rparr>)"
  define F where "F = run s (replicate (Suc n) (Fire tf))"
  have nosp: "\<not> hasPowerUp SpreadShot (activePowerUps s)" "\<not> hasPowerUp DoubleBullets (activePowerUps s)"
    "\<not> hasPowerUp SlowMotion (activePowerUps s)"
    using fr by (simp_all add: hasPowerUp_fireRate_only)
  define ks where "ks = [0..<Suc n]"
  have ks: "length ks = Suc n" "distinct ks" by (simp_all add: ks_def)
  have F: "F = s\<lparr> lastShotTime := tf, idCounter := c + Suc n,
      bullets := map shot ks, shotsFired := shotsFired s + int (Suc n) \<rparr>"
    unfolding F_def ks_def using fire_many [OF nosp(1,2), of n tf] n b px py
    by (simp add: shot_def c_def)
  define a0 where "a0 = \<lparr> alienId = Plain (c + Suc n + 1), alienX = 0, alienY = -1.82,
      alienType = Red, hp = 1, maxHp = 1, isBoss = False, alienVx = 0 \<rparr>"
  define G where "G = spawnAlien 0 (-1.82) Red 1 None None F"
  have G: "G = F\<lparr> idCounter := c + Suc n + 1, aliens := [a0] \<rparr>"
    by (simp add: G_def spawnAlien_def ALIEN_LIMIT_def Let_def F a a0_def)
  have s': "s' = tick t r G"
    by (simp add: s'_def run_append run_snoc F_def G_def) (simp add: run_def)
  have Gf: "bullets G = map shot ks" "aliens G = [a0]" "score G = score s"
    "combo G = combo s" "lastShotTime G = tf" "activePowerUps G = activePowerUps s"
    "wave G = 1" "playerX G = 0" "playerY G = -2.5"
    by (simp_all add: G F w px py)
  define T where "T = tickTimers t G"
  have Tl: "level T = L" by (simp add: T_def tickTimers_values Gf L_def)
  have Tc: "combo T = c0"
  proof -
    have "combo T = combo (comboDecayStep (getScorePressure L) (idleDetection t G))"
      unfolding T_def by (simp add: tickTimers_combo_eq Gf L_def)
    also have "\<dots> = combo (idleDetection t G)"
      using L by (simp add: comboDecayStep_def getScorePressure_def)
    also have "\<dots> = c0"
      by (simp add: idleDetection_combo Gf c0_def)
    finally show ?thesis .
  qed
  have Tp: "activePowerUps T = removeExpired t (activePowerUps s)"
    by (simp add: T_def tickTimers_values Gf)
  have Tfr: "\<forall>p \<in> set (activePowerUps T). powerType p = FireRate"
    unfolding Tp using fr by (rule removeExpired_fireRate)
  have Tm: "scoreMultiplier T = multiplier (getComboMultiplier (combo s))"
  proof -
    have "\<not> hasPowerUp ScoreMultiplier (removeExpired t (activePowerUps s))"
      using removeExpired_fireRate [OF fr] by (simp add: hasPowerUp_fireRate_only)
    then show ?thesis by (simp add: T_def tickTimers_values Gf)
  qed
  have Tb: "bullets T = map shot ks" "aliens T = [a0]" "wave T = 1"
    by (simp_all add: T_def Gf)
  define shot' where "shot' = (\<lambda>i::nat. \<lparr> bulletId = Plain (c + 1 + i), bulletX = (0::real),
        bulletY = -1.85, bulletVx = 0, bulletVy = 0.15 \<rparr>)"
  define a1 where "a1 = a0\<lparr> alienY := -1.82 - getAlienSpeed L 1 False \<rparr>"
  define M where "M = tickMovement T"
  have ub: "updateBullets (map shot ks) = map shot' ks"
    unfolding updateBullets_def
    by (simp only: map_map comp_def) (simp add: shot_def shot'_def updateBullet_def)
  have Mb: "bullets M = map shot' ks" and Ma: "aliens M = [a1]"
    using Tfr
    by (simp_all add: M_def tickMovement_def Let_def Tb ub Tl hasPowerUp_fireRate_only
        moveAlien_def a1_def a0_def)
  have dist: "distinct (map bulletId (bullets M))"
    by (simp only: Mb map_map comp_def) (simp add: shot'_def distinct_map inj_on_def ks)
  have hits: "\<forall>b \<in> set (bullets M). \<not> (bulletY b < -4 \<or> bulletY b > 5) \<and> bulletHitsAlien b a1"
    using volley_hit [OF L] by (auto simp add: Mb shot'_def a1_def a0_def)
  have h1: "hp a1 \<le> 1" by (simp add: a1_def a0_def)
  note dc = detectCollisions_volley [OF Ma h1 dist hits]
  define acc where "acc = tickCollisions t G"
  have acc: "acc = detectCollisions M" by (simp add: acc_def tickCollisions_def M_def T_def)
  have len: "length (destroyedAliens acc) = Suc n"
    using dc(2) by (simp add: acc Mb ks)
  have red: "\<forall>d \<in> set (destroyedAliens acc). alienType d = Red \<and> \<not> isBoss d"
    using dc(3) by (simp add: acc a1_def a0_def)
  have accA: "aliens (accState acc) = [a1\<lparr> hp := hp a1 - int (Suc n) \<rparr>]"
    using dc(1) by (simp add: acc Mb ks)
  have accR: "bulletsToRemove acc = bulletId ` set (bullets M)"
    using dc(4) by (simp add: acc)
  have accB: "bullets (accState acc) = bullets M"
    by (simp add: acc)
  define X where "X = tickResolved t r G"
  have Xa: "aliens X = []"
    by (simp add: X_def tickResolved_aliens acc_def [symmetric] accA a1_def a0_def)
  have Xb: "bullets X = []"
  proof -
    have "bullets X = filter (\<lambda>b. bulletId b \<notin> bulletId ` set (bullets M)) (bullets M)"
      by (simp add: X_def tickResolved_def Let_def acc_def [symmetric] accR accB)
    then show ?thesis by (simp add: filter_empty_conv)
  qed
  have tX: "tick t r G = X"
    by (simp add: tick_def Let_def X_def [symmetric] cannonCollision_def Xa
        aliensReachingBottom_def)
  have Xc: "combo X = c0 + int (Suc n)"
    by (simp add: X_def tickResolved_combo acc_def [symmetric] len T_def [symmetric] Tc)
  have credit: "\<forall>d \<in> set (destroyedAliens acc).
      killCredit (accState acc) d = 100 * multiplier (getComboMultiplier (combo s))"
    using red by (simp add: killCredit_def acc_def T_def [symmetric] Tm)
  have Xs: "score X = score s + int (Suc n) * (100 * multiplier (getComboMultiplier (combo s))) +
      (if c0 < 50 \<and> 50 \<le> c0 + int (Suc n) then 10000 else 0)"
    unfolding X_def tickResolved_score acc_def [symmetric] T_def [symmetric]
    by (simp add: sum_list_constant [OF credit] len Tc Gf PERFECT_COMBO_BONUS_def)
  have Xp: "\<forall>p \<in> set (activePowerUps X). powerType p = FireRate"
  proof -
    have "activePowerUps X = activePowerUps (processKills t r 0 (destroyedAliens acc) (accState acc))"
      by (simp add: X_def tickResolved_def Let_def acc_def)
    moreover have "\<forall>p \<in> set (activePowerUps (accState acc)). powerType p = FireRate"
      using Tfr by (simp add: acc_def T_def)
    ultimately show ?thesis using processKills_fireRate red by simp
  qed
  have Xf: "playerX X = 0" "playerY X = -2.5" "wave X = 1" "lastShotTime X = tf"
    by (simp_all add: X_def Gf)
  show ?thesis
    unfolding s' tX using Xa Xb Xc Xs Xp Xf by simp
qed


lemma level_of_15000: "calculateLevelFromScore 15000 = 6"
  by (rule level_eq_if) (simp_all add: required_one lt_required_iff)

text \<open>
  The PERFECT bonus is given twice in one match. Fifty shots from the start position
  at one red alien are fifty kills in one tick (the alien stays in the list until the
  collision loop is over): 50 * 100 for the kills, since the multiplier is that of the
  combo 0 the tick started with, and 10000 when the combo reaches 50. A tick 20 seconds
  later resets the combo, and a second volley gives the same 15000 again.
\<close>

theorem perfect_bonus_counterexample:
  "reachable (run (initialState 0 0 0)
     (replicate 50 (Fire 0) @ [SpawnAlien 0 (-1.82) Red 1 None None, Tick 0 (\<lambda>_. 0)] @
      [Tick 20000 (\<lambda>_. 0)] @
      replicate 50 (Fire 20000) @ [SpawnAlien 0 (-1.82) Red 1 None None, Tick 20000 (\<lambda>_. 0)])) \<and>
   combo (run (initialState 0 0 0)
     (replicate 50 (Fire 0) @ [SpawnAlien 0 (-1.82) Red 1 None None, Tick 0 (\<lambda>_. 0)])) = 50 \<and>
   score (run (initialState 0 0 0)
     (replicate 50 (Fire 0) @ [SpawnAlien 0 (-1.82) Red 1 None None, Tick 0 (\<lambda>_. 0)])) = 15000 \<and>
   combo (run (initialState 0 0 0)
     (replicate 50 (Fire 0) @ [SpawnAlien 0 (-1.82) Red 1 None None, Tick 0 (\<lambda>_. 0)] @
      [Tick 20000 (\<lambda>_. 0)])) = 0 \<and>
   combo (run (initialState 0 0 0)
     (replicate 50 (Fire 0) @ [SpawnAlien 0 (-1.82) Red 1 None None, Tick 0 (\<lambda>_. 0)] @
      [Tick 20000 (\<lambda>_. 0)] @
      replicate 50 (Fire 20000) @ [SpawnAlien 0 (-1.82) Red 1 None None, Tick 20000 (\<lambda>_. 0)])) = 50 \<and>
   score (run (initialState 0 0 0)
     (replicate 50 (Fire 0) @ [SpawnAlien 0 (-1.82) Red 1 None None, Tick 0 (\<lambda>_. 0)] @
      [Tick 20000 (\<lambda>_. 0)] @
      replicate 50 (Fire 20000) @ [SpawnAlien 0 (-1.82) Red 1 None None, Tick 20000 (\<lambda>_. 0)])) = 30000"
proof -
  define z :: "nat \<Rightarrow> real" where "z = (\<lambda>_. 0)"
  define V where "V = (\<lambda>t. replicate (Suc 49) (Fire t) @ [SpawnAlien 0 (-1.82) Red 1 None None, Tick t z])"
  define s0 where "s0 = initialState 0 0 0"
  define s1 where "s1 = run s0 (V 0)"
  define s2 where "s2 = run s1 [Tick 20000 z]"
  define s3 where "s3 = run s2 (V 20000)"
  have z: "\<forall>k. z k < 1" by (simp add: z_def)
  have v1: "bullets s1 = [] \<and> aliens s1 = [] \<and> playerX s1 = 0 \<and> playerY s1 = -2.5 \<and> wave s1 = 1 \<and>
    (\<forall>p \<in> set (activePowerUps s1). powerType p = FireRate) \<and>
    combo s1 = (if combo s0 > 0 \<and> (0::int) - 0 \<ge> 15000 then 0 else combo s0) + int (Suc 49) \<and>
    score s1 = score s0 + int (Suc 49) * (100 * multiplier (getComboMultiplier (combo s0))) +
      (if (if combo s0 > 0 \<and> (0::int) - 0 \<ge> 15000 then 0 else combo s0) < 50 \<and>
          50 \<le> (if combo s0 > 0 \<and> (0::int) - 0 \<ge> 15000 then 0 else combo s0) + int (Suc 49)
       then 10000 else 0) \<and>
    lastShotTime s1 = 0"
    unfolding s1_def V_def
    by (rule volley) (simp_all add: s0_def initialState_def level_of_0 z)
  then have c1: "combo s1 = 50" and sc1: "score s1 = 15000"
    by (simp_all add: s0_def initialState_def getComboMultiplier_def)
  have s2: "s2 = tickTimers 20000 s1"
    using v1 by (simp add: s2_def run_def tick_quiet)
  have c2: "combo s2 = 0"
    unfolding s2 using v1 c1 by (intro tickTimers_idle) simp_all
  have p2: "\<forall>p \<in> set (activePowerUps s2). powerType p = FireRate"
  proof -
    have "\<forall>p \<in> set (activePowerUps s1). powerType p = FireRate" using v1 by blast
    then show ?thesis unfolding s2 tickTimers_values by (rule removeExpired_fireRate)
  qed
  have f2: "bullets s2 = []" "aliens s2 = []" "playerX s2 = 0" "playerY s2 = -2.5" "wave s2 = 1"
    "score s2 = 15000"
    using v1 sc1 by (simp_all add: s2)
  have v3: "bullets s3 = [] \<and> aliens s3 = [] \<and> playerX s3 = 0 \<and> playerY s3 = -2.5 \<and> wave s3 = 1 \<and>
    (\<forall>p \<in> set (activePowerUps s3). powerType p = FireRate) \<and>
    combo s3 = (if combo s2 > 0 \<and> (20000::int) - 20000 \<ge> 15000 then 0 else combo s2) + int (Suc 49) \<and>
    score s3 = score s2 + int (Suc 49) * (100 * multiplier (getComboMultiplier (combo s2))) +
      (if (if combo s2 > 0 \<and> (20000::int) - 20000 \<ge> 15000 then 0 else combo s2) < 50 \<and>
          50 \<le> (if combo s2 > 0 \<and> (20000::int) - 20000 \<ge> 15000 then 0 else combo s2) + int (Suc 49)
       then 10000 else 0) \<and>
    lastShotTime s3 = 20000"
    unfolding s3_def V_def
    by (rule volley) (simp_all add: f2 p2 level_of_15000 z)
  then have c3: "combo s3 = 50" and sc3: "score s3 = 30000"
    by (simp_all add: c2 f2 getComboMultiplier_def)
  have r: "reachable s3"
    unfolding s3_def s2_def s1_def s0_def
    by (intro reachable_run reachable_initial)
  have e1: "run (initialState 0 0 0)
     (replicate 50 (Fire 0) @ [SpawnAlien 0 (-1.82) Red 1 None None, Tick 0 (\<lambda>_. 0)]) = s1"
    by (simp add: s1_def s0_def V_def z_def)
  have e2: "run (initialState 0 0 0)
     (replicate 50 (Fire 0) @ [SpawnAlien 0 (-1.82) Red 1 None None, Tick 0 (\<lambda>_. 0)] @
      [Tick 20000 (\<lambda>_. 0)]) = s2"
    unfolding s2_def e1 [symmetric] by (simp only: run_append [symmetric] append_assoc z_def)
  have e3: "run (initialState 0 0 0)
     (replicate 50 (Fire 0) @ [SpawnAlien 0 (-1.82) Red 1 None None, Tick 0 (\<lambda>_. 0)] @
      [Tick 20000 (\<lambda>_. 0)] @
      replicate 50 (Fire 20000) @ [SpawnAlien 0 (-1.82) Red 1 None None, Tick 20000 (\<lambda>_. 0)]) = s3"
  proof -
    have "V 20000 = replicate 50 (Fire 20000) @ [SpawnAlien 0 (-1.82) Red 1 None None, Tick 20000 (\<lambda>_. 0)]"
      by (simp add: V_def z_def)
    then show ?thesis
      unfolding s3_def e2 [symmetric] by (simp only: run_append [symmetric] append_assoc)
  qed
  show ?thesis
    unfolding e1 e2 e3 using r c1 sc1 c2 c3 sc3 by simp
qed


section \<open>Soft penalties\<close>

lemma besidesCombo_eqD:
  "besidesCombo b = besidesCombo a \<Longrightarrow>
   b = a\<lparr> combo := combo b, comboTimer := comboTimer b, maxCombo := maxCombo b,
        score := score b, lastShotTime := lastShotTime b,
        missesInWindow := missesInWindow b, missWindowStart := missWindowStart b \<rparr>"
  by (cases a, cases b) (simp add: besidesCombo_def)

lemma alienHitsCannon_besides:
  "alienHitsCannon (a\<lparr> combo := c, comboTimer := ct, maxCombo := mc, score := sc, lastShotTime := x,
          missesInWindow := m, missWindowStart := w \<rparr>) = alienHitsCannon a"
  by (rule ext) (simp add: alienHitsCannon_def)

lemma tickMovement_besides:
  "besidesCombo (tickMovement (a\<lparr> combo := c, comboTimer := ct, maxCombo := mc, score := sc, lastShotTime := x,
          missesInWindow := m, missWindowStart := w \<rparr>)) =
   besidesCombo (tickMovement a)"
  by (simp add: besidesCombo_def tickMovement_def Let_def)

lemma tickMovement_besides_cong:
  "besidesCombo b = besidesCombo a \<Longrightarrow>
   besidesCombo (tickMovement b) = besidesCombo (tickMovement a)"
  by (drule besidesCombo_eqD, erule ssubst, rule tickMovement_besides)

lemma comboIncrease_besides:
  "besidesCombo (comboIncrease (a\<lparr> combo := c, comboTimer := ct, maxCombo := mc, score := sc, lastShotTime := x,
          missesInWindow := m, missWindowStart := w \<rparr>)) =
   besidesCombo (comboIncrease a)"
  by (simp add: besidesCombo_def comboIncrease_def Let_def)

lemma comboIncrease_besides_cong:
  "besidesCombo b = besidesCombo a \<Longrightarrow>
   besidesCombo (comboIncrease b) = besidesCombo (comboIncrease a)"
  by (drule besidesCombo_eqD, erule ssubst, rule comboIncrease_besides)

lemma perfectComboBonus_besides:
  "besidesCombo (perfectComboBonus (a\<lparr> combo := c, comboTimer := ct, maxCombo := mc, score := sc, lastShotTime := x,
          missesInWindow := m, missWindowStart := w \<rparr>)) =
   besidesCombo (perfectComboBonus a)"
  by (simp add: besidesCombo_def perfectComboBonus_def)

lemma perfectComboBonus_besides_cong:
  "besidesCombo b = besidesCombo a \<Longrightarrow>
   besidesCombo (perfectComboBonus b) = besidesCombo (perfectComboBonus a)"
  by (drule besidesCombo_eqD, erule ssubst, rule perfectComboBonus_besides)

lemma creditKill_besides:
  "besidesCombo (creditKill rw al (a\<lparr> combo := c, comboTimer := ct, maxCombo := mc, score := sc, lastShotTime := x,
          missesInWindow := m, missWindowStart := w \<rparr>)) =
   besidesCombo (creditKill rw al a)"
  by (simp add: besidesCombo_def creditKill_def Let_def)

lemma creditKill_besides_cong:
  "besidesCombo b = besidesCombo a \<Longrightarrow>
   besidesCombo (creditKill rw al b) = besidesCombo (creditKill rw al a)"
  by (drule besidesCombo_eqD, erule ssubst, rule creditKill_besides)

lemma collectPowerUp_besides:
  "besidesCombo (collectPowerUp t rw (a\<lparr> combo := c, comboTimer := ct, maxCombo := mc, score := sc, lastShotTime := x,
          missesInWindow := m, missWindowStart := w \<rparr>)) =
   besidesCombo (collectPowerUp t rw a)"
  by (simp add: besidesCombo_def collectPowerUp_def Let_def split: option.splits)

lemma collectPowerUp_besides_cong:
  "besidesCombo b = besidesCombo a \<Longrightarrow>
   besidesCombo (collectPowerUp t rw b) = besidesCombo (collectPowerUp t rw a)"
  by (drule besidesCombo_eqD, erule ssubst, rule collectPowerUp_besides)

lemma powerUpDrop_besides:
  "besidesCombo (powerUpDrop t d rw al (a\<lparr> combo := c, comboTimer := ct, maxCombo := mc, score := sc, lastShotTime := x,
          missesInWindow := m, missWindowStart := w \<rparr>)) =
   besidesCombo (powerUpDrop t d rw al a)"
  by (simp add: besidesCombo_def powerUpDrop_def Let_def collectPowerUp_def split: option.splits)

lemma powerUpDrop_besides_cong:
  "besidesCombo b = besidesCombo a \<Longrightarrow>
   besidesCombo (powerUpDrop t d rw al b) = besidesCombo (powerUpDrop t d rw al a)"
  by (drule besidesCombo_eqD, erule ssubst, rule powerUpDrop_besides)

lemma bossDefeated_besides:
  "besidesCombo (bossDefeated (a\<lparr> combo := c, comboTimer := ct, maxCombo := mc, score := sc, lastShotTime := x,
          missesInWindow := m, missWindowStart := w \<rparr>)) =
   besidesCombo (bossDefeated a)"
  by (simp add: besidesCombo_def bossDefeated_def Let_def)

lemma bossDefeated_besides_cong:
  "besidesCombo b = besidesCombo a \<Longrightarrow>
   besidesCombo (bossDefeated b) = besidesCombo (bossDefeated a)"
  by (drule besidesCombo_eqD, erule ssubst, rule bossDefeated_besides)

lemma cannonCollision_besides:
  "besidesCombo (cannonCollision (a\<lparr> combo := c, comboTimer := ct, maxCombo := mc, score := sc, lastShotTime := x,
          missesInWindow := m, missWindowStart := w \<rparr>)) =
   besidesCombo (cannonCollision a)"
  by (simp add: besidesCombo_def cannonCollision_def alienHitsCannon_besides Let_def split: option.splits)

lemma cannonCollision_besides_cong:
  "besidesCombo b = besidesCombo a \<Longrightarrow>
   besidesCombo (cannonCollision b) = besidesCombo (cannonCollision a)"
  by (drule besidesCombo_eqD, erule ssubst, rule cannonCollision_besides)

lemma recordEscape_besides:
  "besidesCombo (recordEscape (a\<lparr> combo := c, comboTimer := ct, maxCombo := mc, score := sc, lastShotTime := x,
          missesInWindow := m, missWindowStart := w \<rparr>)) =
   besidesCombo (recordEscape a)"
  by (simp add: besidesCombo_def recordEscape_def)

lemma recordEscape_besides_cong:
  "besidesCombo b = besidesCombo a \<Longrightarrow>
   besidesCombo (recordEscape b) = besidesCombo (recordEscape a)"
  by (drule besidesCombo_eqD, erule ssubst, rule recordEscape_besides)

lemma softMissReset_besides:
  "besidesCombo (softMissReset t (a\<lparr> combo := c, comboTimer := ct, maxCombo := mc, score := sc, lastShotTime := x,
          missesInWindow := m, missWindowStart := w \<rparr>)) =
   besidesCombo (softMissReset t a)"
  by (simp add: besidesCombo_def softMissReset_def)

lemma softMissReset_besides_cong:
  "besidesCombo b = besidesCombo a \<Longrightarrow>
   besidesCombo (softMissReset t b) = besidesCombo (softMissReset t a)"
  by (drule besidesCombo_eqD, erule ssubst, rule softMissReset_besides)

lemma bossReachedBottom_besides:
  "besidesCombo (bossReachedBottom al (a\<lparr> combo := c, comboTimer := ct, maxCombo := mc, score := sc, lastShotTime := x,
          missesInWindow := m, missWindowStart := w \<rparr>)) =
   besidesCombo (bossReachedBottom al a)"
  by (simp add: besidesCombo_def bossReachedBottom_def)

lemma bossReachedBottom_besides_cong:
  "besidesCombo b = besidesCombo a \<Longrightarrow>
   besidesCombo (bossReachedBottom al b) = besidesCombo (bossReachedBottom al a)"
  by (drule besidesCombo_eqD, erule ssubst, rule bossReachedBottom_besides)

lemma screenOverflow_besides:
  "besidesCombo (screenOverflow (a\<lparr> combo := c, comboTimer := ct, maxCombo := mc, score := sc, lastShotTime := x,
          missesInWindow := m, missWindowStart := w \<rparr>)) =
   besidesCombo (screenOverflow a)"
  by (simp add: besidesCombo_def screenOverflow_def)

lemma screenOverflow_besides_cong:
  "besidesCombo b = besidesCombo a \<Longrightarrow>
   besidesCombo (screenOverflow b) = besidesCombo (screenOverflow a)"
  by (drule besidesCombo_eqD, erule ssubst, rule screenOverflow_besides)

lemma missedScorePenalty_besides:
  "besidesCombo (missedScorePenalty p (a\<lparr> combo := c, comboTimer := ct, maxCombo := mc, score := sc, lastShotTime := x,
          missesInWindow := m, missWindowStart := w \<rparr>)) =
   besidesCombo (missedScorePenalty p a)"
  by (simp add: besidesCombo_def missedScorePenalty_def)

lemma missedScorePenalty_besides_cong:
  "besidesCombo b = besidesCombo a \<Longrightarrow>
   besidesCombo (missedScorePenalty p b) = besidesCombo (missedScorePenalty p a)"
  by (drule besidesCombo_eqD, erule ssubst, rule missedScorePenalty_besides)

lemma removeAlienById_besides:
  "besidesCombo (removeAlienById i (a\<lparr> combo := c, comboTimer := ct, maxCombo := mc, score := sc, lastShotTime := x,
          missesInWindow := m, missWindowStart := w \<rparr>)) =
   besidesCombo (removeAlienById i a)"
  by (simp add: besidesCombo_def removeAlienById_def)

lemma removeAlienById_besides_cong:
  "besidesCombo b = besidesCombo a \<Longrightarrow>
   besidesCombo (removeAlienById i b) = besidesCombo (removeAlienById i a)"
  by (drule besidesCombo_eqD, erule ssubst, rule removeAlienById_besides)

lemma outOfLives_besides:
  "besidesCombo (outOfLives (a\<lparr> combo := c, comboTimer := ct, maxCombo := mc, score := sc, lastShotTime := x,
          missesInWindow := m, missWindowStart := w \<rparr>)) =
   besidesCombo (outOfLives a)"
  by (simp add: besidesCombo_def outOfLives_def)

lemma outOfLives_besides_cong:
  "besidesCombo b = besidesCombo a \<Longrightarrow>
   besidesCombo (outOfLives b) = besidesCombo (outOfLives a)"
  by (drule besidesCombo_eqD, erule ssubst, rule outOfLives_besides)


lemma besidesCombo_fields:
  assumes "besidesCombo b = besidesCombo a"
  shows "aliens b = aliens a" "bullets b = bullets a" "lives b = lives a"
    "status b = status a" "level b = level a"
proof -
  have "aliens (besidesCombo b) = aliens (besidesCombo a)"
    "bullets (besidesCombo b) = bullets (besidesCombo a)"
    "lives (besidesCombo b) = lives (besidesCombo a)"
    "status (besidesCombo b) = status (besidesCombo a)"
    "level (besidesCombo b) = level (besidesCombo a)"
    using assms by simp_all
  then show "aliens b = aliens a" "bullets b = bullets a" "lives b = lives a"
    "status b = status a" "level b = level a"
    by (simp_all add: besidesCombo_def)
qed

lemma besidesCombo_aliens_cong:
  "besidesCombo b = besidesCombo a \<Longrightarrow>
   besidesCombo (b\<lparr> aliens := f (aliens b) \<rparr>) = besidesCombo (a\<lparr> aliens := f (aliens a) \<rparr>)"
  by (drule besidesCombo_eqD, erule ssubst) (simp add: besidesCombo_def)

lemma besidesCombo_bullets_cong:
  "besidesCombo b = besidesCombo a \<Longrightarrow>
   besidesCombo (b\<lparr> bullets := f (bullets b) \<rparr>) = besidesCombo (a\<lparr> bullets := f (bullets a) \<rparr>)"
  by (drule besidesCombo_eqD, erule ssubst) (simp add: besidesCombo_def)

subsection \<open>The collision loop does not look at the combo\<close>

lemma collideBullet_besides:
  "collideBullet b (acc\<lparr> accState := (accState acc)\<lparr> combo := c, comboTimer := ct, maxCombo := mc, score := sc, lastShotTime := x,
          missesInWindow := m, missWindowStart := w \<rparr> \<rparr>) =
   (collideBullet b acc)\<lparr> accState := (accState (collideBullet b acc))\<lparr> combo := c, comboTimer := ct, maxCombo := mc, score := sc, lastShotTime := x,
          missesInWindow := m, missWindowStart := w \<rparr> \<rparr>"
  by (simp add: collideBullet_def registerHit_def Let_def split: option.splits)

lemma foldl_collide_besides:
  "foldl (\<lambda>acc b. collideBullet b acc) (acc\<lparr> accState := (accState acc)\<lparr> combo := c, comboTimer := ct, maxCombo := mc, score := sc, lastShotTime := x,
          missesInWindow := m, missWindowStart := w \<rparr> \<rparr>) bs =
   (foldl (\<lambda>acc b. collideBullet b acc) acc bs)
     \<lparr> accState := (accState (foldl (\<lambda>acc b. collideBullet b acc) acc bs))\<lparr> combo := c, comboTimer := ct, maxCombo := mc, score := sc, lastShotTime := x,
          missesInWindow := m, missWindowStart := w \<rparr> \<rparr>"
proof (induction bs arbitrary: acc)
  case Nil
  show ?case by simp
next
  case (Cons b bs)
  show ?case by (simp add: collideBullet_besides Cons.IH)
qed

lemma detectCollisions_besides:
  "detectCollisions (a\<lparr> combo := c, comboTimer := ct, maxCombo := mc, score := sc, lastShotTime := x,
          missesInWindow := m, missWindowStart := w \<rparr>) =
   (detectCollisions a)\<lparr> accState := (accState (detectCollisions a))\<lparr> combo := c, comboTimer := ct, maxCombo := mc, score := sc, lastShotTime := x,
          missesInWindow := m, missWindowStart := w \<rparr> \<rparr>"
proof -
  have "\<lparr> accState = a\<lparr> combo := c, comboTimer := ct, maxCombo := mc, score := sc, lastShotTime := x,
          missesInWindow := m, missWindowStart := w \<rparr>, destroyedAliens = [], bulletsToRemove = {} \<rparr> =
    \<lparr> accState = a, destroyedAliens = [], bulletsToRemove = {} \<rparr>
      \<lparr> accState := (accState \<lparr> accState = a, destroyedAliens = [], bulletsToRemove = {} \<rparr>)\<lparr> combo := c, comboTimer := ct, maxCombo := mc, score := sc, lastShotTime := x,
          missesInWindow := m, missWindowStart := w \<rparr> \<rparr>"
    by simp
  then show ?thesis
    unfolding detectCollisions_def by (simp only: foldl_collide_besides) simp
qed

lemma detectCollisions_besides_cong:
  assumes "besidesCombo b = besidesCombo a"
  shows "destroyedAliens (detectCollisions b) = destroyedAliens (detectCollisions a)"
    and "bulletsToRemove (detectCollisions b) = bulletsToRemove (detectCollisions a)"
    and "besidesCombo (accState (detectCollisions b)) = besidesCombo (accState (detectCollisions a))"
proof -
  note e = besidesCombo_eqD [OF assms]
  show "destroyedAliens (detectCollisions b) = destroyedAliens (detectCollisions a)"
    by (subst e) (simp add: detectCollisions_besides)
  show "bulletsToRemove (detectCollisions b) = bulletsToRemove (detectCollisions a)"
    by (subst e) (simp add: detectCollisions_besides)
  show "besidesCombo (accState (detectCollisions b)) = besidesCombo (accState (detectCollisions a))"
    by (subst e) (simp add: detectCollisions_besides besidesCombo_def)
qed

subsection \<open>The timers\<close>

lemma idleDetection_besides: "besidesCombo (idleDetection t s) = besidesCombo s"
  by (simp add: idleDetection_def besidesCombo_def)

lemma missWindowReset_besides: "besidesCombo (missWindowReset t s) = besidesCombo s"
  by (simp add: missWindowReset_def besidesCombo_def)

lemma comboDecayStep_besides: "besidesCombo (comboDecayStep p s) = besidesCombo s"
  by (simp add: comboDecayStep_def Let_def besidesCombo_def)

lemma besidesCombo_powerUps:
  "besidesCombo (s\<lparr> activePowerUps := ps, scoreMultiplier := v \<rparr>) =
   (besidesCombo s)\<lparr> activePowerUps := ps, scoreMultiplier := v \<rparr>"
  by (simp add: besidesCombo_def)

lemma tickTimers_besides_form:
  "besidesCombo (tickTimers t s) =
     (besidesCombo (s\<lparr> previousLevel := level s,
        level := calculateLevelFromScore (score s),
        difficultyBracket := getDifficultyBracket (calculateLevelFromScore (score s)),
        comboTier := tier (getComboMultiplier (combo s)) \<rparr>))
     \<lparr> activePowerUps := removeExpired t (activePowerUps s),
       scoreMultiplier := multiplier (getComboMultiplier (combo s)) *
         (if hasPowerUp ScoreMultiplier (removeExpired t (activePowerUps s)) then 2 else 1) \<rparr>"
proof -
  define s4 where "s4 = s\<lparr> previousLevel := level s,
        level := calculateLevelFromScore (score s),
        difficultyBracket := getDifficultyBracket (calculateLevelFromScore (score s)),
        comboTier := tier (getComboMultiplier (combo s)) \<rparr>"
  define s7 where "s7 = comboDecayStep (getScorePressure (calculateLevelFromScore (score s)))
    (missWindowReset t (idleDetection t s4))"
  have T: "tickTimers t s = s7\<lparr> activePowerUps := removeExpired t (activePowerUps s),
       scoreMultiplier := multiplier (getComboMultiplier (combo s)) *
         (if hasPowerUp ScoreMultiplier (removeExpired t (activePowerUps s)) then 2 else 1) \<rparr>"
    unfolding s7_def s4_def by (simp add: tickTimers_def Let_def)
  have "besidesCombo s7 = besidesCombo s4"
    unfolding s7_def
    by (simp only: comboDecayStep_besides missWindowReset_besides idleDetection_besides)
  then show ?thesis
    unfolding T besidesCombo_powerUps s4_def by simp
qed

lemma tickTimers_besides:
  "besidesCombo (tickTimers t (s\<lparr> lastShotTime := x, missesInWindow := m, missWindowStart := w \<rparr>)) =
   besidesCombo (tickTimers t s)"
  unfolding tickTimers_besides_form by (simp add: besidesCombo_def)

lemma tickCollisions_besides:
  fixes s :: GameState and x m w :: int
  defines "s' \<equiv> s\<lparr> lastShotTime := x, missesInWindow := m, missWindowStart := w \<rparr>"
  shows "destroyedAliens (tickCollisions t s') = destroyedAliens (tickCollisions t s)"
    and "bulletsToRemove (tickCollisions t s') = bulletsToRemove (tickCollisions t s)"
    and "besidesCombo (accState (tickCollisions t s')) = besidesCombo (accState (tickCollisions t s))"
proof -
  have "besidesCombo (tickMovement (tickTimers t s')) = besidesCombo (tickMovement (tickTimers t s))"
    unfolding s'_def by (rule tickMovement_besides_cong) (rule tickTimers_besides)
  then show "destroyedAliens (tickCollisions t s') = destroyedAliens (tickCollisions t s)"
    and "bulletsToRemove (tickCollisions t s') = bulletsToRemove (tickCollisions t s)"
    and "besidesCombo (accState (tickCollisions t s')) = besidesCombo (accState (tickCollisions t s))"
    unfolding tickCollisions_def by (rule detectCollisions_besides_cong)+
qed

subsection \<open>Kills\<close>

lemma processKill_besides_cong:
  assumes "besidesCombo b = besidesCombo a"
  shows "besidesCombo (processKill t d al b) = besidesCombo (processKill t d al a)"
proof -
  define X where "X = (\<lambda>s. powerUpDrop t d (alienRewards (alienType al)) al
          (creditKill (alienRewards (alienType al)) al (perfectComboBonus (comboIncrease s))))"
  have pk: "processKill t d al s = (if isBoss al then bossDefeated (X s) else X s)" for s
    by (simp add: processKill_def Let_def X_def)
  have x: "besidesCombo (X b) = besidesCombo (X a)"
    unfolding X_def
    by (rule powerUpDrop_besides_cong, rule creditKill_besides_cong,
        rule perfectComboBonus_besides_cong, rule comboIncrease_besides_cong, rule assms)
  show ?thesis
  proof (cases "isBoss al")
    case True
    have "besidesCombo (bossDefeated (X b)) = besidesCombo (bossDefeated (X a))"
      using x by (rule bossDefeated_besides_cong)
    then show ?thesis unfolding pk using True by simp
  next
    case False
    then show ?thesis unfolding pk using x by simp
  qed
qed

lemma processKills_besides_cong:
  "besidesCombo b = besidesCombo a \<Longrightarrow>
   besidesCombo (processKills t r k as b) = besidesCombo (processKills t r k as a)"
proof (induction as arbitrary: k a b)
  case Nil
  then show ?case by simp
next
  case (Cons al as)
  show ?case
    unfolding processKills.simps
    by (rule Cons.IH) (rule processKill_besides_cong, rule Cons.prems)
qed

lemma tickResolved_besides:
  fixes s :: GameState and x m w :: int
  defines "s' \<equiv> s\<lparr> lastShotTime := x, missesInWindow := m, missWindowStart := w \<rparr>"
  shows "besidesCombo (tickResolved t r s') = besidesCombo (tickResolved t r s)"
proof -
  have d: "destroyedAliens (tickCollisions t s') = destroyedAliens (tickCollisions t s)"
    and rm: "bulletsToRemove (tickCollisions t s') = bulletsToRemove (tickCollisions t s)"
    and st: "besidesCombo (accState (tickCollisions t s')) = besidesCombo (accState (tickCollisions t s))"
    unfolding s'_def by (rule tickCollisions_besides)+
  show ?thesis
    unfolding tickResolved_def Let_def d rm
    by (intro besidesCombo_bullets_cong besidesCombo_aliens_cong processKills_besides_cong st)
qed

subsection \<open>Aliens reaching the bottom\<close>

lemma alienEscapes_besides_cong:
  assumes "besidesCombo b = besidesCombo a"
  shows "besidesCombo (alienEscapes t p al b) = besidesCombo (alienEscapes t p al a)"
  unfolding alienEscapes_def Let_def using assms
  by (auto intro!: outOfLives_besides_cong removeAlienById_besides_cong
      missedScorePenalty_besides_cong screenOverflow_besides_cong bossReachedBottom_besides_cong
      softMissReset_besides_cong recordEscape_besides_cong)

lemma foldl_alienEscapes_besides_cong:
  "besidesCombo b = besidesCombo a \<Longrightarrow>
   besidesCombo (foldl (\<lambda>s al. alienEscapes t p al s) b as) =
   besidesCombo (foldl (\<lambda>s al. alienEscapes t p al s) a as)"
proof (induction as arbitrary: a b)
  case Nil
  then show ?case by simp
next
  case (Cons al as)
  show ?case
    unfolding foldl_Cons
    by (rule Cons.IH) (rule alienEscapes_besides_cong, rule Cons.prems)
qed

lemma tick_besides:
  fixes s :: GameState and x m w :: int
  defines "s' \<equiv> s\<lparr> lastShotTime := x, missesInWindow := m, missWindowStart := w \<rparr>"
  shows "besidesCombo (tick t r s') = besidesCombo (tick t r s)"
proof -
  have c: "besidesCombo (cannonCollision (tickResolved t r s')) =
      besidesCombo (cannonCollision (tickResolved t r s))"
    unfolding s'_def by (rule cannonCollision_besides_cong) (rule tickResolved_besides)
  have sc: "score s' = score s" by (simp add: s'_def)
  show ?thesis
    unfolding tick_unfold aliensReachingBottom_def sc besidesCombo_fields(1) [OF c]
    by (rule foldl_alienEscapes_besides_cong) (rule c)
qed

subsection \<open>The score at the end of a tick\<close>

lemma alienEscapes_score:
  "score (alienEscapes t p al s) =
     (if alienY al < -3 \<and> missedPenalty p > 0 then max 0 (score s - missedPenalty p)
      else score s)"
  by (simp add: alienEscapes_def Let_def missedScorePenalty_def)

lemma foldl_alienEscapes_score:
  "score (foldl (\<lambda>s al. alienEscapes t p al s) s as) =
     foldl (\<lambda>v al. if alienY al < -3 \<and> missedPenalty p > 0 then max 0 (v - missedPenalty p) else v)
       (score s) as"
  by (induction as arbitrary: s) (simp_all add: alienEscapes_score)

lemma tick_score:
  "score (tick t r s) =
     foldl (\<lambda>v al. if alienY al < -3 \<and> missedPenalty (getScorePressure (calculateLevelFromScore (score s))) > 0
          then max 0 (v - missedPenalty (getScorePressure (calculateLevelFromScore (score s)))) else v)
       (score (tickResolved t r s)) (aliens (cannonCollision (tickResolved t r s)))"
  by (simp add: tick_unfold aliensReachingBottom_def foldl_alienEscapes_score)

lemma tickResolved_score_perfect:
  "score (tickResolved t r s) =
     score s + (\<Sum>a\<leftarrow>destroyedAliens (tickCollisions t s). killCredit (accState (tickCollisions t s)) a) +
     (if perfectInTick t s then PERFECT_COMBO_BONUS else 0)"
  by (simp add: tickResolved_score perfectInTick_def)

lemma tick_score_besides:
  fixes s :: GameState and x m w :: int
  defines "s' \<equiv> s\<lparr> lastShotTime := x, missesInWindow := m, missWindowStart := w \<rparr>"
  assumes "perfectInTick t s' = perfectInTick t s"
  shows "score (tick t r s') = score (tick t r s)"
proof -
  have d: "destroyedAliens (tickCollisions t s') = destroyedAliens (tickCollisions t s)"
    unfolding s'_def by (rule tickCollisions_besides)
  have f: "score s' = score s" "combo s' = combo s" "activePowerUps s' = activePowerUps s"
    by (simp_all add: s'_def)
  have "score (tickResolved t r s') = score (tickResolved t r s)"
    unfolding tickResolved_score_perfect killCredit_tickCollisions d f assms(2) ..
  moreover have "aliens (cannonCollision (tickResolved t r s')) =
      aliens (cannonCollision (tickResolved t r s))"
    unfolding s'_def
    by (rule besidesCombo_fields) (rule cannonCollision_besides_cong, rule tickResolved_besides)
  ultimately show ?thesis
    unfolding tick_score f by simp
qed

lemma tickTimers_combo_window:
  "combo (tickTimers t (s\<lparr> missesInWindow := m, missWindowStart := w \<rparr>)) = combo (tickTimers t s)"
  by (simp add: tickTimers_combo_eq idleDetection_def comboDecayStep_def Let_def)

lemma perfectInTick_window:
  "perfectInTick t (s\<lparr> missesInWindow := m, missWindowStart := w \<rparr>) = perfectInTick t s"
proof -
  have "destroyedAliens (tickCollisions t (s\<lparr> lastShotTime := lastShotTime s, missesInWindow := m, missWindowStart := w \<rparr>)) =
      destroyedAliens (tickCollisions t s)"
    by (rule tickCollisions_besides)
  then show ?thesis
    by (simp add: perfectInTick_def tickTimers_combo_window)
qed

lemma perfectInTick_no_kill:
  "destroyedAliens (tickCollisions t s) = [] \<Longrightarrow> \<not> perfectInTick t s"
  by (simp add: perfectInTick_def)


lemma tick_score_window:
  "score (tick t r (s\<lparr> missesInWindow := m, missWindowStart := w \<rparr>)) = score (tick t r s)"
proof -
  have e: "s\<lparr> lastShotTime := lastShotTime s, missesInWindow := m, missWindowStart := w \<rparr> =
      s\<lparr> missesInWindow := m, missWindowStart := w \<rparr>"
    by simp
  have "score (tick t r (s\<lparr> lastShotTime := lastShotTime s, missesInWindow := m, missWindowStart := w \<rparr>)) =
      score (tick t r s)"
    by (rule tick_score_besides) (simp only: e perfectInTick_window)
  then show ?thesis by (simp only: e)
qed

lemma tick_score_idle:
  assumes "perfectInTick t (s\<lparr> lastShotTime := x \<rparr>) = perfectInTick t s"
  shows "score (tick t r (s\<lparr> lastShotTime := x \<rparr>)) = score (tick t r s)"
proof -
  have e: "s\<lparr> lastShotTime := x, missesInWindow := missesInWindow s,
        missWindowStart := missWindowStart s \<rparr> = s\<lparr> lastShotTime := x \<rparr>"
    by simp
  have "score (tick t r (s\<lparr> lastShotTime := x, missesInWindow := missesInWindow s,
        missWindowStart := missWindowStart s \<rparr>)) = score (tick t r s)"
    by (rule tick_score_besides) (simp only: e assms)
  then show ?thesis by (simp only: e)
qed

lemma tickCollisions_destroyed_idle:
  "destroyedAliens (tickCollisions t (s\<lparr> lastShotTime := x \<rparr>)) =
   destroyedAliens (tickCollisions t s)"
proof -
  have e: "s\<lparr> lastShotTime := x, missesInWindow := missesInWindow s,
        missWindowStart := missWindowStart s \<rparr> = s\<lparr> lastShotTime := x \<rparr>"
    by simp
  have "destroyedAliens (tickCollisions t (s\<lparr> lastShotTime := x, missesInWindow := missesInWindow s,
        missWindowStart := missWindowStart s \<rparr>)) = destroyedAliens (tickCollisions t s)"
    by (rule tickCollisions_besides)
  then show ?thesis by (simp only: e)
qed

lemma tick_score_idle_no_kill:
  assumes "destroyedAliens (tickCollisions t s) = []"
  shows "score (tick t r (s\<lparr> lastShotTime := x \<rparr>)) = score (tick t r s)"
proof (rule tick_score_idle)
  have "\<not> perfectInTick t s" using assms by (rule perfectInTick_no_kill)
  moreover have "\<not> perfectInTick t (s\<lparr> lastShotTime := x \<rparr>)"
    by (rule perfectInTick_no_kill) (simp only: tickCollisions_destroyed_idle assms)
  ultimately show "perfectInTick t (s\<lparr> lastShotTime := x \<rparr>) = perfectInTick t s" by simp
qed

text \<open>
  C4 (amended). The two soft penalties assign the combo bookkeeping only: the idle
  reset sets combo and comboTimer to 0, the miss reset sets these two to 0 and restarts
  the miss window; lives, score and status are not assigned. What sets them off is the
  time of the last shot (idle) and the counter and the start of the miss window; a tick
  from a state that differs in these three fields only, so that the penalties fire in
  one run and not in the other, ends with the same lives and the same status, and with
  the same value in every field but combo, comboTimer, maxCombo, score, lastShotTime and
  the two fields of the miss window. The score is the same with and without the miss
  reset. The score is the same with and without the idle reset when the reset does not
  change whether the kills of the tick take the combo to 50, in particular in a tick
  without a kill: the idle reset is applied before the kills of the tick are counted.
\<close>

theorem soft_penalties:
  "lives (idleDetection t s) = lives s \<and> score (idleDetection t s) = score s \<and>
   status (idleDetection t s) = status s \<and>
   lives (softMissReset t s) = lives s \<and> score (softMissReset t s) = score s \<and>
   status (softMissReset t s) = status s \<and>
   besidesCombo (idleDetection t s) = besidesCombo s \<and>
   besidesCombo (softMissReset t s) = besidesCombo s \<and>
   (0 < combo s \<and> 15000 \<le> t - lastShotTime s \<longrightarrow>
      combo (idleDetection t s) = 0 \<and> comboTimer (idleDetection t s) = 0) \<and>
   (3 \<le> missesInWindow s \<longrightarrow>
      combo (softMissReset t s) = 0 \<and> comboTimer (softMissReset t s) = 0 \<and>
      missesInWindow (softMissReset t s) = 0 \<and> missWindowStart (softMissReset t s) = t) \<and>
   besidesCombo (tick t r (s\<lparr> lastShotTime := x, missesInWindow := m, missWindowStart := w \<rparr>)) =
     besidesCombo (tick t r s) \<and>
   lives (tick t r (s\<lparr> lastShotTime := x, missesInWindow := m, missWindowStart := w \<rparr>)) =
     lives (tick t r s) \<and>
   status (tick t r (s\<lparr> lastShotTime := x, missesInWindow := m, missWindowStart := w \<rparr>)) =
     status (tick t r s) \<and>
   score (tick t r (s\<lparr> missesInWindow := m, missWindowStart := w \<rparr>)) = score (tick t r s) \<and>
   (perfectInTick t (s\<lparr> lastShotTime := x \<rparr>) = perfectInTick t s \<longrightarrow>
      score (tick t r (s\<lparr> lastShotTime := x \<rparr>)) = score (tick t r s)) \<and>
   (destroyedAliens (tickCollisions t s) = [] \<longrightarrow>
      score (tick t r (s\<lparr> lastShotTime := x \<rparr>)) = score (tick t r s))"
proof -
  have b: "besidesCombo (tick t r (s\<lparr> lastShotTime := x, missesInWindow := m, missWindowStart := w \<rparr>)) =
     besidesCombo (tick t r s)"
    by (rule tick_besides)
  have 1: "lives (tick t r (s\<lparr> lastShotTime := x, missesInWindow := m, missWindowStart := w \<rparr>)) =
     lives (tick t r s)"
    using b by (rule besidesCombo_fields)
  have 2: "status (tick t r (s\<lparr> lastShotTime := x, missesInWindow := m, missWindowStart := w \<rparr>)) =
     status (tick t r s)"
    using b by (rule besidesCombo_fields)
  have 3: "lives (idleDetection t s) = lives s \<and> score (idleDetection t s) = score s \<and>
     status (idleDetection t s) = status s \<and>
     lives (softMissReset t s) = lives s \<and> score (softMissReset t s) = score s \<and>
     status (softMissReset t s) = status s"
    by (simp add: idleDetection_def softMissReset_def)
  have 4: "besidesCombo (idleDetection t s) = besidesCombo s"
    by (rule idleDetection_besides)
  have 5: "besidesCombo (softMissReset t s) = besidesCombo s"
    by (simp add: softMissReset_def besidesCombo_def)
  have 6: "0 < combo s \<and> 15000 \<le> t - lastShotTime s \<Longrightarrow>
      combo (idleDetection t s) = 0 \<and> comboTimer (idleDetection t s) = 0"
    by (simp add: idleDetection_def)
  have 7: "3 \<le> missesInWindow s \<Longrightarrow>
      combo (softMissReset t s) = 0 \<and> comboTimer (softMissReset t s) = 0 \<and>
      missesInWindow (softMissReset t s) = 0 \<and> missWindowStart (softMissReset t s) = t"
    by (simp add: softMissReset_def MISS_THRESHOLD_def)
  have 8: "score (tick t r (s\<lparr> missesInWindow := m, missWindowStart := w \<rparr>)) = score (tick t r s)"
    by (rule tick_score_window)
  have 9: "perfectInTick t (s\<lparr> lastShotTime := x \<rparr>) = perfectInTick t s \<Longrightarrow>
      score (tick t r (s\<lparr> lastShotTime := x \<rparr>)) = score (tick t r s)"
    by (rule tick_score_idle)
  have 10: "destroyedAliens (tickCollisions t s) = [] \<Longrightarrow>
      score (tick t r (s\<lparr> lastShotTime := x \<rparr>)) = score (tick t r s)"
    by (rule tick_score_idle_no_kill)
  show ?thesis
    using b 1 2 3 4 5 6 7 8 9 10 by blast
qed


theorem soft_penalties_witness:
  "combo (run (initialState 0 0 0)
     [Fire 0, SpawnAlien 0 (-1.82) Red 1 None None, Tick 0 (\<lambda>_. 0)]) = 1 \<and>
   lastShotTime (run (initialState 0 0 0)
     [Fire 0, SpawnAlien 0 (-1.82) Red 1 None None, Tick 0 (\<lambda>_. 0)]) = 0 \<and>
   combo (idleDetection 20000 (run (initialState 0 0 0)
     [Fire 0, SpawnAlien 0 (-1.82) Red 1 None None, Tick 0 (\<lambda>_. 0)])) = 0 \<and>
   combo (tick 20000 (\<lambda>_. 0) (run (initialState 0 0 0)
     [Fire 0, SpawnAlien 0 (-1.82) Red 1 None None, Tick 0 (\<lambda>_. 0)])) = 0 \<and>
   combo (tick 20000 (\<lambda>_. 0) ((run (initialState 0 0 0)
     [Fire 0, SpawnAlien 0 (-1.82) Red 1 None None, Tick 0 (\<lambda>_. 0)])\<lparr> lastShotTime := 20000 \<rparr>)) = 1 \<and>
   score (tick 20000 (\<lambda>_. 0) ((run (initialState 0 0 0)
     [Fire 0, SpawnAlien 0 (-1.82) Red 1 None None, Tick 0 (\<lambda>_. 0)])\<lparr> lastShotTime := 20000 \<rparr>)) =
   score (tick 20000 (\<lambda>_. 0) (run (initialState 0 0 0)
     [Fire 0, SpawnAlien 0 (-1.82) Red 1 None None, Tick 0 (\<lambda>_. 0)])) \<and>
   lives (tick 20000 (\<lambda>_. 0) ((run (initialState 0 0 0)
     [Fire 0, SpawnAlien 0 (-1.82) Red 1 None None, Tick 0 (\<lambda>_. 0)])\<lparr> lastShotTime := 20000 \<rparr>)) =
   lives (tick 20000 (\<lambda>_. 0) (run (initialState 0 0 0)
     [Fire 0, SpawnAlien 0 (-1.82) Red 1 None None, Tick 0 (\<lambda>_. 0)])) \<and>
   combo (softMissReset 0 (recordEscape (recordEscape (recordEscape (run (initialState 0 0 0)
     [Fire 0, SpawnAlien 0 (-1.82) Red 1 None None, Tick 0 (\<lambda>_. 0)]))))) = 0"
proof -
  define z :: "nat \<Rightarrow> real" where "z = (\<lambda>_. 0)"
  define K where
    "K = run (initialState 0 0 0) [Fire 0, SpawnAlien 0 (-1.82) Red 1 None None, Tick 0 z]"
  define M where "M = recordEscape (recordEscape (recordEscape K))"
  have K: "K = (initialState 0 0 0)\<lparr> score := 100, combo := 1, maxCombo := 1, comboTimer := 2000,
      totalKills := 1, waveKills := 1, shotsFired := 1, shotsHit := 1, powerUpsCollected := 1,
      activePowerUps := [\<lparr> powerType = FireRate, expiresAt = 8000 \<rparr>], idCounter := 2 \<rparr>"
    by (simp add: K_def z_def run_eval level_of_0 cong: let_weak_cong)
  have k: "combo K = 1" "lastShotTime K = 0" "bullets K = []" "aliens K = []"
    by (simp_all add: K initialState_def)
  have q: "tick 20000 z K = tickTimers 20000 K"
    "tick 20000 z (K\<lparr> lastShotTime := 20000 \<rparr>) = tickTimers 20000 (K\<lparr> lastShotTime := 20000 \<rparr>)"
    by (rule tick_quiet; simp add: k)+
  have c: "combo (tick 20000 z K) = 0"
    unfolding q by (rule tickTimers_idle) (simp_all add: k)
  have c': "combo (tick 20000 z (K\<lparr> lastShotTime := 20000 \<rparr>)) = 1"
    unfolding q
    by (simp add: tickTimers_combo_eq idleDetection_def comboDecayStep_def getScorePressure_def
        k K initialState_def level_of_100)
  have d: "destroyedAliens (tickCollisions 20000 K) = []"
    by (simp add: tickCollisions_def detectCollisions_def tickMovement_def Let_def
        updateBullets_def k)
  have p: "perfectInTick 20000 (K\<lparr> lastShotTime := 20000 \<rparr>) = perfectInTick 20000 K"
  proof -
    have "\<not> perfectInTick 20000 K" using d by (rule perfectInTick_no_kill)
    moreover have "\<not> perfectInTick 20000 (K\<lparr> lastShotTime := 20000 \<rparr>)"
      by (rule perfectInTick_no_kill) (simp only: tickCollisions_destroyed_idle d)
    ultimately show ?thesis by simp
  qed
  have m: "3 \<le> missesInWindow M"
    by (simp add: M_def recordEscape_def K initialState_def)
  note T = soft_penalties [where t = 20000 and s = K and r = z and x = 20000 and m = 0 and w = 0]
  have "combo (idleDetection 20000 K) = 0"
    using T k by simp
  moreover have "score (tick 20000 z (K\<lparr> lastShotTime := 20000 \<rparr>)) = score (tick 20000 z K)"
    using T p d by blast
  moreover have "lives (tick 20000 z (K\<lparr> lastShotTime := 20000 \<rparr>)) = lives (tick 20000 z K)"
    using soft_penalties [where t = 20000 and s = K and r = z and x = 20000
        and m = "missesInWindow K" and w = "missWindowStart K"] by simp
  moreover have "combo (softMissReset 0 M) = 0"
    using soft_penalties [where t = 0 and s = M] m by blast
  ultimately show ?thesis
    using k c c' unfolding K_def M_def z_def by simp
qed

lemma level_of_4900: "calculateLevelFromScore 4900 = 3"
  by (rule level_eq_if) (simp_all add: required_one lt_required_iff)

lemma spawnAlien_lastShotTime:
  "spawnAlien x y ty h boss vx (s\<lparr> lastShotTime := v \<rparr>) =
   (spawnAlien x y ty h boss vx s)\<lparr> lastShotTime := v \<rparr>"
  by (simp add: spawnAlien_def Let_def)

text \<open>
  The idle reset changes the score of a tick. 49 shots at one red alien give the combo
  49 and the score 4900. One more shot at time 0 and one more alien, and the tick at
  time 20000: the idle reset comes first, the kill takes the combo from 0 to 1 and is
  worth 400 (the multiplier is that of the combo 49 the tick started with). With the
  last shot at time 20000 there is no idle reset, the kill takes the combo from 49 to
  50, and the PERFECT bonus of 10000 is added.
\<close>

theorem soft_penalties_counterexample:
  "reachable (run (initialState 0 0 0)
     (replicate 49 (Fire 0) @ [SpawnAlien 0 (-1.82) Red 1 None None, Tick 0 (\<lambda>_. 0)] @
      [Fire 0, SpawnAlien 0 (-1.82) Red 1 None None])) \<and>
   reachable ((run (initialState 0 0 0)
     (replicate 49 (Fire 0) @ [SpawnAlien 0 (-1.82) Red 1 None None, Tick 0 (\<lambda>_. 0)] @
      [Fire 0, SpawnAlien 0 (-1.82) Red 1 None None]))\<lparr> lastShotTime := 20000 \<rparr>) \<and>
   combo (run (initialState 0 0 0)
     (replicate 49 (Fire 0) @ [SpawnAlien 0 (-1.82) Red 1 None None, Tick 0 (\<lambda>_. 0)] @
      [Fire 0, SpawnAlien 0 (-1.82) Red 1 None None])) = 49 \<and>
   lastShotTime (run (initialState 0 0 0)
     (replicate 49 (Fire 0) @ [SpawnAlien 0 (-1.82) Red 1 None None, Tick 0 (\<lambda>_. 0)] @
      [Fire 0, SpawnAlien 0 (-1.82) Red 1 None None])) = 0 \<and>
   combo (idleDetection 20000 (run (initialState 0 0 0)
     (replicate 49 (Fire 0) @ [SpawnAlien 0 (-1.82) Red 1 None None, Tick 0 (\<lambda>_. 0)] @
      [Fire 0, SpawnAlien 0 (-1.82) Red 1 None None]))) = 0 \<and>
   combo (idleDetection 20000 ((run (initialState 0 0 0)
     (replicate 49 (Fire 0) @ [SpawnAlien 0 (-1.82) Red 1 None None, Tick 0 (\<lambda>_. 0)] @
      [Fire 0, SpawnAlien 0 (-1.82) Red 1 None None]))\<lparr> lastShotTime := 20000 \<rparr>)) = 49 \<and>
   score (tick 20000 (\<lambda>_. 0) (run (initialState 0 0 0)
     (replicate 49 (Fire 0) @ [SpawnAlien 0 (-1.82) Red 1 None None, Tick 0 (\<lambda>_. 0)] @
      [Fire 0, SpawnAlien 0 (-1.82) Red 1 None None]))) = 5300 \<and>
   score (tick 20000 (\<lambda>_. 0) ((run (initialState 0 0 0)
     (replicate 49 (Fire 0) @ [SpawnAlien 0 (-1.82) Red 1 None None, Tick 0 (\<lambda>_. 0)] @
      [Fire 0, SpawnAlien 0 (-1.82) Red 1 None None]))\<lparr> lastShotTime := 20000 \<rparr>)) = 15300"
proof -
  define z :: "nat \<Rightarrow> real" where "z = (\<lambda>_. 0)"
  define sp where "sp = SpawnAlien 0 (-1.82) Red 1 None None"
  define s0 where "s0 = initialState 0 0 0"
  define s1 where "s1 = run s0 (replicate (Suc 48) (Fire 0) @ [sp, Tick 0 z])"
  define G where "G = run s1 [Fire 0, sp]"
  define G' where "G' = run s1 [Fire 20000, sp]"
  have z: "\<forall>k. z k < 1" by (simp add: z_def)
  have v1: "bullets s1 = [] \<and> aliens s1 = [] \<and> playerX s1 = 0 \<and> playerY s1 = -2.5 \<and> wave s1 = 1 \<and>
    (\<forall>p \<in> set (activePowerUps s1). powerType p = FireRate) \<and>
    combo s1 = (if combo s0 > 0 \<and> (0::int) - 0 \<ge> 15000 then 0 else combo s0) + int (Suc 48) \<and>
    score s1 = score s0 + int (Suc 48) * (100 * multiplier (getComboMultiplier (combo s0))) +
      (if (if combo s0 > 0 \<and> (0::int) - 0 \<ge> 15000 then 0 else combo s0) < 50 \<and>
          50 \<le> (if combo s0 > 0 \<and> (0::int) - 0 \<ge> 15000 then 0 else combo s0) + int (Suc 48)
       then 10000 else 0) \<and>
    lastShotTime s1 = 0"
    unfolding s1_def sp_def
    by (rule volley) (simp_all add: s0_def initialState_def level_of_0 z)
  then have c1: "combo s1 = 49" and sc1: "score s1 = 4900"
    by (simp_all add: s0_def initialState_def getComboMultiplier_def)
  have f1: "bullets s1 = []" "aliens s1 = []" "playerX s1 = 0" "playerY s1 = -2.5" "wave s1 = 1"
    and p1: "\<forall>p \<in> set (activePowerUps s1). powerType p = FireRate"
    using v1 by blast+
  have np: "\<not> hasPowerUp SpreadShot (activePowerUps s1)" "\<not> hasPowerUp DoubleBullets (activePowerUps s1)"
    using p1 by (simp_all add: hasPowerUp_fireRate_only)
  have fire: "fire v s1 = (fire 0 s1)\<lparr> lastShotTime := v \<rparr>" for v
    using np f1 by (simp add: fire_plain)
  have G': "G' = G\<lparr> lastShotTime := 20000 \<rparr>"
    unfolding G'_def G_def sp_def
    by (simp add: run_def fire [of 20000] spawnAlien_lastShotTime)
  have Gf: "combo G = 49" "lastShotTime G = 0"
    unfolding G_def sp_def using np f1 c1
    by (simp_all add: run_def fire_plain spawnAlien_def Let_def)
  have t1: "tick 20000 z G = run s1 (replicate (Suc 0) (Fire 0) @ [sp, Tick 20000 z])"
    by (simp add: G_def run_def)
  have t2: "tick 20000 z G' = run s1 (replicate (Suc 0) (Fire 20000) @ [sp, Tick 20000 z])"
    by (simp add: G'_def run_def)
  have a1: "score (tick 20000 z G) = score s1 + int (Suc 0) * (100 * multiplier (getComboMultiplier (combo s1))) +
      (if (if combo s1 > 0 \<and> (20000::int) - 0 \<ge> 15000 then 0 else combo s1) < 50 \<and>
          50 \<le> (if combo s1 > 0 \<and> (20000::int) - 0 \<ge> 15000 then 0 else combo s1) + int (Suc 0)
       then 10000 else 0)"
    unfolding t1 sp_def
    using volley [where s = s1 and n = 0 and r = z and t = 20000 and tf = 0] f1 p1 z
    by (simp add: sc1 level_of_4900)
  have a2: "score (tick 20000 z G') = score s1 + int (Suc 0) * (100 * multiplier (getComboMultiplier (combo s1))) +
      (if (if combo s1 > 0 \<and> (20000::int) - 20000 \<ge> 15000 then 0 else combo s1) < 50 \<and>
          50 \<le> (if combo s1 > 0 \<and> (20000::int) - 20000 \<ge> 15000 then 0 else combo s1) + int (Suc 0)
       then 10000 else 0)"
    unfolding t2 sp_def
    using volley [where s = s1 and n = 0 and r = z and t = 20000 and tf = 20000] f1 p1 z
    by (simp add: sc1 level_of_4900)
  have b1: "score (tick 20000 z G) = 5300"
    unfolding a1 by (simp add: c1 sc1 getComboMultiplier_def)
  have b2: "score (tick 20000 z G') = 15300"
    unfolding a2 by (simp add: c1 sc1 getComboMultiplier_def)
  have r: "reachable G" "reachable G'"
    unfolding G_def G'_def s1_def s0_def
    by (intro reachable_run reachable_initial)+
  have e: "run (initialState 0 0 0)
     (replicate 49 (Fire 0) @ [SpawnAlien 0 (-1.82) Red 1 None None, Tick 0 (\<lambda>_. 0)] @
      [Fire 0, SpawnAlien 0 (-1.82) Red 1 None None]) = G"
  proof -
    have "replicate 49 (Fire 0) @ [SpawnAlien 0 (-1.82) Red 1 None None, Tick 0 (\<lambda>_. 0)] @
      [Fire 0, SpawnAlien 0 (-1.82) Red 1 None None] =
      (replicate (Suc 48) (Fire 0) @ [sp, Tick 0 z]) @ [Fire 0, sp]"
      by (simp add: sp_def z_def)
    then show ?thesis
      unfolding G_def s1_def s0_def by (simp only: run_append)
  qed
  have i: "combo (idleDetection 20000 G) = 0"
    "combo (idleDetection 20000 (G\<lparr> lastShotTime := 20000 \<rparr>)) = 49"
    by (simp_all add: idleDetection_combo Gf)
  show ?thesis
    unfolding e using r b1 b2 Gf i unfolding G' z_def by simp
qed

end
